theory Spec2Isabelle
  imports Complex_Main "HOL-Library.Word"
begin

unbundle bit_operations_syntax

section \<open>DNS messages\<close>

text \<open>
  The forwarder works on messages decoded by the ldns library. A message is a record
  whose fields carry the names of the ldns accessors that read them, so that
  \<open>ldns_pkt_id request\<close> in the model is \<open>ldns_pkt_id(request)\<close> in the source,
  and \<open>p\<lparr>ldns_pkt_id := x\<rparr>\<close> is \<open>ldns_pkt_set_id(p, x)\<close>.
  Octets are \<open>char\<close>s. A section is the list of its records; ldns keeps the header
  counts equal to the section lengths (in the parser, in \<open>ldns_pkt_push_rr\<close>, and at
  every place where the forwarder sets a count it sets the section next to it), so the
  counts are derived here. A section pointer that is null is the empty list.
\<close>

type_synonym ldns_rr_type = nat
type_synonym ldns_rr_class = nat

definition LDNS_RR_TYPE_A :: ldns_rr_type where "LDNS_RR_TYPE_A = 1"
definition LDNS_RR_TYPE_CNAME :: ldns_rr_type where "LDNS_RR_TYPE_CNAME = 5"
definition LDNS_RR_TYPE_SOA :: ldns_rr_type where "LDNS_RR_TYPE_SOA = 6"
definition LDNS_RR_TYPE_TXT :: ldns_rr_type where "LDNS_RR_TYPE_TXT = 16"
definition LDNS_RR_TYPE_AAAA :: ldns_rr_type where "LDNS_RR_TYPE_AAAA = 28"
definition LDNS_RR_CLASS_IN :: ldns_rr_class where "LDNS_RR_CLASS_IN = 1"

datatype ldns_pkt_rcode =
    LDNS_RCODE_NOERROR | LDNS_RCODE_FORMERR | LDNS_RCODE_SERVFAIL | LDNS_RCODE_NXDOMAIN
  | LDNS_RCODE_NOTIMPL | LDNS_RCODE_REFUSED | LDNS_RCODE_YXDOMAIN | LDNS_RCODE_YXRRSET
  | LDNS_RCODE_NXRRSET | LDNS_RCODE_NOTAUTH | LDNS_RCODE_NOTZONE

datatype ldns_rdf_type =
    LDNS_RDF_TYPE_DNAME | LDNS_RDF_TYPE_A | LDNS_RDF_TYPE_AAAA | LDNS_RDF_TYPE_TIME
  | LDNS_RDF_TYPE_PERIOD | LDNS_RDF_TYPE_OTHER

text \<open>
  A record data field is known by the ldns constructor that made it: from octets (every
  field of a parsed message, and every field that ldns parsed from presentation text), or
  from a 32-bit number.
\<close>

datatype ldns_rdf =
    RDF_DATA ldns_rdf_type "char list"
  | RDF_INT32 ldns_rdf_type "32 word"

definition ldns_rdf_new_frm_data :: "ldns_rdf_type \<Rightarrow> char list \<Rightarrow> ldns_rdf" where
  "ldns_rdf_new_frm_data t d = RDF_DATA t d"

definition ldns_native2rdf_int32 :: "ldns_rdf_type \<Rightarrow> 32 word \<Rightarrow> ldns_rdf" where
  "ldns_native2rdf_int32 t v = RDF_INT32 t v"

record ldns_rr =
  ldns_rr_owner :: "char list"
  ldns_rr_ttl :: "32 word"
  ldns_rr_get_type :: ldns_rr_type
  ldns_rr_get_class :: ldns_rr_class
  ldns_rr_rdfs :: "ldns_rdf list"

record ldns_pkt =
  ldns_pkt_id :: "16 word"
  ldns_pkt_qr :: bool
  ldns_pkt_aa :: bool
  ldns_pkt_tc :: bool
  ldns_pkt_rd :: bool
  ldns_pkt_cd :: bool
  ldns_pkt_ra :: bool
  ldns_pkt_ad :: bool
  ldns_pkt_get_rcode :: ldns_pkt_rcode
  ldns_pkt_question :: "ldns_rr list"
  ldns_pkt_answer :: "ldns_rr list"
  ldns_pkt_authority :: "ldns_rr list"
  ldns_pkt_additional :: "ldns_rr list"
  ldns_pkt_edns_present :: bool
  ldns_pkt_edns_udp_size :: "16 word"
  ldns_pkt_edns_extended_rcode :: "8 word"
  ldns_pkt_edns_version :: "8 word"
  ldns_pkt_edns_z :: "16 word"
  ldns_pkt_edns_data :: "char list option"

definition ldns_pkt_qdcount :: "ldns_pkt \<Rightarrow> nat" where
  "ldns_pkt_qdcount p = length (ldns_pkt_question p)"

definition ldns_pkt_ancount :: "ldns_pkt \<Rightarrow> nat" where
  "ldns_pkt_ancount p = length (ldns_pkt_answer p)"

definition ldns_pkt_nscount :: "ldns_pkt \<Rightarrow> nat" where
  "ldns_pkt_nscount p = length (ldns_pkt_authority p)"

definition ldns_pkt_arcount :: "ldns_pkt \<Rightarrow> nat" where
  "ldns_pkt_arcount p = length (ldns_pkt_additional p)"

text \<open>The DO bit is the top bit of the EDNS Z field; the other fifteen are unassigned.\<close>

definition ldns_pkt_edns_do :: "ldns_pkt \<Rightarrow> bool" where
  "ldns_pkt_edns_do p = (ldns_pkt_edns_z p AND 0x8000 \<noteq> 0)"

definition ldns_pkt_edns_unassigned :: "ldns_pkt \<Rightarrow> 16 word" where
  "ldns_pkt_edns_unassigned p = ldns_pkt_edns_z p AND 0x7FFF"

definition ldns_pkt_edns :: "ldns_pkt \<Rightarrow> bool" where
  "ldns_pkt_edns p =
     (ldns_pkt_edns_udp_size p \<noteq> 0 \<or> ldns_pkt_edns_extended_rcode p \<noteq> 0 \<or>
      ldns_pkt_edns_data p \<noteq> None \<or> ldns_pkt_edns_do p \<or> ldns_pkt_edns_present p)"

text \<open>\<open>ldns_pkt_new\<close>: every flag clear, every section empty, no EDNS.\<close>

definition ldns_pkt_new :: ldns_pkt where
  "ldns_pkt_new =
     \<lparr>ldns_pkt_id = 0, ldns_pkt_qr = False, ldns_pkt_aa = False, ldns_pkt_tc = False,
      ldns_pkt_rd = False, ldns_pkt_cd = False, ldns_pkt_ra = False, ldns_pkt_ad = False,
      ldns_pkt_get_rcode = LDNS_RCODE_NOERROR, ldns_pkt_question = [],
      ldns_pkt_answer = [], ldns_pkt_authority = [], ldns_pkt_additional = [],
      ldns_pkt_edns_present = False, ldns_pkt_edns_udp_size = 0,
      ldns_pkt_edns_extended_rcode = 0, ldns_pkt_edns_version = 0, ldns_pkt_edns_z = 0,
      ldns_pkt_edns_data = None\<rparr>"

definition ldns_rr_new :: ldns_rr where
  "ldns_rr_new =
     \<lparr>ldns_rr_owner = [], ldns_rr_ttl = 0, ldns_rr_get_type = 0, ldns_rr_get_class = 0,
      ldns_rr_rdfs = []\<rparr>"

section \<open>Settings, upstreams and forwarder state\<close>

datatype dnsproxy_blocking_mode =
  DEFAULT | REFUSED | NXDOMAIN | UNSPECIFIED_ADDRESS | CUSTOM_ADDRESS

text \<open>
  Modelled from the spec: \<open>dnsproxy_settings\<close> is declared in dnsproxy_settings.h, which
  is not among the sources; the fields are the options the forwarder reads, typed as
  section 6 of the specification describes them. \<open>dns64\<close> stands for
  \<open>settings.dns64.has_value()\<close>.
\<close>

record dnsproxy_settings =
  blocking_mode :: dnsproxy_blocking_mode
  blocked_response_ttl_secs :: "32 word"
  custom_blocking_ipv4 :: string
  custom_blocking_ipv6 :: string
  dns_cache_size :: nat
  optimistic_cache :: bool
  block_ipv6 :: bool
  dns64 :: bool

type_synonym err_string = "string option"

record cached_response =
  response :: ldns_pkt
  expires_at :: int
  upstream_id :: "int option"

record cache_result =
  cr_response :: "ldns_pkt option"
  cr_upstream_id :: "int option"
  expired :: bool

text \<open>
  Modelled from the spec: \<open>ag::lru_cache\<close> (ag_cache.h) is not among the sources. The
  specification describes a bounded LRU map whose lookups mutate recency ("the LRU state
  reflects last access") and which evicts the least recently used entry when over
  capacity. The list is kept in recency order, most recently used first: \<open>get\<close> moves
  the entry it finds to the front, \<open>insert\<close> puts the new entry at the front and drops the
  last one when the capacity is exceeded. \<open>make_lru\<close>, which the forwarder calls on an
  expired entry, is modelled by the specification's sentence on that call: "on expiry,
  bump the entry to most-recently-used".
\<close>

record lru_cache =
  max_size :: nat
  key_values :: "(string \<times> cached_response) list"

definition lru_find :: "lru_cache \<Rightarrow> string \<Rightarrow> cached_response option" where
  "lru_find c k = map_of (key_values c) k"

definition lru_without :: "string \<Rightarrow> (string \<times> cached_response) list \<Rightarrow> (string \<times> cached_response) list" where
  "lru_without k kvs = filter (\<lambda>kv. fst kv \<noteq> k) kvs"

definition lru_get :: "lru_cache \<Rightarrow> string \<Rightarrow> cached_response option \<times> lru_cache" where
  "lru_get c k =
     (case lru_find c k of
        None \<Rightarrow> (None, c)
      | Some v \<Rightarrow> (Some v, c\<lparr>key_values := (k, v) # lru_without k (key_values c)\<rparr>))"

definition lru_make_lru :: "lru_cache \<Rightarrow> string \<Rightarrow> lru_cache" where
  "lru_make_lru c k =
     (case lru_find c k of
        None \<Rightarrow> c
      | Some v \<Rightarrow> c\<lparr>key_values := (k, v) # lru_without k (key_values c)\<rparr>)"

definition lru_insert :: "lru_cache \<Rightarrow> string \<Rightarrow> cached_response \<Rightarrow> lru_cache" where
  "lru_insert c k v =
     (case lru_find c k of
        Some old \<Rightarrow> c\<lparr>key_values := (k, v) # lru_without k (key_values c)\<rparr>
      | None \<Rightarrow>
          (let kvs = (k, v) # key_values c
           in c\<lparr>key_values := (if max_size c < length kvs then butlast kvs else kvs)\<rparr>))"

definition lru_erase :: "lru_cache \<Rightarrow> string \<Rightarrow> lru_cache" where
  "lru_erase c k = c\<lparr>key_values := lru_without k (key_values c)\<rparr>"

text \<open>
  Modelled from the spec: the class \<open>upstream\<close> is declared in upstream.h, which is not
  among the sources. The forwarder reads the address and the id of its options and the
  round-trip time it reports (\<open>rtt()\<close>, in milliseconds).
\<close>

record upstream =
  address :: string
  id_opt :: int
  rtt :: nat

datatype upstream_group = Primary | Fallback

text \<open>
  Modelled from the spec: \<open>upstream::exchange_result\<close> is declared in upstream.h, which is
  not among the sources. An exchange yields a packet and an optional error string.
\<close>

record exchange_result =
  packet :: "ldns_pkt option"
  error :: err_string

text \<open>
  One call of \<open>upstream::exchange\<close>, as it is logged by the model: the group and position
  (in the forwarder's vector) of the upstream called, the round-trip time it had when its
  group was sorted, whether the call reported an error, the upstream as it was when it
  was called, and what the call returned.
\<close>

record exchange_call =
  call_group :: upstream_group
  call_index :: nat
  call_rtt :: nat
  call_failed :: bool
  call_upstream :: upstream
  call_result :: exchange_result

text \<open>
  The mutable state of a \<open>dns_forwarder\<close>. \<open>exchange_log\<close> is not a field of the class:
  it lists the exchanges made so far, oldest first, and is what the dispatch properties
  are stated on.
\<close>

record dns_forwarder =
  upstreams :: "upstream list"
  fallbacks :: "upstream list"
  response_cache :: lru_cache
  async_reqs :: "string list"
  dns64_prefixes :: "char list list"
  exchange_log :: "exchange_call list"

section \<open>The response cache\<close>

definition has_unsupported_extensions :: "ldns_pkt \<Rightarrow> bool" where
  "has_unsupported_extensions pkt =
     (ldns_pkt_edns_data pkt \<noteq> None
      \<or> ldns_pkt_edns_extended_rcode pkt \<noteq> 0
      \<or> ldns_pkt_edns_unassigned pkt \<noteq> 0)"

text \<open>
  Time points of the steady clock are counted in nanoseconds.
  \<open>ceil<seconds>\<close> rounds a duration up to whole seconds.
\<close>

definition seconds :: "nat \<Rightarrow> int" where
  "seconds n = int n * 1000000000"

definition ceil_seconds :: "int \<Rightarrow> int" where
  "ceil_seconds d = - ((- d) div 1000000000)"

definition set_ttls :: "32 word \<Rightarrow> ldns_rr list \<Rightarrow> ldns_rr list" where
  "set_ttls ttl rrs = map (\<lambda>rr. rr\<lparr>ldns_rr_ttl := ttl\<rparr>) rrs"

text \<open>
  The second half of \<open>create_response_from_cache\<close>: the clone of the cached template is
  patched with the request's id, the EDNS UDP size, the request's question section and
  the TTL. \<open>udp_recv_buf_size\<close> is \<open>ag::UDP_RECV_BUF_SIZE\<close> (ag_net_consts.h, not among
  the sources).
\<close>

definition patch_cached_response :: "16 word \<Rightarrow> ldns_pkt \<Rightarrow> ldns_pkt \<Rightarrow> 32 word \<Rightarrow> ldns_pkt" where
  "patch_cached_response udp_recv_buf_size request p0 ttl =
     (let p1 = p0\<lparr>ldns_pkt_id := ldns_pkt_id request\<rparr>;
          p2 = (if ldns_pkt_edns p1 then p1\<lparr>ldns_pkt_edns_udp_size := udp_recv_buf_size\<rparr>
                else p1);
          p3 = p2\<lparr>ldns_pkt_question := ldns_pkt_question request\<rparr>
      in p3\<lparr>ldns_pkt_answer := set_ttls ttl (ldns_pkt_answer p3),
             ldns_pkt_authority := set_ttls ttl (ldns_pkt_authority p3),
             ldns_pkt_additional := set_ttls ttl (ldns_pkt_additional p3)\<rparr>)"

text \<open>
  \<open>create_response_from_cache\<close>. \<open>now\<close> is the reading of the steady clock. The
  remaining lifetime is a 64-bit count of seconds stored into a \<open>uint32_t\<close>.
\<close>

definition create_response_from_cache ::
  "16 word \<Rightarrow> dnsproxy_settings \<Rightarrow> dns_forwarder \<Rightarrow> string \<Rightarrow> ldns_pkt \<Rightarrow> int
     \<Rightarrow> cache_result \<times> dns_forwarder" where
  "create_response_from_cache udp_recv_buf_size settings self key request now =
     (let r = \<lparr>cr_response = None, cr_upstream_id = None, expired = False\<rparr> in
      if dns_cache_size settings = 0 then (r, self)
      else if has_unsupported_extensions request then (r, self)
      else
        (case lru_get (response_cache self) key of
           (None, cache) \<Rightarrow> (r, self\<lparr>response_cache := cache\<rparr>)
         | (Some cached_response_acc, cache) \<Rightarrow>
             (let cached_response_ttl = ceil_seconds (expires_at cached_response_acc - now);
                  is_expired = (cached_response_ttl \<le> 0);
                  cache' = (if is_expired then lru_make_lru cache key else cache);
                  ttl = (if is_expired then 1 else (word_of_int cached_response_ttl :: 32 word))
              in (\<lparr>cr_response =
                     Some (patch_cached_response udp_recv_buf_size request
                             (response cached_response_acc) ttl),
                   cr_upstream_id = upstream_id cached_response_acc,
                   expired = is_expired\<rparr>,
                  self\<lparr>response_cache := cache'\<rparr>))))"

text \<open>\<open>compute_min_rr_ttl\<close>: the three loops fold \<open>std::min\<close> over the sections.\<close>

definition UINT32_MAX :: "32 word" where
  "UINT32_MAX = 0xFFFFFFFF"

definition compute_min_rr_ttl :: "ldns_pkt \<Rightarrow> 32 word" where
  "compute_min_rr_ttl pkt =
     (let m0 = UINT32_MAX;
          m1 = fold (\<lambda>rr m. min m (ldns_rr_ttl rr)) (ldns_pkt_answer pkt) m0;
          m2 = fold (\<lambda>rr m. min m (ldns_rr_ttl rr)) (ldns_pkt_additional pkt) m1;
          m3 = fold (\<lambda>rr m. min m (ldns_rr_ttl rr)) (ldns_pkt_authority pkt) m2
      in if m3 = UINT32_MAX then 0 else m3)"

text \<open>
  \<open>put_response_into_cache\<close>. The question is read before it is stripped; with
  \<open>qdcount = 1\<close> the section has exactly one record.
\<close>

definition put_response_into_cache ::
  "dnsproxy_settings \<Rightarrow> dns_forwarder \<Rightarrow> string \<Rightarrow> ldns_pkt \<Rightarrow> int option \<Rightarrow> int
     \<Rightarrow> dns_forwarder" where
  "put_response_into_cache settings self key resp up_id now =
     (if dns_cache_size settings = 0 then self
      else if ldns_pkt_tc resp
              \<or> ldns_pkt_qdcount resp \<noteq> 1
              \<or> ldns_pkt_get_rcode resp \<noteq> LDNS_RCODE_NOERROR
              \<or> has_unsupported_extensions resp then self
      else
        (let type = ldns_rr_get_type (hd (ldns_pkt_question resp)) in
         if (type = LDNS_RR_TYPE_A \<or> type = LDNS_RR_TYPE_AAAA)
            \<and> \<not> list_ex (\<lambda>rr. ldns_rr_get_type rr = type) (ldns_pkt_answer resp) then self
         else
           (let resp1 = resp\<lparr>ldns_pkt_question := []\<rparr>;
                resp2 = resp1\<lparr>ldns_pkt_aa := False\<rparr>;
                min_rr_ttl = compute_min_rr_ttl resp2
            in if min_rr_ttl = 0 then self
               else
                 self\<lparr>response_cache :=
                   lru_insert (response_cache self) key
                     \<lparr>response = resp2,
                      expires_at = now + seconds (unat min_rr_ttl),
                      upstream_id = up_id\<rparr>\<rparr>)))"


section \<open>Collaborators outside the forwarder\<close>

text \<open>
  Modelled from the spec: \<open>dnsfilter::rule\<close> is declared in dnsfilter.h, which is not
  among the sources. A rule is a filter match carrying its text, the id of its filter
  list, an optional IP literal and property bits, of which the forwarder tests
  \<open>RP_EXCEPTION\<close>.
\<close>

datatype rule_props = RP_EXCEPTION | RP_IMPORTANT | RP_BADFILTER

record rule =
  rule_text :: string
  filter_id :: int
  ip :: "string option"
  props :: "rule_props list"

datatype address_family = AF_INET | AF_INET6

text \<open>
  Everything the forwarder calls but does not define is a field of this record: helpers of
  the repository that are not among the sources (\<open>ag::utils\<close>, the filter, the upstream
  transports, \<open>dns64::synthesize_ipv4_embedded_ipv6_address\<close>, the constants
  \<open>UDP_RECV_BUF_SIZE\<close> and \<open>TIMEOUT_STR\<close>), \<open>inet_pton\<close>, with which ldns reads an address
  from presentation text (the octets, or nothing when the text is no address of the
  family), and the environment (the wall clock read by \<open>time\<close>, the random message id,
  the timer around an exchange). \<open>exchange\<close> and \<open>exchange_elapsed\<close> are asked with the
  number of exchanges made before, so that an upstream may answer each call differently.
\<close>

record externals =
  is_valid_ip4 :: "string \<Rightarrow> bool"
  is_valid_ip6 :: "string \<Rightarrow> bool"
  addr_to_str :: "char list \<Rightarrow> string"
  filter_match :: "string \<Rightarrow> rule list"
  get_effective_rules :: "rule list \<Rightarrow> rule list"
  exchange :: "nat \<Rightarrow> upstream \<Rightarrow> ldns_pkt \<Rightarrow> exchange_result"
  exchange_elapsed :: "nat \<Rightarrow> nat"
  adjust_rtt :: "upstream \<Rightarrow> nat \<Rightarrow> upstream"
  synthesize_ipv4_embedded_ipv6_address :: "char list \<Rightarrow> char list \<Rightarrow> string + char list"
  inet_pton :: "address_family \<Rightarrow> string \<Rightarrow> char list option"
  random_id :: "nat \<Rightarrow> 16 word"
  time_now :: nat
  UDP_RECV_BUF_SIZE :: "16 word"
  TIMEOUT_STR :: string

section \<open>Data fields\<close>

text \<open>The octets of a data field; a 32-bit number is stored in network order.\<close>

definition be32 :: "32 word \<Rightarrow> char list" where
  "be32 v = map (\<lambda>k. char_of (unat (drop_bit k v) mod 256)) [24, 16, 8, 0]"

fun ldns_rdf_data :: "externals \<Rightarrow> ldns_rdf \<Rightarrow> char list" where
  "ldns_rdf_data x (RDF_DATA t d) = d"
| "ldns_rdf_data x (RDF_INT32 t v) = be32 v"

definition ldns_rdf_size :: "externals \<Rightarrow> ldns_rdf \<Rightarrow> nat" where
  "ldns_rdf_size x rdf = length (ldns_rdf_data x rdf)"

section \<open>Names\<close>

text \<open>
  A domain name is held in wire format: labels, each behind its length octet, closed by
  the root label. \<open>ldns_rdf2str\<close> prints the labels, each followed by a dot (the root
  alone is \<open>.\<close>); escapes of unusual octets are left out.
\<close>

fun dname_labels :: "char list \<Rightarrow> string list" where
  "dname_labels [] = []"
| "dname_labels (l # rest) =
     (if of_char l = (0 :: nat) then []
      else take (of_char l) rest # dname_labels (drop (of_char l) rest))"

definition ldns_rdf2str :: "char list \<Rightarrow> string" where
  "ldns_rdf2str d =
     (if dname_labels d = [] then ''.'' else concat (map (\<lambda>l. l @ ''.'') (dname_labels d)))"

definition ldns_dname_str_absolute :: "string \<Rightarrow> bool" where
  "ldns_dname_str_absolute s = (s \<noteq> [] \<and> last s = CHR ''.'')"

section \<open>Data fields made from text\<close>

text \<open>The pieces of a text between its dots; a text that ends in a dot has a last, empty piece.\<close>

fun str_labels :: "string \<Rightarrow> string list" where
  "str_labels [] = [[]]"
| "str_labels (c # s) =
     (if c = CHR ''.'' then [] # str_labels s
      else (case str_labels s of [] \<Rightarrow> [[c]] | l # ls \<Rightarrow> (c # l) # ls))"

text \<open>
  \<open>ldns_str2rdf_dname\<close>, the parser behind \<open>ldns_dname_new_frm_str\<close>: the labels of the
  text, each behind its length octet, closed by the root label. It fails on the empty
  text, on an empty label, on a label of more than 63 octets, and on a name of more than
  255 octets. Escapes are left out, as they are in \<open>ldns_rdf2str\<close>.
\<close>

definition LDNS_MAX_LABELLEN :: nat where "LDNS_MAX_LABELLEN = 63"
definition LDNS_MAX_DOMAINLEN :: nat where "LDNS_MAX_DOMAINLEN = 255"

definition ldns_str2rdf_dname :: "string \<Rightarrow> char list option" where
  "ldns_str2rdf_dname s =
     (if s = [] then None
      else if s = ''.'' then Some [CHR 0x00]
      else
        (let labels = (if ldns_dname_str_absolute s then butlast (str_labels s)
                       else str_labels s)
         in if list_ex (\<lambda>l. l = [] \<or> LDNS_MAX_LABELLEN < length l) labels then None
            else
              (let wire = concat (map (\<lambda>l. char_of (length l) # l) labels) @ [CHR 0x00]
               in if LDNS_MAX_DOMAINLEN < length wire then None else Some wire)))"

text \<open>
  \<open>ldns_rdf_new_frm_str\<close> and \<open>ldns_dname_new_frm_str\<close> return a null pointer when the text
  does not parse; that is the result \<open>None\<close>. The forwarder asks for names and for
  addresses only.
\<close>

definition ldns_rdf_new_frm_str :: "externals \<Rightarrow> ldns_rdf_type \<Rightarrow> string \<Rightarrow> ldns_rdf option" where
  "ldns_rdf_new_frm_str x t s =
     (case t of
        LDNS_RDF_TYPE_DNAME \<Rightarrow> map_option (RDF_DATA t) (ldns_str2rdf_dname s)
      | LDNS_RDF_TYPE_A \<Rightarrow> map_option (RDF_DATA t) (inet_pton x AF_INET s)
      | LDNS_RDF_TYPE_AAAA \<Rightarrow> map_option (RDF_DATA t) (inet_pton x AF_INET6 s)
      | _ \<Rightarrow> None)"

definition ldns_dname_new_frm_str :: "string \<Rightarrow> ldns_rdf option" where
  "ldns_dname_new_frm_str s = map_option (RDF_DATA LDNS_RDF_TYPE_DNAME) (ldns_str2rdf_dname s)"

section \<open>Synthesized responses\<close>

definition MOZILLA_DOH_HOST :: string where
  "MOZILLA_DOH_HOST = ''use-application-dns.net.''"

definition SOA_RETRY_DEFAULT :: "32 word" where
  "SOA_RETRY_DEFAULT = 900"

definition SOA_RETRY_IPV6_BLOCK :: "32 word" where
  "SOA_RETRY_IPV6_BLOCK = 60"

datatype ldns_flag = LDNS_QR | LDNS_AA | LDNS_TC | LDNS_RD | LDNS_CD | LDNS_RA | LDNS_AD

text \<open>\<open>ldns_pkt_set_flags\<close> raises the flags of the mask and leaves the others.\<close>

definition ldns_pkt_set_flags :: "ldns_pkt \<Rightarrow> ldns_flag list \<Rightarrow> ldns_pkt" where
  "ldns_pkt_set_flags p flags =
     p\<lparr>ldns_pkt_qr := ldns_pkt_qr p \<or> LDNS_QR \<in> set flags,
       ldns_pkt_aa := ldns_pkt_aa p \<or> LDNS_AA \<in> set flags,
       ldns_pkt_tc := ldns_pkt_tc p \<or> LDNS_TC \<in> set flags,
       ldns_pkt_rd := ldns_pkt_rd p \<or> LDNS_RD \<in> set flags,
       ldns_pkt_cd := ldns_pkt_cd p \<or> LDNS_CD \<in> set flags,
       ldns_pkt_ra := ldns_pkt_ra p \<or> LDNS_RA \<in> set flags,
       ldns_pkt_ad := ldns_pkt_ad p \<or> LDNS_AD \<in> set flags\<rparr>"

definition ldns_pkt_query_new ::
  "char list \<Rightarrow> ldns_rr_type \<Rightarrow> ldns_rr_class \<Rightarrow> ldns_flag list \<Rightarrow> ldns_pkt" where
  "ldns_pkt_query_new rr_name rr_type rr_class flags =
     (ldns_pkt_set_flags ldns_pkt_new flags)
       \<lparr>ldns_pkt_question :=
          [ldns_rr_new\<lparr>ldns_rr_owner := rr_name,
                       ldns_rr_get_type := (if rr_type = 0 then LDNS_RR_TYPE_A else rr_type),
                       ldns_rr_get_class := (if rr_class = 0 then LDNS_RR_CLASS_IN else rr_class)\<rparr>]\<rparr>"

text \<open>\<open>ldns_pkt_push_rr\<close> appends a record to a section.\<close>

definition push_answer :: "ldns_pkt \<Rightarrow> ldns_rr \<Rightarrow> ldns_pkt" where
  "push_answer p rr = p\<lparr>ldns_pkt_answer := ldns_pkt_answer p @ [rr]\<rparr>"

definition push_authority :: "ldns_pkt \<Rightarrow> ldns_rr \<Rightarrow> ldns_pkt" where
  "push_authority p rr = p\<lparr>ldns_pkt_authority := ldns_pkt_authority p @ [rr]\<rparr>"

definition create_response_by_request :: "ldns_pkt \<Rightarrow> ldns_pkt" where
  "create_response_by_request request =
     (let response0 =
            (case ldns_pkt_question request of
               question # _ \<Rightarrow>
                 (let type = (if ldns_rr_get_type question \<noteq> LDNS_RR_TYPE_AAAA
                              then LDNS_RR_TYPE_A else ldns_rr_get_type question)
                  in ldns_pkt_query_new (ldns_rr_owner question) type LDNS_RR_CLASS_IN
                       [LDNS_RD, LDNS_RA])
             | [] \<Rightarrow> ldns_pkt_set_flags ldns_pkt_new [LDNS_RD, LDNS_RA]);
          response1 = response0\<lparr>ldns_pkt_id := ldns_pkt_id request\<rparr>;
          response2 = response1\<lparr>ldns_pkt_qr := True\<rparr>
      in response2\<lparr>ldns_pkt_question := ldns_pkt_question request\<rparr>)"

text \<open>
  The functions below read the first question record; their callers have checked that
  there is one. Each response made here is handed to \<open>ldns_pkt2wire\<close> at once
  (\<open>transform_response_to_raw_data\<close>), which reads every data field of every record.
  Where the source pushes a data field without looking at it and ldns has returned a null
  pointer for the text, the record holds a null field and no response is returned: the
  result is \<open>None\<close>, as it is where the source asserts that the field is not null.
\<close>

definition get_mbox :: "ldns_pkt \<Rightarrow> string" where
  "get_mbox request =
     (let question = hd (ldns_pkt_question request);
          zone = ldns_rdf2str (ldns_rr_owner question)
      in ''hostmaster.'' @ (if zone \<noteq> [] \<and> hd zone \<noteq> CHR ''.'' then zone else []))"

definition create_soa ::
  "externals \<Rightarrow> ldns_pkt \<Rightarrow> dnsproxy_settings \<Rightarrow> 32 word \<Rightarrow> ldns_rr option" where
  "create_soa x request settings retry_secs =
     (let question = hd (ldns_pkt_question request);
          mbox = get_mbox request
      in case (ldns_dname_new_frm_str ''fake-for-negative-caching.adguard.com.'',
               ldns_dname_new_frm_str mbox) of
           (Some mname, Some rname) \<Rightarrow>
             Some (ldns_rr_new
               \<lparr>ldns_rr_owner := ldns_rr_owner question,
                ldns_rr_ttl := blocked_response_ttl_secs settings,
                ldns_rr_get_type := LDNS_RR_TYPE_SOA,
                ldns_rr_get_class := LDNS_RR_CLASS_IN,
                ldns_rr_rdfs :=
                  [mname,
                   rname,
                   ldns_native2rdf_int32 LDNS_RDF_TYPE_TIME (word_of_nat (time_now x + 100500)),
                   ldns_native2rdf_int32 LDNS_RDF_TYPE_PERIOD 1800,
                   ldns_native2rdf_int32 LDNS_RDF_TYPE_PERIOD retry_secs,
                   ldns_native2rdf_int32 LDNS_RDF_TYPE_PERIOD 604800,
                   ldns_native2rdf_int32 LDNS_RDF_TYPE_PERIOD 86400]\<rparr>)
         | _ \<Rightarrow> None)"

definition create_nxdomain_response ::
  "externals \<Rightarrow> ldns_pkt \<Rightarrow> dnsproxy_settings \<Rightarrow> ldns_pkt option" where
  "create_nxdomain_response x request settings =
     (let response = create_response_by_request request;
          response1 = response\<lparr>ldns_pkt_get_rcode := LDNS_RCODE_NXDOMAIN\<rparr>
      in map_option (push_authority response1) (create_soa x request settings 900))"

definition create_refused_response :: "ldns_pkt \<Rightarrow> dnsproxy_settings \<Rightarrow> ldns_pkt" where
  "create_refused_response request settings =
     (create_response_by_request request)\<lparr>ldns_pkt_get_rcode := LDNS_RCODE_REFUSED\<rparr>"

definition create_soa_response ::
  "externals \<Rightarrow> ldns_pkt \<Rightarrow> dnsproxy_settings \<Rightarrow> 32 word \<Rightarrow> ldns_pkt option" where
  "create_soa_response x request settings retry_secs =
     (let response = create_response_by_request request;
          response1 = response\<lparr>ldns_pkt_get_rcode := LDNS_RCODE_NOERROR\<rparr>
      in map_option (push_authority response1) (create_soa x request settings retry_secs))"

text \<open>
  \<open>create_arecord_response\<close> and \<open>create_aaaarecord_response\<close> make one record and push
  one data field on it for each rule they are given. Their caller passes only rules that
  carry an IP. \<open>assert(rdf)\<close> stops the process at the first IP that ldns does not parse
  as an address of the family; that is the result \<open>None\<close>.
\<close>

definition create_arecord_response ::
  "externals \<Rightarrow> ldns_pkt \<Rightarrow> dnsproxy_settings \<Rightarrow> rule list \<Rightarrow> ldns_pkt option" where
  "create_arecord_response x request settings rules =
     (let question = hd (ldns_pkt_question request);
          rdfs = map (\<lambda>r. ldns_rdf_new_frm_str x LDNS_RDF_TYPE_A (the (ip r))) rules
      in if list_ex (\<lambda>rdf. rdf = None) rdfs then None
         else
           (let answer = ldns_rr_new
                  \<lparr>ldns_rr_owner := ldns_rr_owner question,
                   ldns_rr_ttl := blocked_response_ttl_secs settings,
                   ldns_rr_get_type := LDNS_RR_TYPE_A,
                   ldns_rr_get_class := LDNS_RR_CLASS_IN,
                   ldns_rr_rdfs := map the rdfs\<rparr>;
                response = create_response_by_request request
            in Some (push_answer response answer)))"

definition create_aaaarecord_response ::
  "externals \<Rightarrow> ldns_pkt \<Rightarrow> dnsproxy_settings \<Rightarrow> rule list \<Rightarrow> ldns_pkt option" where
  "create_aaaarecord_response x request settings rules =
     (let question = hd (ldns_pkt_question request);
          rdfs = map (\<lambda>r. ldns_rdf_new_frm_str x LDNS_RDF_TYPE_AAAA (the (ip r))) rules
      in if list_ex (\<lambda>rdf. rdf = None) rdfs then None
         else
           (let answer = ldns_rr_new
                  \<lparr>ldns_rr_owner := ldns_rr_owner question,
                   ldns_rr_ttl := blocked_response_ttl_secs settings,
                   ldns_rr_get_type := LDNS_RR_TYPE_AAAA,
                   ldns_rr_get_class := LDNS_RR_CLASS_IN,
                   ldns_rr_rdfs := map the rdfs\<rparr>;
                response = create_response_by_request request
            in Some (push_answer response answer)))"

text \<open>
  \<open>create_response_with_ips\<close>. \<open>r->ip.value()\<close> throws \<open>std::bad_optional_access\<close> on a
  rule without an IP; the result \<open>None\<close> is that exception, too.
\<close>

definition create_response_with_ips ::
  "externals \<Rightarrow> ldns_pkt \<Rightarrow> dnsproxy_settings \<Rightarrow> rule list \<Rightarrow> ldns_pkt option" where
  "create_response_with_ips x request settings rules =
     (let question = hd (ldns_pkt_question request);
          type = ldns_rr_get_type question
      in if type = LDNS_RR_TYPE_A then
           (if list_ex (\<lambda>r. ip r = None) rules then None
            else
              (let ipv4_rules = filter (\<lambda>r. is_valid_ip4 x (the (ip r))) rules
               in if ipv4_rules \<noteq> [] then create_arecord_response x request settings ipv4_rules
                  else create_soa_response x request settings SOA_RETRY_DEFAULT))
         else if type = LDNS_RR_TYPE_AAAA then
           (if list_ex (\<lambda>r. ip r = None) rules then None
            else
              (let ipv6_rules = filter (\<lambda>r. \<not> is_valid_ip4 x (the (ip r))) rules
               in if ipv6_rules \<noteq> [] then create_aaaarecord_response x request settings ipv6_rules
                  else create_soa_response x request settings SOA_RETRY_DEFAULT))
         else create_soa_response x request settings SOA_RETRY_DEFAULT)"

text \<open>
  \<open>create_unspec_or_custom_address_response\<close>, which is called for the types A and AAAA
  only. A custom address that fails the assertion on it gives \<open>None\<close>.
\<close>

definition create_unspec_or_custom_address_response ::
  "externals \<Rightarrow> ldns_pkt \<Rightarrow> dnsproxy_settings \<Rightarrow> ldns_pkt option" where
  "create_unspec_or_custom_address_response x request settings =
     (let question = hd (ldns_pkt_question request);
          type = ldns_rr_get_type question
      in if blocking_mode settings = CUSTOM_ADDRESS
            \<and> (type = LDNS_RR_TYPE_A \<and> custom_blocking_ipv4 settings = []
               \<or> type = LDNS_RR_TYPE_AAAA \<and> custom_blocking_ipv6 settings = [])
         then create_soa_response x request settings SOA_RETRY_DEFAULT
         else
           (let rr = ldns_rr_new
                  \<lparr>ldns_rr_owner := ldns_rr_owner question,
                   ldns_rr_ttl := blocked_response_ttl_secs settings,
                   ldns_rr_get_type := type,
                   ldns_rr_get_class := ldns_rr_get_class question\<rparr>;
                rdf =
                  (if type = LDNS_RR_TYPE_A then
                     (if blocking_mode settings = CUSTOM_ADDRESS
                      then (if is_valid_ip4 x (custom_blocking_ipv4 settings)
                            then ldns_rdf_new_frm_str x LDNS_RDF_TYPE_A
                                   (custom_blocking_ipv4 settings)
                            else None)
                      else ldns_rdf_new_frm_str x LDNS_RDF_TYPE_A ''0.0.0.0'')
                   else
                     (if blocking_mode settings = CUSTOM_ADDRESS
                      then (if is_valid_ip6 x (custom_blocking_ipv6 settings)
                            then ldns_rdf_new_frm_str x LDNS_RDF_TYPE_AAAA
                                   (custom_blocking_ipv6 settings)
                            else None)
                      else ldns_rdf_new_frm_str x LDNS_RDF_TYPE_AAAA ''::''))
            in case rdf of
                 None \<Rightarrow> None
               | Some address_rdf \<Rightarrow>
                   Some (push_answer (create_response_by_request request)
                           (rr\<lparr>ldns_rr_rdfs := ldns_rr_rdfs rr @ [address_rdf]\<rparr>))))"

definition BLOCKING_IPS :: "string list" where
  "BLOCKING_IPS = [''0.0.0.0'', ''127.0.0.1'', ''::'', ''::1'', ''[::]'', ''[::1]'']"

definition rules_contain_blocking_ip :: "rule list \<Rightarrow> bool" where
  "rules_contain_blocking_ip rules =
     list_ex (\<lambda>r. case ip r of None \<Rightarrow> False | Some s \<Rightarrow> s \<in> set BLOCKING_IPS) rules"

text \<open>
  \<open>create_blocking_response\<close>; \<open>rules\<close> is not empty (\<open>apply_filter\<close> has checked), and
  its first element is the effective rule.
\<close>

definition create_blocking_response ::
  "externals \<Rightarrow> ldns_pkt \<Rightarrow> dnsproxy_settings \<Rightarrow> rule list \<Rightarrow> ldns_pkt option" where
  "create_blocking_response x request settings rules =
     (let effective_rule = hd rules;
          question = hd (ldns_pkt_question request);
          type = ldns_rr_get_type question
      in if type \<noteq> LDNS_RR_TYPE_A \<and> type \<noteq> LDNS_RR_TYPE_AAAA then
           (case blocking_mode settings of
              DEFAULT \<Rightarrow>
                (if ip effective_rule = None then Some (create_refused_response request settings)
                 else create_soa_response x request settings SOA_RETRY_DEFAULT)
            | REFUSED \<Rightarrow> Some (create_refused_response request settings)
            | NXDOMAIN \<Rightarrow> create_nxdomain_response x request settings
            | UNSPECIFIED_ADDRESS \<Rightarrow> create_soa_response x request settings SOA_RETRY_DEFAULT
            | CUSTOM_ADDRESS \<Rightarrow> create_soa_response x request settings SOA_RETRY_DEFAULT)
         else if ip effective_rule = None then
           (case blocking_mode settings of
              DEFAULT \<Rightarrow> Some (create_refused_response request settings)
            | REFUSED \<Rightarrow> Some (create_refused_response request settings)
            | NXDOMAIN \<Rightarrow> create_nxdomain_response x request settings
            | UNSPECIFIED_ADDRESS \<Rightarrow> create_unspec_or_custom_address_response x request settings
            | CUSTOM_ADDRESS \<Rightarrow> create_unspec_or_custom_address_response x request settings)
         else if rules_contain_blocking_ip rules then
           (case blocking_mode settings of
              REFUSED \<Rightarrow> Some (create_refused_response request settings)
            | NXDOMAIN \<Rightarrow> create_nxdomain_response x request settings
            | DEFAULT \<Rightarrow> create_unspec_or_custom_address_response x request settings
            | UNSPECIFIED_ADDRESS \<Rightarrow> create_unspec_or_custom_address_response x request settings
            | CUSTOM_ADDRESS \<Rightarrow> create_unspec_or_custom_address_response x request settings)
         else create_response_with_ips x request settings rules)"

definition create_servfail_response :: "ldns_pkt \<Rightarrow> ldns_pkt" where
  "create_servfail_response request =
     (create_response_by_request request)\<lparr>ldns_pkt_get_rcode := LDNS_RCODE_SERVFAIL\<rparr>"

section \<open>The cache key\<close>

text \<open>Decimal digits of a number, as \<open>fmt::format\<close> prints the type and the class.\<close>

function decimal :: "nat \<Rightarrow> string" where
  "decimal n =
     (if n < 10 then [''0123456789'' ! n]
      else decimal (n div 10) @ [''0123456789'' ! (n mod 10)])"
  by pat_completeness auto
termination
  by (relation "measure id") auto

declare decimal.simps [simp del]

text \<open>\<open>std::tolower\<close> in the C locale: the letters A to Z go to a to z, every other octet stays.\<close>

definition tolower :: "char \<Rightarrow> char" where
  "tolower c =
     (case map_of (zip ''ABCDEFGHIJKLMNOPQRSTUVWXYZ'' ''abcdefghijklmnopqrstuvwxyz'') c of
        Some l \<Rightarrow> l
      | None \<Rightarrow> c)"

text \<open>
  The loop of \<open>get_cache_key\<close> over the owner name, from a length octet on: the label in
  lower case, a dot if octets follow, and on with the next length octet. The wire name is
  taken to be well formed, as the parser leaves it: each length octet is followed by that
  many octets, and the name is at most 255 octets long, so that the \<open>uint8_t\<close> position
  does not wrap.
\<close>

fun cache_key_labels :: "char list \<Rightarrow> string" where
  "cache_key_labels [] = []"
| "cache_key_labels (len # data) =
     (if of_char len = (0 :: nat) then []
      else map tolower (take (of_char len) data)
           @ (if drop (of_char len) data \<noteq> [] then ''.'' else [])
           @ cache_key_labels (drop (of_char len) data))"

definition get_cache_key :: "ldns_pkt \<Rightarrow> string" where
  "get_cache_key request =
     (let question = hd (ldns_pkt_question request);
          key = decimal (ldns_rr_get_type question) @ ''|''
                @ decimal (ldns_rr_get_class question) @ ''|''
                @ (if ldns_pkt_edns_do request then ''1'' else ''0'')
                @ (if ldns_pkt_cd request then ''1'' else ''0'') @ ''|'';
          owner = ldns_rr_owner question
      in if length owner = 1 then key @ ''.'' else key @ cache_key_labels owner)"

section \<open>Upstream dispatch\<close>

text \<open>
  A pointer to an upstream of the forwarder is the group and the position of the upstream
  in the vector of its group. \<open>ue_upstream\<close> is the pointer \<open>cur_upstream\<close>: the upstream
  tried last, or nothing when no upstream was tried (the source asserts that there is
  one).
\<close>

type_synonym upstream_ptr = "upstream_group \<times> nat"

record upstream_exchange_result =
  ue_response :: "ldns_pkt option"
  ue_error :: err_string
  ue_upstream :: "upstream_ptr option"

definition group_vector :: "dns_forwarder \<Rightarrow> upstream_group \<Rightarrow> upstream list" where
  "group_vector self g = (case g of Primary \<Rightarrow> upstreams self | Fallback \<Rightarrow> fallbacks self)"

definition upstream_at :: "dns_forwarder \<Rightarrow> upstream_ptr \<Rightarrow> upstream" where
  "upstream_at self p = group_vector self (fst p) ! snd p"

definition set_upstream :: "dns_forwarder \<Rightarrow> upstream_group \<Rightarrow> nat \<Rightarrow> upstream \<Rightarrow> dns_forwarder" where
  "set_upstream self g i u =
     (case g of
        Primary \<Rightarrow> self\<lparr>upstreams := (upstreams self)[i := u]\<rparr>
      | Fallback \<Rightarrow> self\<lparr>fallbacks := (fallbacks self)[i := u]\<rparr>)"

text \<open>
  \<open>log_call\<close> enters an exchange into the log: \<open>u\<close> is the upstream as it was when its
  group was sorted, \<open>called\<close> the upstream as it was when \<open>exchange\<close> was called on it.
\<close>

definition log_call ::
  "dns_forwarder \<Rightarrow> upstream_group \<Rightarrow> nat \<Rightarrow> upstream \<Rightarrow> upstream \<Rightarrow> exchange_result
     \<Rightarrow> dns_forwarder" where
  "log_call self g i u called result =
     self\<lparr>exchange_log := exchange_log self
            @ [\<lparr>call_group = g, call_index = i, call_rtt = rtt u,
                call_failed = (error result \<noteq> None),
                call_upstream = called, call_result = result\<rparr>]\<rparr>"

text \<open>
  \<open>sorted_upstreams\<close>: the pointers to the upstreams of a vector (here: position and
  upstream), sorted by \<open>rtt()\<close>. \<open>std::sort\<close> may leave upstreams of equal round-trip time
  in any order; the model keeps them in the order of the vector.
\<close>

definition sorted_upstreams :: "upstream list \<Rightarrow> (nat \<times> upstream) list" where
  "sorted_upstreams upstream_vector = sort_key (\<lambda>iu. rtt (snd iu)) (enumerate 0 upstream_vector)"

definition exchange_failed_twice :: "upstream \<Rightarrow> string \<Rightarrow> string \<Rightarrow> string" where
  "exchange_failed_twice u first second =
     ''Upstream ('' @ address u @ '') exchange failed: first reason is '' @ first
       @ '', second is: '' @ second"

text \<open>
  The inner loop of \<open>do_upstream_exchange\<close> over the sorted upstreams of one group. It
  carries the forwarder, \<open>err_str\<close> and \<open>cur_upstream\<close>, and yields a result when the
  source returns from inside the loop.
\<close>

fun upstreams_loop ::
  "externals \<Rightarrow> upstream_group \<Rightarrow> (nat \<times> upstream) list \<Rightarrow> ldns_pkt
     \<Rightarrow> dns_forwarder \<Rightarrow> string \<Rightarrow> upstream_ptr option
     \<Rightarrow> upstream_exchange_result option \<times> dns_forwarder \<times> string \<times> upstream_ptr option" where
  "upstreams_loop x g [] request self err_str cur_upstream = (None, self, err_str, cur_upstream)"
| "upstreams_loop x g ((i, u) # sorted_rest) request self err_str cur_upstream =
     (let n = length (exchange_log self);
          result = exchange x n u request;
          self1 = log_call self g i u u result;
          cur = adjust_rtt x u (exchange_elapsed x n);
          self2 = set_upstream self1 g i cur
      in if error result = None then
           (Some \<lparr>ue_response = packet result, ue_error = None, ue_upstream = Some (g, i)\<rparr>,
            self2, err_str, Some (g, i))
         else if error result \<noteq> Some (TIMEOUT_STR x) then
           (let retry_result = exchange x (Suc n) cur request;
                self3 = log_call self2 g i u cur retry_result
            in if error retry_result = None then
                 (Some \<lparr>ue_response = packet retry_result, ue_error = None,
                        ue_upstream = Some (g, i)\<rparr>,
                  self3, err_str, Some (g, i))
               else
                 upstreams_loop x g sorted_rest request self3
                   (exchange_failed_twice cur (the (error result)) (the (error retry_result)))
                   (Some (g, i)))
         else upstreams_loop x g sorted_rest request self2 err_str (Some (g, i)))"

fun groups_loop ::
  "externals \<Rightarrow> upstream_group list \<Rightarrow> ldns_pkt \<Rightarrow> dns_forwarder \<Rightarrow> string
     \<Rightarrow> upstream_ptr option
     \<Rightarrow> upstream_exchange_result \<times> dns_forwarder" where
  "groups_loop x [] request self err_str cur_upstream =
     (\<lparr>ue_response = None, ue_error = Some err_str, ue_upstream = cur_upstream\<rparr>, self)"
| "groups_loop x (g # gs) request self err_str cur_upstream =
     (case upstreams_loop x g (sorted_upstreams (group_vector self g)) request self err_str
             cur_upstream of
        (Some r, self', err', cur') \<Rightarrow> (r, self')
      | (None, self', err', cur') \<Rightarrow> groups_loop x gs request self' err' cur')"

definition do_upstream_exchange ::
  "externals \<Rightarrow> dns_forwarder \<Rightarrow> ldns_pkt \<Rightarrow> upstream_exchange_result \<times> dns_forwarder" where
  "do_upstream_exchange x self request = groups_loop x [Primary, Fallback] request self [] None"

section \<open>DNS64 synthesis\<close>

text \<open>
  The body of the loop of \<open>try_dns64_aaaa_synthesis\<close> over the answer of the A response:
  what one record adds to the list, and how many AAAA records it adds. A record of another
  type is cloned; an A record without a data field adds nothing; for an A record each
  known prefix is tried, and each success adds a copy of the record with type AAAA whose
  last data field is replaced by the synthesized address.
\<close>

definition dns64_synthesize_rr :: "externals \<Rightarrow> char list list \<Rightarrow> ldns_rr \<Rightarrow> ldns_rr list" where
  "dns64_synthesize_rr x prefixes a_rr =
     (case ldns_rr_rdfs a_rr of
        [] \<Rightarrow> []
      | rdf # _ \<Rightarrow>
          concat (map (\<lambda>pref.
            case synthesize_ipv4_embedded_ipv6_address x pref (ldns_rdf_data x rdf) of
              Inl err_synth \<Rightarrow> []
            | Inr ip6 \<Rightarrow>
                [a_rr\<lparr>ldns_rr_get_type := LDNS_RR_TYPE_AAAA,
                      ldns_rr_rdfs := butlast (ldns_rr_rdfs a_rr)
                                       @ [ldns_rdf_new_frm_data LDNS_RDF_TYPE_AAAA ip6]\<rparr>])
            prefixes))"

fun dns64_rr_loop ::
  "externals \<Rightarrow> char list list \<Rightarrow> ldns_rr list \<Rightarrow> ldns_rr list \<Rightarrow> nat \<Rightarrow> ldns_rr list \<times> nat" where
  "dns64_rr_loop x prefixes [] rr_list aaaa_rr_count = (rr_list, aaaa_rr_count)"
| "dns64_rr_loop x prefixes (a_rr # answer) rr_list aaaa_rr_count =
     (if ldns_rr_get_type a_rr \<noteq> LDNS_RR_TYPE_A
      then dns64_rr_loop x prefixes answer (rr_list @ [a_rr]) aaaa_rr_count
      else
        (let synthesized = dns64_synthesize_rr x prefixes a_rr
         in dns64_rr_loop x prefixes answer (rr_list @ synthesized)
              (aaaa_rr_count + length synthesized)))"

text \<open>
  The A query of the synthesis: the name of the request's question, CD and RD copied, and
  a random id (\<open>n\<close> counts the exchanges made before).
\<close>

definition dns64_request_a :: "externals \<Rightarrow> nat \<Rightarrow> ldns_pkt \<Rightarrow> ldns_rr \<Rightarrow> ldns_pkt" where
  "dns64_request_a x n request question =
     (let request_a0 = ldns_pkt_query_new (ldns_rr_owner question) LDNS_RR_TYPE_A
                         LDNS_RR_CLASS_IN [];
          request_a1 = request_a0\<lparr>ldns_pkt_cd := ldns_pkt_cd request\<rparr>;
          request_a2 = request_a1\<lparr>ldns_pkt_rd := ldns_pkt_rd request\<rparr>
      in request_a2\<lparr>ldns_pkt_id := random_id x n\<rparr>)"

text \<open>
  \<open>try_dns64_aaaa_synthesis\<close>. The result \<open>None\<close> is the null pointer. The exchange is
  logged like those of the dispatcher. An upstream that reports no error hands over a
  packet; the source dereferences it unchecked, and the model gives up the synthesis
  should there be none.
\<close>

definition try_dns64_aaaa_synthesis ::
  "externals \<Rightarrow> dns_forwarder \<Rightarrow> upstream_ptr \<Rightarrow> ldns_pkt \<Rightarrow> ldns_pkt option \<times> dns_forwarder" where
  "try_dns64_aaaa_synthesis x self upstream_p request =
     (if dns64_prefixes self = [] then (None, self)
      else
        (case ldns_pkt_question request of
           [] \<Rightarrow> (None, self)
         | question # _ \<Rightarrow>
             (let n = length (exchange_log self);
                  request_a = dns64_request_a x n request question;
                  u = upstream_at self upstream_p;
                  result = exchange x n u request_a;
                  self1 = log_call self (fst upstream_p) (snd upstream_p) u u result
              in if error result \<noteq> None then (None, self1)
                 else
                   (case packet result of
                      None \<Rightarrow> (None, self1)
                    | Some response_a \<Rightarrow>
                        (if ldns_pkt_ancount response_a = 0 then (None, self1)
                         else
                           (case dns64_rr_loop x (dns64_prefixes self)
                                   (ldns_pkt_answer response_a) [] 0 of
                              (rr_list, aaaa_rr_count) \<Rightarrow>
                                if aaaa_rr_count = 0 then (None, self1)
                                else
                                  (let aaaa_resp0 = ldns_pkt_new;
                                       aaaa_resp1 = aaaa_resp0\<lparr>ldns_pkt_id := ldns_pkt_id request\<rparr>;
                                       aaaa_resp2 = aaaa_resp1\<lparr>ldns_pkt_rd := ldns_pkt_rd request\<rparr>;
                                       aaaa_resp3 = aaaa_resp2\<lparr>ldns_pkt_ra := ldns_pkt_ra response_a\<rparr>;
                                       aaaa_resp4 = aaaa_resp3\<lparr>ldns_pkt_cd := ldns_pkt_cd response_a\<rparr>;
                                       aaaa_resp5 = aaaa_resp4\<lparr>ldns_pkt_qr := True\<rparr>;
                                       aaaa_resp6 = aaaa_resp5
                                         \<lparr>ldns_pkt_question := ldns_pkt_question request\<rparr>;
                                       aaaa_resp = aaaa_resp6\<lparr>ldns_pkt_answer := rr_list\<rparr>
                                   in (Some aaaa_resp, self1))))))))"

section \<open>The request pipeline\<close>

text \<open>
  The pipeline is modelled on decoded messages: the argument of \<open>handle_message\<close> is what
  \<open>ldns_wire2pkt\<close> makes of the bytes (\<open>None\<close> when they do not parse), and its result is
  the message whose wire form is returned (\<open>None\<close> for the empty buffer). The processed
  event, which only reports what was done, and the log output are left out. Where a
  function below yields \<open>None\<close> in the outer option, the call does not return: the
  response it was about to send could not be made.
\<close>

definition ipv4_address_size :: nat where "ipv4_address_size = 4"
definition ipv6_address_size :: nat where "ipv6_address_size = 16"

text \<open>
  \<open>apply_filter\<close> yields the blocking response, if the effective rules ask for one, and
  the effective rules, which the caller keeps as \<open>last_effective_rules\<close>.
\<close>

definition apply_filter ::
  "externals \<Rightarrow> dnsproxy_settings \<Rightarrow> string \<Rightarrow> ldns_pkt \<Rightarrow> rule list
     \<Rightarrow> (ldns_pkt option \<times> rule list) option" where
  "apply_filter x settings hostname request last_effective_rules =
     (let rules = filter_match x hostname @ last_effective_rules;
          effective_rules = get_effective_rules x rules
      in if effective_rules = [] \<or> RP_EXCEPTION \<in> set (props (hd effective_rules))
         then Some (None, effective_rules)
         else
           (case create_blocking_response x request settings effective_rules of
              None \<Rightarrow> None
            | Some blocking_response \<Rightarrow> Some (Some blocking_response, effective_rules)))"

definition apply_cname_filter ::
  "externals \<Rightarrow> dnsproxy_settings \<Rightarrow> ldns_rr \<Rightarrow> ldns_pkt \<Rightarrow> rule list
     \<Rightarrow> (ldns_pkt option \<times> rule list) option" where
  "apply_cname_filter x settings cname_rr request last_effective_rules =
     (case ldns_rr_rdfs cname_rr of
        [] \<Rightarrow> Some (None, last_effective_rules)
      | rdf # _ \<Rightarrow>
          (let cname_ptr = ldns_rdf2str (ldns_rdf_data x rdf);
               cname = (if ldns_dname_str_absolute cname_ptr then butlast cname_ptr else cname_ptr)
           in apply_filter x settings cname request last_effective_rules))"

definition apply_ip_filter ::
  "externals \<Rightarrow> dnsproxy_settings \<Rightarrow> ldns_rr \<Rightarrow> ldns_pkt \<Rightarrow> rule list
     \<Rightarrow> (ldns_pkt option \<times> rule list) option" where
  "apply_ip_filter x settings rr request last_effective_rules =
     (case ldns_rr_rdfs rr of
        [] \<Rightarrow> Some (None, last_effective_rules)
      | rdf # _ \<Rightarrow>
          (if ldns_rdf_size x rdf \<noteq> ipv4_address_size \<and> ldns_rdf_size x rdf \<noteq> ipv6_address_size
           then Some (None, last_effective_rules)
           else apply_filter x settings (addr_to_str x (ldns_rdf_data x rdf)) request
                  last_effective_rules))"

text \<open>The loop of \<open>handle_message\<close> over the answer records of the upstream's response.\<close>

fun filter_answers ::
  "externals \<Rightarrow> dnsproxy_settings \<Rightarrow> ldns_pkt \<Rightarrow> ldns_rr list \<Rightarrow> rule list
     \<Rightarrow> (ldns_pkt option \<times> rule list) option" where
  "filter_answers x settings request [] effective_rules = Some (None, effective_rules)"
| "filter_answers x settings request (rr # answer) effective_rules =
     (case (if ldns_rr_get_type rr = LDNS_RR_TYPE_CNAME
            then apply_cname_filter x settings rr request effective_rules
            else Some (None, effective_rules)) of
        None \<Rightarrow> None
      | Some (Some raw_response, rules1) \<Rightarrow> Some (Some raw_response, rules1)
      | Some (None, rules1) \<Rightarrow>
          (case (if ldns_rr_get_type rr = LDNS_RR_TYPE_A \<or> ldns_rr_get_type rr = LDNS_RR_TYPE_AAAA
                 then apply_ip_filter x settings rr request rules1
                 else Some (None, rules1)) of
             None \<Rightarrow> None
           | Some (Some raw_response, rules2) \<Rightarrow> Some (Some raw_response, rules2)
           | Some (None, rules2) \<Rightarrow> filter_answers x settings request answer rules2))"

text \<open>
  \<open>handle_message\<close> from the upstream exchange on. A null \<open>selected_upstream\<close> (no upstream
  at all, which \<open>init\<close> refuses) would be dereferenced; the model stops with \<open>None\<close>.
\<close>

definition forward_request ::
  "externals \<Rightarrow> dnsproxy_settings \<Rightarrow> dns_forwarder \<Rightarrow> ldns_pkt \<Rightarrow> string \<Rightarrow> rule list \<Rightarrow> int
     \<Rightarrow> (ldns_pkt option \<times> dns_forwarder) option" where
  "forward_request x settings self request cache_key effective_rules now =
     (case do_upstream_exchange x self request of
        (r, self1) \<Rightarrow>
          (case ue_upstream r of
             None \<Rightarrow> None
           | Some selected_upstream \<Rightarrow>
               (case ue_response r of
                  None \<Rightarrow> Some (Some (create_servfail_response request), self1)
                | Some upstream_response \<Rightarrow>
                    (let type = ldns_rr_get_type (hd (ldns_pkt_question request));
                         finish = (\<lambda>response' self'.
                           Some (Some response',
                                 put_response_into_cache settings self' cache_key response'
                                   (Some (id_opt (upstream_at self' selected_upstream))) now))
                     in if ldns_pkt_get_rcode upstream_response = LDNS_RCODE_NOERROR then
                          (case filter_answers x settings request (ldns_pkt_answer upstream_response)
                                  effective_rules of
                             None \<Rightarrow> None
                           | Some (Some raw_response, _) \<Rightarrow> Some (Some raw_response, self1)
                           | Some (None, _) \<Rightarrow>
                               (if dns64 settings \<and> type = LDNS_RR_TYPE_AAAA
                                   \<and> \<not> list_ex (\<lambda>rr. ldns_rr_get_type rr = LDNS_RR_TYPE_AAAA)
                                          (ldns_pkt_answer upstream_response)
                                then
                                  (case try_dns64_aaaa_synthesis x self1 selected_upstream request of
                                     (Some synth_response, self2) \<Rightarrow> finish synth_response self2
                                   | (None, self2) \<Rightarrow> finish upstream_response self2)
                                else finish upstream_response self1))
                        else finish upstream_response self1))))"

text \<open>\<open>handle_message\<close> from the label \<open>cached_response_expired\<close> on.\<close>

definition process_request ::
  "externals \<Rightarrow> dnsproxy_settings \<Rightarrow> dns_forwarder \<Rightarrow> ldns_pkt \<Rightarrow> string \<Rightarrow> int
     \<Rightarrow> (ldns_pkt option \<times> dns_forwarder) option" where
  "process_request x settings self request cache_key now =
     (let question = hd (ldns_pkt_question request);
          domain = ldns_rdf2str (ldns_rr_owner question);
          type = ldns_rr_get_type question
      in if (type = LDNS_RR_TYPE_A \<or> type = LDNS_RR_TYPE_AAAA) \<and> domain = MOZILLA_DOH_HOST
         then (case create_nxdomain_response x request settings of
                 None \<Rightarrow> None
               | Some nxdomain_response \<Rightarrow> Some (Some nxdomain_response, self))
         else
           (let pure_domain = (if ldns_dname_str_absolute domain then butlast domain else domain)
            in if block_ipv6 settings \<and> type = LDNS_RR_TYPE_AAAA then
                 (case apply_filter x settings pure_domain request [] of
                    None \<Rightarrow> None
                  | Some (raw_blocking_response, effective_rules) \<Rightarrow>
                      (if raw_blocking_response = None
                          \<or> ldns_pkt_get_rcode (the raw_blocking_response) = LDNS_RCODE_NOERROR
                       then (case create_soa_response x request settings SOA_RETRY_IPV6_BLOCK of
                               None \<Rightarrow> None
                             | Some soa_response \<Rightarrow> Some (Some soa_response, self))
                       else Some (raw_blocking_response, self)))
               else
                 (case apply_filter x settings pure_domain request [] of
                    None \<Rightarrow> None
                  | Some (Some raw_blocking_response, effective_rules) \<Rightarrow>
                      Some (Some raw_blocking_response, self)
                  | Some (None, effective_rules) \<Rightarrow>
                      forward_request x settings self request cache_key effective_rules now)))"

text \<open>
  \<open>handle_message\<close>. \<open>now_lookup\<close> and \<open>now_insert\<close> are the readings of the steady clock
  in the cache lookup and in the cache insertion. The asynchronous refresh is kept as far
  as its registry: the key of an expired entry served optimistically is entered unless it
  is there.
\<close>

definition handle_message ::
  "externals \<Rightarrow> dnsproxy_settings \<Rightarrow> dns_forwarder \<Rightarrow> ldns_pkt option \<Rightarrow> int \<Rightarrow> int
     \<Rightarrow> (ldns_pkt option \<times> dns_forwarder) option" where
  "handle_message x settings self message now_lookup now_insert =
     (case message of
        None \<Rightarrow> Some (None, self)
      | Some request \<Rightarrow>
          (case ldns_pkt_question request of
             [] \<Rightarrow> Some (Some (create_servfail_response request), self)
           | question # _ \<Rightarrow>
               (let cache_key = get_cache_key request in
                case create_response_from_cache (UDP_RECV_BUF_SIZE x) settings self cache_key
                       request now_lookup of
                  (cached, self1) \<Rightarrow>
                    (case cr_response cached of
                       Some cached_response \<Rightarrow>
                         (if expired cached \<and> \<not> optimistic_cache settings
                          then process_request x settings self1 request cache_key now_insert
                          else
                            Some (Some cached_response,
                                  if expired cached \<and> cache_key \<notin> set (async_reqs self1)
                                  then self1\<lparr>async_reqs := async_reqs self1 @ [cache_key]\<rparr>
                                  else self1))
                     | None \<Rightarrow> process_request x settings self1 request cache_key now_insert))))"

text \<open>
  The refresh task of an expired entry served optimistically: \<open>async_request_worker\<close>
  asks the upstreams again and stores the answer or erases the entry, and
  \<open>async_request_finalizer\<close> takes the key out of the registry.
\<close>

definition async_request_worker ::
  "externals \<Rightarrow> dnsproxy_settings \<Rightarrow> dns_forwarder \<Rightarrow> ldns_pkt \<Rightarrow> string \<Rightarrow> int
     \<Rightarrow> dns_forwarder option" where
  "async_request_worker x settings self req key now =
     (case do_upstream_exchange x self req of
        (r, self1) \<Rightarrow>
          (case ue_response r of
             None \<Rightarrow> Some (self1\<lparr>response_cache := lru_erase (response_cache self1) key\<rparr>)
           | Some res \<Rightarrow>
               (case ue_upstream r of
                  None \<Rightarrow> None
                | Some selected_upstream \<Rightarrow>
                    Some (put_response_into_cache settings self1 key res
                            (Some (id_opt (upstream_at self1 selected_upstream))) now))))"

definition async_request_finalizer :: "dns_forwarder \<Rightarrow> string \<Rightarrow> dns_forwarder" where
  "async_request_finalizer self key = self\<lparr>async_reqs := removeAll key (async_reqs self)\<rparr>"
section \<open>The specification's wording of the cache rules\<close>

definition all_rrs :: "ldns_pkt \<Rightarrow> ldns_rr list" where
  "all_rrs p = ldns_pkt_answer p @ ldns_pkt_authority p @ ldns_pkt_additional p"

text \<open>
  The minimum TTL as the specification words it: the least TTL over the Answer, Authority
  and Additional sections, and 0 when there is no record.
\<close>

definition spec_min_ttl :: "ldns_pkt \<Rightarrow> 32 word" where
  "spec_min_ttl p =
     (if all_rrs p = [] then 0 else Min (set (map ldns_rr_ttl (all_rrs p))))"

text \<open>The cacheability rules as the specification lists them.\<close>

definition spec_cacheable :: "dnsproxy_settings \<Rightarrow> ldns_pkt \<Rightarrow> bool" where
  "spec_cacheable settings resp =
     (0 < dns_cache_size settings
      \<and> \<not> ldns_pkt_tc resp
      \<and> ldns_pkt_qdcount resp = 1
      \<and> ldns_pkt_get_rcode resp = LDNS_RCODE_NOERROR
      \<and> ldns_pkt_edns_data resp = None
      \<and> ldns_pkt_edns_extended_rcode resp = 0
      \<and> ldns_pkt_edns_unassigned resp = 0
      \<and> (let qtype = ldns_rr_get_type (hd (ldns_pkt_question resp))
         in qtype = LDNS_RR_TYPE_A \<or> qtype = LDNS_RR_TYPE_AAAA
            \<longrightarrow> (\<exists>rr \<in> set (ldns_pkt_answer resp). ldns_rr_get_type rr = qtype))
      \<and> 1 \<le> spec_min_ttl resp)"


section \<open>The specification's wording of the synthesized responses\<close>

text \<open>The RETRY field is the fifth data field of an SOA record.\<close>

definition is_soa_with_retry :: "ldns_rr \<Rightarrow> 32 word \<Rightarrow> bool" where
  "is_soa_with_retry rr retry =
     (ldns_rr_get_type rr = LDNS_RR_TYPE_SOA \<and> length (ldns_rr_rdfs rr) = 7
      \<and> ldns_rr_rdfs rr ! 4 = RDF_INT32 LDNS_RDF_TYPE_PERIOD retry)"

text \<open>
  "A NOERROR SOA response": rcode NOERROR, no answer, and exactly one record in the
  authority section, an SOA with the given RETRY.
\<close>

definition noerror_soa_response :: "ldns_pkt \<Rightarrow> 32 word \<Rightarrow> bool" where
  "noerror_soa_response p retry =
     (ldns_pkt_get_rcode p = LDNS_RCODE_NOERROR \<and> ldns_pkt_answer p = []
      \<and> (case ldns_pkt_authority p of [soa] \<Rightarrow> is_soa_with_retry soa retry | _ \<Rightarrow> False))"

text \<open>The addresses an answer section carries, in order.\<close>

definition answer_addresses :: "ldns_pkt \<Rightarrow> ldns_rdf list" where
  "answer_addresses p = concat (map ldns_rr_rdfs (ldns_pkt_answer p))"

text \<open>The IPs of the rules that belong to the family of the query type.\<close>

definition family_ips :: "externals \<Rightarrow> ldns_rr_type \<Rightarrow> rule list \<Rightarrow> string list" where
  "family_ips x qtype rules =
     filter (\<lambda>s. if qtype = LDNS_RR_TYPE_A then is_valid_ip4 x s else \<not> is_valid_ip4 x s)
       (map (\<lambda>r. the (ip r)) rules)"

text \<open>The address field that ldns makes of an IP for an answer to a query of the type.\<close>

definition address_rdf :: "externals \<Rightarrow> ldns_rr_type \<Rightarrow> string \<Rightarrow> ldns_rdf option" where
  "address_rdf x qtype s =
     ldns_rdf_new_frm_str x
       (if qtype = LDNS_RR_TYPE_A then LDNS_RDF_TYPE_A else LDNS_RDF_TYPE_AAAA) s"

text \<open>
  ldns makes the mailbox name of the SOA record, \<open>hostmaster.\<close> before the queried name,
  which it does when the queried name is of at most 244 octets.
\<close>

definition mbox_parses :: "ldns_pkt \<Rightarrow> bool" where
  "mbox_parses request = (ldns_dname_new_frm_str (get_mbox request) \<noteq> None)"

section \<open>The specification's wording of the dispatch order\<close>

text \<open>The exchanges a call made: what it appended to the log.\<close>

definition new_calls :: "dns_forwarder \<Rightarrow> dns_forwarder \<Rightarrow> exchange_call list" where
  "new_calls before after = drop (length (exchange_log before)) (exchange_log after)"

definition calls_of :: "upstream_group \<Rightarrow> exchange_call list \<Rightarrow> exchange_call list" where
  "calls_of g calls = filter (\<lambda>c. call_group c = g) calls"

text \<open>
  What one run of the inner loop over the sorted list \<open>l\<close> appends to the log: calls of
  its group, on upstreams of the list and with their round-trip times, in non-decreasing
  order of them when the list is sorted; and when the loop ran to its end, every call
  failed and every upstream of the list was called.
\<close>

definition loop_calls_ok ::
  "upstream_group \<Rightarrow> (nat \<times> upstream) list \<Rightarrow> bool \<Rightarrow> exchange_call list \<Rightarrow> bool" where
  "loop_calls_ok g l finished ns =
     ((\<forall>c \<in> set ns. call_group c = g
          \<and> (call_index c, call_rtt c) \<in> (\<lambda>iu. (fst iu, rtt (snd iu))) ` set l)
      \<and> (sorted (map (\<lambda>iu. rtt (snd iu)) l) \<longrightarrow> sorted (map call_rtt ns))
      \<and> (finished \<longrightarrow> (\<forall>c \<in> set ns. call_failed c)
            \<and> (\<forall>iu \<in> set l. \<exists>c \<in> set ns. call_index c = fst iu)))"

section \<open>The specification's wording of the retry policy\<close>

definition call_target :: "exchange_call \<Rightarrow> upstream_ptr" where
  "call_target c = (call_group c, call_index c)"

text \<open>
  The order in which a dispatch goes through the upstreams: the primaries and then the
  fallbacks, each group sorted by round-trip time; with each pointer the upstream as it is
  when the dispatch begins.
\<close>

definition tagged :: "upstream_group \<Rightarrow> (nat \<times> upstream) list \<Rightarrow> (upstream_ptr \<times> upstream) list" where
  "tagged g l = map (\<lambda>iu. ((g, fst iu), snd iu)) l"

definition dispatch_order :: "dns_forwarder \<Rightarrow> (upstream_ptr \<times> upstream) list" where
  "dispatch_order self =
     tagged Primary (sorted_upstreams (upstreams self))
       @ tagged Fallback (sorted_upstreams (fallbacks self))"

text \<open>
  The logged call \<open>c\<close> is the exchange number \<open>n\<close>, made with the request on the upstream
  \<open>u\<close> behind the pointer \<open>p\<close>, and holds what that exchange returned.
\<close>

definition exchange_made ::
  "externals \<Rightarrow> ldns_pkt \<Rightarrow> nat \<Rightarrow> upstream_ptr \<Rightarrow> upstream \<Rightarrow> exchange_call \<Rightarrow> bool" where
  "exchange_made x request n p u c =
     (call_target c = p \<and> call_upstream c = u \<and> call_result c = exchange x n u request)"

text \<open>
  The retry policy, read as a property of the calls made while the upstreams of \<open>order\<close>
  are gone through, \<open>n\<close> exchanges having been made before. Nothing is called when there
  is no upstream. Otherwise the first upstream is called. If the call succeeds, it is the
  last call. If it fails with the timeout error, the upstream is not called again and the
  calls go on with the next upstream. If it fails with another error, the next call is on
  the same upstream, with its round-trip time adjusted in between; if that call succeeds
  it is the last, and if it fails the calls go on with the next upstream.
\<close>

fun retry_policy ::
  "externals \<Rightarrow> ldns_pkt \<Rightarrow> nat \<Rightarrow> (upstream_ptr \<times> upstream) list \<Rightarrow> exchange_call list
     \<Rightarrow> bool" where
  "retry_policy x request n [] calls = (calls = [])"
| "retry_policy x request n ((p, u) # order) [] = False"
| "retry_policy x request n ((p, u) # order) (c # calls) =
     (exchange_made x request n p u c
      \<and> (if error (call_result c) = None then calls = []
         else if error (call_result c) = Some (TIMEOUT_STR x)
         then retry_policy x request (Suc n) order calls
         else
           (case calls of
              [] \<Rightarrow> False
            | c' # calls' \<Rightarrow>
                exchange_made x request (Suc n) p (adjust_rtt x u (exchange_elapsed x n)) c'
                \<and> (if error (call_result c') = None then calls' = []
                   else retry_policy x request (Suc (Suc n)) order calls'))))"

text \<open>
  The error message kept when every call of a list failed: the message of the last
  upstream that was called twice, which names the upstream and both reasons, and \<open>err\<close>
  when no upstream was called twice.
\<close>

fun kept_error :: "string \<Rightarrow> exchange_call list \<Rightarrow> string" where
  "kept_error err (c # c' # calls) =
     (if call_target c = call_target c'
      then kept_error
             (''Upstream ('' @ address (call_upstream c') @ '') exchange failed: first reason is ''
                @ the (error (call_result c)) @ '', second is: ''
                @ the (error (call_result c')))
             calls
      else kept_error err (c' # calls))"
| "kept_error err calls = err"


section \<open>The specification's wording of the DNS64 synthesis\<close>

text \<open>The AAAA records synthesized from the A records of an answer section.\<close>

definition dns64_synthesized :: "externals \<Rightarrow> char list list \<Rightarrow> ldns_rr list \<Rightarrow> ldns_rr list" where
  "dns64_synthesized x prefixes answer =
     concat (map (dns64_synthesize_rr x prefixes)
               (filter (\<lambda>rr. ldns_rr_get_type rr = LDNS_RR_TYPE_A) answer))"

text \<open>
  The synthesized record list: the records that are not A records as they are, and in
  the place of each A record the AAAA records synthesized from it.
\<close>

definition dns64_record_list :: "externals \<Rightarrow> char list list \<Rightarrow> ldns_rr list \<Rightarrow> ldns_rr list" where
  "dns64_record_list x prefixes answer =
     concat (map (\<lambda>rr. if ldns_rr_get_type rr = LDNS_RR_TYPE_A
                        then dns64_synthesize_rr x prefixes rr else [rr]) answer)"

section \<open>The specification's wording of the pipeline steps\<close>

text \<open>The pre-filter by domain: the filter applied to the queried name without its last dot.\<close>

definition pre_filter ::
  "externals \<Rightarrow> dnsproxy_settings \<Rightarrow> ldns_pkt \<Rightarrow> (ldns_pkt option \<times> rule list) option" where
  "pre_filter x settings request =
     (let domain = ldns_rdf2str (ldns_rr_owner (hd (ldns_pkt_question request)))
      in apply_filter x settings
           (if ldns_dname_str_absolute domain then butlast domain else domain) request [])"

text \<open>The lookup of a request in the cache misses.\<close>

definition cache_miss ::
  "externals \<Rightarrow> dnsproxy_settings \<Rightarrow> dns_forwarder \<Rightarrow> ldns_pkt \<Rightarrow> int \<Rightarrow> bool" where
  "cache_miss x settings self request now =
     (cr_response (fst (create_response_from_cache (UDP_RECV_BUF_SIZE x) settings self
                          (get_cache_key request) request now)) = None)"

section \<open>The forwarder in service\<close>

text \<open>
  What happens to a forwarder between its initialization and a request: messages are
  handled, each with its two readings of the clock, and refresh tasks of keys that are in
  the registry run, each with the request it was queued with. \<open>serve\<close> gives the
  forwarder after a list of such events, and \<open>None\<close> if one of the calls did not return or
  a refresh was not in the registry.
\<close>

datatype event = Message "ldns_pkt option" int int | Refresh ldns_pkt string int

fun serve ::
  "externals \<Rightarrow> dnsproxy_settings \<Rightarrow> dns_forwarder \<Rightarrow> event list \<Rightarrow> dns_forwarder option" where
  "serve x settings self [] = Some self"
| "serve x settings self (Message message now_lookup now_insert # events) =
     (case handle_message x settings self message now_lookup now_insert of
        None \<Rightarrow> None
      | Some (reply, self') \<Rightarrow> serve x settings self' events)"
| "serve x settings self (Refresh req key now # events) =
     (if key \<in> set (async_reqs self) then
        (case async_request_worker x settings self req key now of
           None \<Rightarrow> None
         | Some self' \<Rightarrow> serve x settings (async_request_finalizer self' key) events)
      else None)"

text \<open>A forwarder as \<open>init\<close> leaves it: nothing cached, no refresh queued.\<close>

definition initialized :: "dns_forwarder \<Rightarrow> bool" where
  "initialized self = (key_values (response_cache self) = [] \<and> async_reqs self = [])"
section \<open>Sample messages and states\<close>

definition example_com :: "char list" where
  "example_com = [CHR 0x07] @ ''example'' @ [CHR 0x03] @ ''com'' @ [CHR 0x00]"

definition other_org :: "char list" where
  "other_org = [CHR 0x05] @ ''other'' @ [CHR 0x03] @ ''org'' @ [CHR 0x00]"

definition question_rr :: "char list \<Rightarrow> ldns_rr_type \<Rightarrow> ldns_rr" where
  "question_rr name t =
     \<lparr>ldns_rr_owner = name, ldns_rr_ttl = 0, ldns_rr_get_type = t,
      ldns_rr_get_class = LDNS_RR_CLASS_IN, ldns_rr_rdfs = []\<rparr>"

definition sample_query :: "16 word \<Rightarrow> char list \<Rightarrow> ldns_rr_type \<Rightarrow> ldns_pkt" where
  "sample_query i name t =
     ldns_pkt_new\<lparr>ldns_pkt_id := i, ldns_pkt_rd := True,
                  ldns_pkt_question := [question_rr name t]\<rparr>"

definition address_rr :: "char list \<Rightarrow> ldns_rr_type \<Rightarrow> 32 word \<Rightarrow> char list \<Rightarrow> ldns_rr" where
  "address_rr name t ttl octets =
     \<lparr>ldns_rr_owner = name, ldns_rr_ttl = ttl, ldns_rr_get_type = t,
      ldns_rr_get_class = LDNS_RR_CLASS_IN,
      ldns_rr_rdfs = [RDF_DATA (if t = LDNS_RR_TYPE_A then LDNS_RDF_TYPE_A else LDNS_RDF_TYPE_AAAA)
                        octets]\<rparr>"

definition sample_response :: "16 word \<Rightarrow> char list \<Rightarrow> 32 word \<Rightarrow> ldns_pkt" where
  "sample_response i name ttl =
     ldns_pkt_new\<lparr>ldns_pkt_id := i, ldns_pkt_qr := True, ldns_pkt_rd := True,
                  ldns_pkt_ra := True,
                  ldns_pkt_question := [question_rr name LDNS_RR_TYPE_A],
                  ldns_pkt_answer :=
                    [address_rr name LDNS_RR_TYPE_A ttl [CHR 0x5D, CHR 0xB8, CHR 0xD8, CHR 0x22]]\<rparr>"

definition sample_settings :: dnsproxy_settings where
  "sample_settings =
     \<lparr>blocking_mode = DEFAULT, blocked_response_ttl_secs = 3600,
      custom_blocking_ipv4 = [], custom_blocking_ipv6 = [], dns_cache_size = 2,
      optimistic_cache = False, block_ipv6 = False, dns64 = False\<rparr>"

definition sample_forwarder :: dns_forwarder where
  "sample_forwarder =
     \<lparr>upstreams = [\<lparr>address = ''8.8.8.8'', id_opt = 1, rtt = 30\<rparr>,
                   \<lparr>address = ''1.1.1.1'', id_opt = 2, rtt = 10\<rparr>],
      fallbacks = [\<lparr>address = ''9.9.9.9'', id_opt = 3, rtt = 20\<rparr>],
      response_cache = \<lparr>max_size = 2, key_values = []\<rparr>,
      async_reqs = [], dns64_prefixes = [], exchange_log = []\<rparr>"

text \<open>The forwarder after it cached a response with TTL 300 at time 0.\<close>

definition sample_cached :: dns_forwarder where
  "sample_cached =
     put_response_into_cache sample_settings sample_forwarder ''1|1|00|example.com.''
       (sample_response 0x77 example_com 300) (Some 1) 0"


text \<open>
  Stand-ins for the collaborators. The filter blocks \<open>ads.example\<close> with an adblock-style
  rule and passes its matches on unchanged; of the upstreams, 1.1.1.1 times out, 8.8.8.8
  refuses the connection, and any other answers with one A record of TTL 300; a /96 prefix
  is completed with the four octets of the IPv4 address; the stand-in for \<open>inet_pton\<close>
  knows the addresses of the examples.
\<close>

definition upstream_answer :: "ldns_pkt \<Rightarrow> ldns_pkt" where
  "upstream_answer request =
     ldns_pkt_new\<lparr>ldns_pkt_id := ldns_pkt_id request, ldns_pkt_qr := True,
                  ldns_pkt_rd := ldns_pkt_rd request, ldns_pkt_ra := True,
                  ldns_pkt_question := ldns_pkt_question request,
                  ldns_pkt_answer :=
                    [address_rr (ldns_rr_owner (hd (ldns_pkt_question request))) LDNS_RR_TYPE_A 300
                       [CHR 0xC0, CHR 0x00, CHR 0x00, CHR 0xAA]]\<rparr>"

definition sample_externals :: externals where
  "sample_externals =
     \<lparr>is_valid_ip4 = (\<lambda>s. s \<noteq> [] \<and> list_all (\<lambda>c. c \<in> set ''0123456789.'') s),
      is_valid_ip6 = (\<lambda>s. CHR '':'' \<in> set s
                          \<and> list_all (\<lambda>c. c \<in> set ''0123456789abcdefABCDEF:.'') s),
      addr_to_str = (\<lambda>octets. concat (map (\<lambda>c. decimal (of_char c) @ ''.'') octets)),
      filter_match = (\<lambda>host. if host = ''ads.example''
                          then [\<lparr>rule_text = ''||ads.example^'', filter_id = 1, ip = None,
                                 props = []\<rparr>]
                          else []),
      get_effective_rules = (\<lambda>rules. rules),
      exchange = (\<lambda>n u request.
         if address u = ''1.1.1.1'' then \<lparr>packet = None, error = Some ''Request timed out''\<rparr>
         else if address u = ''8.8.8.8'' then \<lparr>packet = None, error = Some ''Connection refused''\<rparr>
         else \<lparr>packet = Some (upstream_answer request), error = None\<rparr>),
      exchange_elapsed = (\<lambda>n. 50),
      adjust_rtt = (\<lambda>u elapsed. u\<lparr>rtt := (rtt u + elapsed) div 2\<rparr>),
      synthesize_ipv4_embedded_ipv6_address = (\<lambda>prefix ip4.
         if length prefix = 12 \<and> length ip4 = 4 then Inr (prefix @ ip4)
         else Inl ''unsupported prefix''),
      inet_pton = (\<lambda>af s.
         case af of
           AF_INET \<Rightarrow>
             map_of [(''0.0.0.0'', [CHR 0x00, CHR 0x00, CHR 0x00, CHR 0x00]),
                     (''10.0.0.1'', [CHR 0x0A, CHR 0x00, CHR 0x00, CHR 0x01]),
                     (''10.0.0.2'', [CHR 0x0A, CHR 0x00, CHR 0x00, CHR 0x02])] s
         | AF_INET6 \<Rightarrow>
             map_of [(''::'', replicate 16 (CHR 0x00)),
                     (''::2'', replicate 15 (CHR 0x00) @ [CHR 0x02])] s),
      random_id = (\<lambda>n. 0x4242),
      time_now = 1600000000,
      UDP_RECV_BUF_SIZE = 4096,
      TIMEOUT_STR = ''Request timed out''\<rparr>"

text \<open>Two hosts-style rules for one name, as in the specification's third scenario.\<close>

definition sample_ip_rules :: "rule list" where
  "sample_ip_rules =
     [\<lparr>rule_text = ''10.0.0.1 cdn.example'', filter_id = 1, ip = Some ''10.0.0.1'', props = []\<rparr>,
      \<lparr>rule_text = ''10.0.0.2 cdn.example'', filter_id = 1, ip = Some ''10.0.0.2'', props = []\<rparr>]"

text \<open>Upstreams that reset the connection on every first try and answer the second.\<close>

definition flaky_externals :: externals where
  "flaky_externals =
     sample_externals\<lparr>exchange := (\<lambda>n u request.
        if even n then \<lparr>packet = None, error = Some ''Connection reset''\<rparr>
        else \<lparr>packet = Some (upstream_answer request), error = None\<rparr>)\<rparr>"

text \<open>Upstreams that refuse every connection.\<close>

definition refusing_externals :: externals where
  "refusing_externals =
     sample_externals\<lparr>exchange := (\<lambda>n u request.
        \<lparr>packet = None, error = Some ''Connection refused''\<rparr>)\<rparr>"

text \<open>
  The forwarder with the well-known prefix 64:ff9b::/96 discovered, and the AAAA query of
  the specification's fifth scenario.
\<close>

definition well_known_prefix :: "char list" where
  "well_known_prefix =
     [CHR 0x00, CHR 0x64, CHR 0xFF, CHR 0x9B, CHR 0x00, CHR 0x00, CHR 0x00, CHR 0x00,
      CHR 0x00, CHR 0x00, CHR 0x00, CHR 0x00]"

definition dns64_forwarder :: dns_forwarder where
  "dns64_forwarder = sample_forwarder\<lparr>dns64_prefixes := [well_known_prefix]\<rparr>"

text \<open>
  The name of the DoH canary in lower-case and in upper-case letters, a blocked name, and
  upstreams that all time out.
\<close>

definition canary_name :: "char list" where
  "canary_name = [CHR 0x13] @ ''use-application-dns'' @ [CHR 0x03] @ ''net'' @ [CHR 0x00]"

definition canary_upper :: "char list" where
  "canary_upper = [CHR 0x13] @ ''USE-APPLICATION-DNS'' @ [CHR 0x03] @ ''NET'' @ [CHR 0x00]"

definition ads_example :: "char list" where
  "ads_example = [CHR 0x03] @ ''ads'' @ [CHR 0x07] @ ''example'' @ [CHR 0x00]"

text \<open>
  A name of 245 octets, four labels of 60 letters: the longest name a message can carry
  has 255 octets.
\<close>

definition long_name :: "char list" where
  "long_name = concat (replicate 4 (CHR 0x3C # replicate 60 (CHR ''a''))) @ [CHR 0x00]"

definition dead_externals :: externals where
  "dead_externals =
     sample_externals\<lparr>exchange := (\<lambda>n u request.
        \<lparr>packet = None, error = Some ''Request timed out''\<rparr>)\<rparr>"

text \<open>
  The calls of one dispatch of a request by the sample forwarder: 1.1.1.1, which has the
  least round-trip time, times out; 8.8.8.8 refuses the connection twice; the fallback
  answers.
\<close>

definition sample_calls :: "ldns_pkt \<Rightarrow> exchange_call list" where
  "sample_calls request =
     [\<lparr>call_group = Primary, call_index = 1, call_rtt = 10, call_failed = True,
       call_upstream = \<lparr>address = ''1.1.1.1'', id_opt = 2, rtt = 10\<rparr>,
       call_result = \<lparr>packet = None, error = Some ''Request timed out''\<rparr>\<rparr>,
      \<lparr>call_group = Primary, call_index = 0, call_rtt = 30, call_failed = True,
       call_upstream = \<lparr>address = ''8.8.8.8'', id_opt = 1, rtt = 30\<rparr>,
       call_result = \<lparr>packet = None, error = Some ''Connection refused''\<rparr>\<rparr>,
      \<lparr>call_group = Primary, call_index = 0, call_rtt = 30, call_failed = True,
       call_upstream = \<lparr>address = ''8.8.8.8'', id_opt = 1, rtt = 40\<rparr>,
       call_result = \<lparr>packet = None, error = Some ''Connection refused''\<rparr>\<rparr>,
      \<lparr>call_group = Fallback, call_index = 0, call_rtt = 20, call_failed = False,
       call_upstream = \<lparr>address = ''9.9.9.9'', id_opt = 3, rtt = 20\<rparr>,
       call_result = \<lparr>packet = Some (upstream_answer request), error = None\<rparr>\<rparr>]"

text \<open>The sample forwarder after that dispatch.\<close>

definition sample_dispatched :: "ldns_pkt \<Rightarrow> dns_forwarder" where
  "sample_dispatched request =
     sample_forwarder
       \<lparr>upstreams := [\<lparr>address = ''8.8.8.8'', id_opt = 1, rtt = 40\<rparr>,
                      \<lparr>address = ''1.1.1.1'', id_opt = 2, rtt = 30\<rparr>],
        fallbacks := [\<lparr>address = ''9.9.9.9'', id_opt = 3, rtt = 35\<rparr>],
        exchange_log := sample_calls request\<rparr>"

text \<open>
  The sample forwarder after it handled an A query for USE-APPLICATION-DNS.NET. at time 0
  (or as it was, had that call thrown).
\<close>

definition after_upper_case_canary :: "externals \<Rightarrow> dns_forwarder" where
  "after_upper_case_canary x =
     (case handle_message x sample_settings sample_forwarder
             (Some (sample_query 0x1111 canary_upper LDNS_RR_TYPE_A)) 0 0 of
        Some (reply, self') \<Rightarrow> self'
      | None \<Rightarrow> sample_forwarder)"

section \<open>Unfolding sets for evaluation\<close>

lemmas rr_type_defs =
  LDNS_RR_TYPE_A_def LDNS_RR_TYPE_CNAME_def LDNS_RR_TYPE_SOA_def LDNS_RR_TYPE_TXT_def
  LDNS_RR_TYPE_AAAA_def LDNS_RR_CLASS_IN_def

lemmas sample_defs =
  sample_settings_def sample_forwarder_def sample_response_def sample_query_def
  address_rr_def question_rr_def example_com_def other_org_def canary_name_def canary_upper_def
  ads_example_def ldns_pkt_new_def

lemmas put_eval =
  put_response_into_cache_def compute_min_rr_ttl_def has_unsupported_extensions_def
  ldns_pkt_qdcount_def ldns_pkt_edns_unassigned_def UINT32_MAX_def lru_insert_def
  lru_find_def Let_def seconds_def

lemmas lookup_eval =
  create_response_from_cache_def lru_get_def lru_find_def lru_make_lru_def lru_without_def
  ceil_seconds_def seconds_def

lemmas dispatch_eval =
  do_upstream_exchange_def group_vector_def set_upstream_def log_call_def Let_def
  exchange_failed_twice_def

section \<open>Facts about the cache\<close>

lemma ceil_seconds_ceiling: "ceil_seconds d = \<lceil>real_of_int d / 1000000000\<rceil>"
proof -
  have "\<lceil>real_of_int d / real_of_int 1000000000\<rceil> = - (- d div 1000000000)"
    by (rule ceiling_divide_eq_div)
  then show ?thesis by (simp add: ceil_seconds_def)
qed

lemma ceil_seconds_pos:
  assumes "0 < d"
  shows "1 \<le> ceil_seconds d"
proof -
  have "(- d) div 1000000000 < 0"
    using assms by (intro div_neg_pos_less0) simp_all
  then show ?thesis by (simp add: ceil_seconds_def)
qed

lemma ceil_seconds_le:
  assumes "d \<le> seconds n"
  shows "ceil_seconds d \<le> int n"
proof -
  have "(- int n * 1000000000) div 1000000000 \<le> (- d) div 1000000000"
    using assms by (intro zdiv_mono1) (simp_all add: seconds_def)
  moreover have "(- int n * 1000000000) div 1000000000 = - int n"
    by simp
  ultimately show ?thesis by (simp add: ceil_seconds_def)
qed


lemma set_ttls_ttl: "rr \<in> set (set_ttls ttl rrs) \<Longrightarrow> ldns_rr_ttl rr = ttl"
  by (auto simp: set_ttls_def)

lemma lru_get_Some:
  "lru_find c k = Some v \<Longrightarrow>
   lru_get c k = (Some v, c\<lparr>key_values := (k, v) # lru_without k (key_values c)\<rparr>)"
  by (simp add: lru_get_def)

lemma lru_make_lru_front:
  "lru_make_lru (c\<lparr>key_values := (k, v) # lru_without k kvs\<rparr>) k
     = c\<lparr>key_values := (k, v) # lru_without k kvs\<rparr>"
  by (simp add: lru_make_lru_def lru_find_def lru_without_def)

lemma create_response_from_cache_hit:
  assumes "dns_cache_size settings \<noteq> 0" and "\<not> has_unsupported_extensions request"
    and "lru_find (response_cache self) key = Some e"
  shows "create_response_from_cache buf settings self key request now =
     (if ceil_seconds (expires_at e - now) \<le> 0
      then (\<lparr>cr_response = Some (patch_cached_response buf request (response e) 1),
              cr_upstream_id = upstream_id e, expired = True\<rparr>,
            self\<lparr>response_cache := (response_cache self)
                   \<lparr>key_values := (key, e) # lru_without key (key_values (response_cache self))\<rparr>\<rparr>)
      else (\<lparr>cr_response = Some (patch_cached_response buf request (response e)
                                   (word_of_int (ceil_seconds (expires_at e - now)))),
              cr_upstream_id = upstream_id e, expired = False\<rparr>,
            self\<lparr>response_cache := (response_cache self)
                   \<lparr>key_values := (key, e) # lru_without key (key_values (response_cache self))\<rparr>\<rparr>))"
  unfolding create_response_from_cache_def
  by (simp add: assms lru_get_Some lru_make_lru_front Let_def)

lemma patched_id: "ldns_pkt_id (patch_cached_response buf request p0 ttl) = ldns_pkt_id request"
  by (simp add: patch_cached_response_def Let_def)

lemma patched_question:
  "ldns_pkt_question (patch_cached_response buf request p0 ttl) = ldns_pkt_question request"
  by (simp add: patch_cached_response_def Let_def)

lemma patched_ttls:
  "rr \<in> set (all_rrs (patch_cached_response buf request p0 ttl)) \<Longrightarrow> ldns_rr_ttl rr = ttl"
  by (auto simp: patch_cached_response_def Let_def all_rrs_def dest: set_ttls_ttl)

lemma cache_hit_window:
  fixes tau :: "32 word"
  assumes "dns_cache_size settings \<noteq> 0"
    and "\<not> has_unsupported_extensions request"
    and "lru_find (response_cache self) key = Some e"
    and "expires_at e = t0 + seconds (unat tau)"
    and "t0 \<le> t" and "t < t0 + seconds (unat tau)"
  shows "\<exists>p. cr_response (fst (create_response_from_cache buf settings self key request t)) = Some p
      \<and> \<not> expired (fst (create_response_from_cache buf settings self key request t))
      \<and> ldns_pkt_id p = ldns_pkt_id request
      \<and> (\<forall>rr \<in> set (all_rrs p).
            uint (ldns_rr_ttl rr)
              = max 1 \<lceil>real_of_int (t0 + seconds (unat tau) - t) / 1000000000\<rceil>)"
proof -
  let ?d = "expires_at e - t"
  let ?c = "ceil_seconds ?d"
  have d: "0 < ?d" "?d \<le> seconds (unat tau)"
    using assms(4,5,6) by simp_all
  have c1: "1 \<le> ?c" using d(1) by (rule ceil_seconds_pos)
  have c2: "?c \<le> int (unat tau)" using d(2) by (rule ceil_seconds_le)
  have n: "nat ?c \<le> unat tau" using c2 by (simp add: nat_le_iff)
  have "unat tau < 2 ^ LENGTH(32)" by (rule unsigned_less)
  with n have "nat ?c < 2 ^ LENGTH(32)" by (rule le_less_trans)
  then have "nat ?c mod 2 ^ LENGTH(32) = nat ?c" by (rule mod_less)
  then have e2: "unat (word_of_nat (nat ?c) :: 32 word) = nat ?c"
    by (simp only: unat_of_nat)
  have c0: "0 \<le> ?c" using c1 by linarith
  then have e1: "(word_of_int ?c :: 32 word) = word_of_nat (nat ?c)"
    by (rule word_of_int_nat)
  have "unat (word_of_int ?c :: 32 word) = nat ?c"
    by (simp only: e1 e2)
  then have "int (unat (word_of_int ?c :: 32 word)) = ?c"
    using c0 by (simp only: int_nat_eq if_True)
  then have u: "uint (word_of_int ?c :: 32 word) = ?c"
    by (simp only: of_nat_unat)
  have hit: "create_response_from_cache buf settings self key request t =
      (\<lparr>cr_response = Some (patch_cached_response buf request (response e) (word_of_int ?c)),
         cr_upstream_id = upstream_id e, expired = False\<rparr>,
       self\<lparr>response_cache := (response_cache self)
              \<lparr>key_values := (key, e) # lru_without key (key_values (response_cache self))\<rparr>\<rparr>)"
    using c1 by (simp add: create_response_from_cache_hit [OF assms(1,2,3)])
  have "?c = \<lceil>real_of_int (t0 + seconds (unat tau) - t) / 1000000000\<rceil>"
    using assms(4) by (simp add: ceil_seconds_ceiling)
  with c1 u have ttl: "uint (word_of_int ?c :: 32 word)
      = max 1 \<lceil>real_of_int (t0 + seconds (unat tau) - t) / 1000000000\<rceil>"
    by simp
  show ?thesis
    unfolding hit using ttl by (auto simp: patched_id dest!: patched_ttls)
qed


lemma fold_min_ttl:
  "fold (\<lambda>rr m. min m (ldns_rr_ttl rr)) rrs m0 = Min (set (m0 # map ldns_rr_ttl rrs))"
proof (induction rrs arbitrary: m0)
  case Nil
  then show ?case by simp
next
  case (Cons rr rrs)
  have "fold (\<lambda>rr m. min m (ldns_rr_ttl rr)) (rr # rrs) m0
        = Min (set (min m0 (ldns_rr_ttl rr) # map ldns_rr_ttl rrs))"
    using Cons by simp
  also have "\<dots> = fold min (map ldns_rr_ttl rrs) (min m0 (ldns_rr_ttl rr))"
    by (rule Min.set_eq_fold)
  also have "\<dots> = fold min (map ldns_rr_ttl (rr # rrs)) m0"
    by (simp add: min.commute)
  also have "\<dots> = Min (set (m0 # map ldns_rr_ttl (rr # rrs)))"
    by (rule Min.set_eq_fold [symmetric])
  finally show ?case .
qed

lemma compute_min_rr_ttl_Min:
  "compute_min_rr_ttl pkt =
     (let m = Min (set (UINT32_MAX # map ldns_rr_ttl (all_rrs pkt)))
      in if m = UINT32_MAX then 0 else m)"
proof -
  have a: "Min (set (Min (set (x # xs)) # ys)) = Min (set (x # xs @ ys))"
    for x :: "32 word" and xs ys
  proof -
    have "Min (set (Min (set (x # xs)) # ys)) = fold min ys (fold min xs x)"
      by (simp only: Min.set_eq_fold)
    also have "\<dots> = fold min (xs @ ys) x" by simp
    also have "\<dots> = Min (set (x # xs @ ys))" by (simp only: Min.set_eq_fold)
    finally show ?thesis .
  qed
  have b: "set (UINT32_MAX # map ldns_rr_ttl (ldns_pkt_answer pkt)
              @ map ldns_rr_ttl (ldns_pkt_additional pkt)
              @ map ldns_rr_ttl (ldns_pkt_authority pkt))
      = set (UINT32_MAX # map ldns_rr_ttl (all_rrs pkt))"
    by (auto simp: all_rrs_def)
  show ?thesis
    unfolding compute_min_rr_ttl_def Let_def fold_min_ttl a append_assoc b by (rule refl)
qed

lemma word32_le_max: "(w :: 32 word) \<le> UINT32_MAX"
proof -
  have "(0xFFFFFFFF :: 32 word) = - 1" by simp
  then show ?thesis unfolding UINT32_MAX_def by (simp only: word_n1_ge)
qed

lemma compute_min_rr_ttl_spec:
  "compute_min_rr_ttl p = (if spec_min_ttl p = UINT32_MAX then 0 else spec_min_ttl p)"
proof (cases "all_rrs p = []")
  case True
  then show ?thesis
    by (simp add: compute_min_rr_ttl_Min spec_min_ttl_def UINT32_MAX_def)
next
  case False
  let ?S = "set (map ldns_rr_ttl (all_rrs p))"
  have ne: "?S \<noteq> {}" and fin: "finite ?S" using False by simp_all
  have "Min ?S \<le> UINT32_MAX" by (rule word32_le_max)
  then have "min UINT32_MAX (Min ?S) = Min ?S"
    by (rule min_absorb2)
  moreover have "Min (insert UINT32_MAX ?S) = min UINT32_MAX (Min ?S)"
    using fin ne by (rule Min_insert)
  ultimately have "Min (insert UINT32_MAX ?S) = Min ?S"
    by (rule trans [rotated])
  then have "Min (set (UINT32_MAX # map ldns_rr_ttl (all_rrs p))) = spec_min_ttl p"
    using False by (simp add: spec_min_ttl_def)
  then show ?thesis
    by (simp add: compute_min_rr_ttl_Min Let_def)
qed

lemma spec_min_ttl_stripped:
  "spec_min_ttl (resp\<lparr>ldns_pkt_question := q, ldns_pkt_aa := a\<rparr>) = spec_min_ttl resp"
  by (simp add: spec_min_ttl_def all_rrs_def)

lemma compute_min_rr_ttl_stripped:
  "compute_min_rr_ttl (resp\<lparr>ldns_pkt_question := q, ldns_pkt_aa := a\<rparr>)
     = (if spec_min_ttl resp = UINT32_MAX then 0 else spec_min_ttl resp)"
  by (simp only: compute_min_rr_ttl_spec spec_min_ttl_stripped)

lemma put_response_into_cache_eq:
  "put_response_into_cache settings self key resp uid now =
     (if spec_cacheable settings resp \<and> spec_min_ttl resp \<noteq> UINT32_MAX
      then self\<lparr>response_cache :=
             lru_insert (response_cache self) key
               \<lparr>response = resp\<lparr>ldns_pkt_question := [], ldns_pkt_aa := False\<rparr>,
                expires_at = now + seconds (unat (spec_min_ttl resp)),
                upstream_id = uid\<rparr>\<rparr>
      else self)"
proof -
  have z: "(1 \<le> spec_min_ttl resp) = (spec_min_ttl resp \<noteq> 0)"
    by (simp add: word_le_nat_alt unat_eq_0 Suc_le_eq unat_gt_0)
  show ?thesis
    unfolding put_response_into_cache_def Let_def compute_min_rr_ttl_stripped
    by (auto simp: spec_cacheable_def z has_unsupported_extensions_def list_ex_iff Let_def)
qed

lemma lru_find_insert:
  assumes "0 < max_size c"
  shows "lru_find (lru_insert c k v) k = Some v"
proof (cases "lru_find c k")
  case None
  then show ?thesis
    using assms by (cases "key_values c") (simp_all add: lru_insert_def lru_find_def Let_def)
next
  case (Some old)
  then show ?thesis by (simp add: lru_insert_def lru_find_def)
qed


lemma create_response_from_cache_unsupported:
  "has_unsupported_extensions request \<Longrightarrow>
   create_response_from_cache buf settings self key request now =
     (\<lparr>cr_response = None, cr_upstream_id = None, expired = False\<rparr>, self)"
  by (simp add: create_response_from_cache_def Let_def)
section \<open>Facts about the synthesized responses\<close>

lemma AAAA_neq_A [simp]:
  "LDNS_RR_TYPE_AAAA \<noteq> LDNS_RR_TYPE_A" "LDNS_RR_TYPE_A \<noteq> LDNS_RR_TYPE_AAAA"
  by (simp_all add: rr_type_defs)

lemma create_response_by_request_fields:
  "ldns_pkt_get_rcode (create_response_by_request request) = LDNS_RCODE_NOERROR"
  "ldns_pkt_answer (create_response_by_request request) = []"
  "ldns_pkt_authority (create_response_by_request request) = []"
  "ldns_pkt_additional (create_response_by_request request) = []"
  "ldns_pkt_id (create_response_by_request request) = ldns_pkt_id request"
  "ldns_pkt_question (create_response_by_request request) = ldns_pkt_question request"
  "ldns_pkt_qr (create_response_by_request request)"
  by (simp_all add: create_response_by_request_def ldns_pkt_query_new_def ldns_pkt_set_flags_def
        ldns_pkt_new_def Let_def split: list.splits)

lemma mname_parses:
  "ldns_dname_new_frm_str ''fake-for-negative-caching.adguard.com.'' \<noteq> None"
  by (simp add: ldns_dname_new_frm_str_def ldns_str2rdf_dname_def ldns_dname_str_absolute_def
        LDNS_MAX_LABELLEN_def LDNS_MAX_DOMAINLEN_def Let_def)

lemma create_soa_Some:
  assumes "mbox_parses request"
  shows "\<exists>soa. create_soa x request settings retry = Some soa \<and> is_soa_with_retry soa retry"
  using assms mname_parses
  by (auto simp: mbox_parses_def create_soa_def Let_def is_soa_with_retry_def ldns_rr_new_def
        ldns_native2rdf_int32_def)

lemma create_soa_None:
  assumes "\<not> mbox_parses request"
  shows "create_soa x request settings retry = None"
  using assms by (simp add: mbox_parses_def create_soa_def Let_def split: option.splits)

lemma create_soa_response_Some:
  assumes "mbox_parses request"
  shows "\<exists>p. create_soa_response x request settings retry = Some p
           \<and> noerror_soa_response p retry"
proof -
  from create_soa_Some [OF assms] obtain soa where
    "create_soa x request settings retry = Some soa" "is_soa_with_retry soa retry"
    by blast
  then show ?thesis
    by (simp add: create_soa_response_def Let_def push_authority_def noerror_soa_response_def
          create_response_by_request_fields)
qed

lemma create_soa_response_None:
  assumes "\<not> mbox_parses request"
  shows "create_soa_response x request settings retry = None"
  by (simp add: create_soa_response_def Let_def create_soa_None [OF assms])

lemma create_refused_response_fields:
  "ldns_pkt_get_rcode (create_refused_response request settings) = LDNS_RCODE_REFUSED"
  "ldns_pkt_answer (create_refused_response request settings) = []"
  "ldns_pkt_authority (create_refused_response request settings) = []"
  by (simp_all add: create_refused_response_def create_response_by_request_fields)

lemma create_nxdomain_response_Some:
  assumes "mbox_parses request"
  shows "\<exists>p soa. create_nxdomain_response x request settings = Some p
           \<and> ldns_pkt_get_rcode p = LDNS_RCODE_NXDOMAIN \<and> ldns_pkt_answer p = []
           \<and> ldns_pkt_authority p = [soa] \<and> is_soa_with_retry soa 900"
proof -
  from create_soa_Some [OF assms] obtain soa where
    "create_soa x request settings 900 = Some soa" "is_soa_with_retry soa 900"
    by blast
  then show ?thesis
    by (simp add: create_nxdomain_response_def Let_def push_authority_def
          create_response_by_request_fields)
qed

lemma no_null_field:
  "list_ex (\<lambda>rdf. rdf = None) (map f rules) = (\<not> list_all (\<lambda>r. f r \<noteq> None) rules)"
  by (induction rules) simp_all

lemma create_arecord_response_eq:
  "create_arecord_response x request settings rules =
     (if list_all (\<lambda>r. address_rdf x LDNS_RR_TYPE_A (the (ip r)) \<noteq> None) rules
      then Some (push_answer (create_response_by_request request)
             (ldns_rr_new
                \<lparr>ldns_rr_owner := ldns_rr_owner (hd (ldns_pkt_question request)),
                 ldns_rr_ttl := blocked_response_ttl_secs settings,
                 ldns_rr_get_type := LDNS_RR_TYPE_A,
                 ldns_rr_get_class := LDNS_RR_CLASS_IN,
                 ldns_rr_rdfs := map (\<lambda>r. the (address_rdf x LDNS_RR_TYPE_A (the (ip r)))) rules\<rparr>))
      else None)"
  unfolding create_arecord_response_def Let_def no_null_field
  by (simp add: address_rdf_def comp_def)

lemma create_aaaarecord_response_eq:
  "create_aaaarecord_response x request settings rules =
     (if list_all (\<lambda>r. address_rdf x LDNS_RR_TYPE_AAAA (the (ip r)) \<noteq> None) rules
      then Some (push_answer (create_response_by_request request)
             (ldns_rr_new
                \<lparr>ldns_rr_owner := ldns_rr_owner (hd (ldns_pkt_question request)),
                 ldns_rr_ttl := blocked_response_ttl_secs settings,
                 ldns_rr_get_type := LDNS_RR_TYPE_AAAA,
                 ldns_rr_get_class := LDNS_RR_CLASS_IN,
                 ldns_rr_rdfs := map (\<lambda>r. the (address_rdf x LDNS_RR_TYPE_AAAA (the (ip r)))) rules\<rparr>))
      else None)"
  unfolding create_aaaarecord_response_def Let_def no_null_field
  by (simp add: address_rdf_def comp_def)

lemma address_record_fields:
  "ldns_pkt_get_rcode (push_answer (create_response_by_request request)
      (ldns_rr_new\<lparr>ldns_rr_owner := n, ldns_rr_ttl := ttl, ldns_rr_get_type := t,
                   ldns_rr_get_class := c, ldns_rr_rdfs := rdfs\<rparr>)) = LDNS_RCODE_NOERROR"
  "answer_addresses (push_answer (create_response_by_request request)
      (ldns_rr_new\<lparr>ldns_rr_owner := n, ldns_rr_ttl := ttl, ldns_rr_get_type := t,
                   ldns_rr_get_class := c, ldns_rr_rdfs := rdfs\<rparr>)) = rdfs"
  "list_all (\<lambda>rr. ldns_rr_get_type rr = t \<and> ldns_rr_ttl rr = ttl)
     (ldns_pkt_answer (push_answer (create_response_by_request request)
        (ldns_rr_new\<lparr>ldns_rr_owner := n, ldns_rr_ttl := ttl, ldns_rr_get_type := t,
                     ldns_rr_get_class := c, ldns_rr_rdfs := rdfs\<rparr>)))"
  by (simp_all add: push_answer_def answer_addresses_def create_response_by_request_fields
        ldns_rr_new_def)

lemma family_ips_A:
  "family_ips x LDNS_RR_TYPE_A rules
     = map (\<lambda>r. the (ip r)) (filter (\<lambda>r. is_valid_ip4 x (the (ip r))) rules)"
  by (simp add: family_ips_def filter_map comp_def)

lemma family_ips_AAAA:
  "family_ips x LDNS_RR_TYPE_AAAA rules
     = map (\<lambda>r. the (ip r)) (filter (\<lambda>r. \<not> is_valid_ip4 x (the (ip r))) rules)"
  by (simp add: family_ips_def filter_map comp_def)

lemma create_response_with_ips_A:
  assumes "ldns_rr_get_type (hd (ldns_pkt_question request)) = LDNS_RR_TYPE_A"
    and "list_all (\<lambda>r. ip r \<noteq> None) rules"
  shows "create_response_with_ips x request settings rules =
     (if family_ips x LDNS_RR_TYPE_A rules = []
      then create_soa_response x request settings 900
      else create_arecord_response x request settings
             (filter (\<lambda>r. is_valid_ip4 x (the (ip r))) rules))"
  using assms
  by (auto simp: create_response_with_ips_def Let_def family_ips_A list_ex_iff list_all_iff
        SOA_RETRY_DEFAULT_def)

lemma create_response_with_ips_AAAA:
  assumes "ldns_rr_get_type (hd (ldns_pkt_question request)) = LDNS_RR_TYPE_AAAA"
    and "list_all (\<lambda>r. ip r \<noteq> None) rules"
  shows "create_response_with_ips x request settings rules =
     (if family_ips x LDNS_RR_TYPE_AAAA rules = []
      then create_soa_response x request settings 900
      else create_aaaarecord_response x request settings
             (filter (\<lambda>r. \<not> is_valid_ip4 x (the (ip r))) rules))"
  using assms
  by (auto simp: create_response_with_ips_def Let_def family_ips_AAAA list_ex_iff list_all_iff
        SOA_RETRY_DEFAULT_def)

lemma hosts_style_address_answer:
  assumes "qtype = LDNS_RR_TYPE_A \<or> qtype = LDNS_RR_TYPE_AAAA"
    and "ldns_rr_get_type (hd (ldns_pkt_question request)) = qtype"
    and "list_all (\<lambda>r. ip r \<noteq> None) rules"
    and "family_ips x qtype rules \<noteq> []"
    and "list_all (\<lambda>s. address_rdf x qtype s \<noteq> None) (family_ips x qtype rules)"
  shows "\<exists>p. create_response_with_ips x request settings rules = Some p
      \<and> ldns_pkt_get_rcode p = LDNS_RCODE_NOERROR
      \<and> answer_addresses p = map (\<lambda>s. the (address_rdf x qtype s)) (family_ips x qtype rules)
      \<and> list_all (\<lambda>rr. ldns_rr_get_type rr = qtype
                      \<and> ldns_rr_ttl rr = blocked_response_ttl_secs settings)
           (ldns_pkt_answer p)"
  using assms(1)
proof
  assume a: "qtype = LDNS_RR_TYPE_A"
  have t: "ldns_rr_get_type (hd (ldns_pkt_question request)) = LDNS_RR_TYPE_A"
    using assms(2) a by simp
  have p: "list_all (\<lambda>r. address_rdf x LDNS_RR_TYPE_A (the (ip r)) \<noteq> None)
      (filter (\<lambda>r. is_valid_ip4 x (the (ip r))) rules)"
    using assms(5) by (simp add: a family_ips_A list_all_iff)
  have r: "create_arecord_response x request settings
        (filter (\<lambda>r. is_valid_ip4 x (the (ip r))) rules)
      = Some (push_answer (create_response_by_request request)
             (ldns_rr_new
                \<lparr>ldns_rr_owner := ldns_rr_owner (hd (ldns_pkt_question request)),
                 ldns_rr_ttl := blocked_response_ttl_secs settings,
                 ldns_rr_get_type := LDNS_RR_TYPE_A,
                 ldns_rr_get_class := LDNS_RR_CLASS_IN,
                 ldns_rr_rdfs := map (\<lambda>r. the (address_rdf x LDNS_RR_TYPE_A (the (ip r))))
                   (filter (\<lambda>r. is_valid_ip4 x (the (ip r))) rules)\<rparr>))"
    unfolding create_arecord_response_eq using p by (simp only: if_True)
  show ?thesis
    using assms(4) unfolding a create_response_with_ips_A [OF t assms(3)] r
    by (simp add: address_record_fields) (simp add: family_ips_A comp_def)
next
  assume a: "qtype = LDNS_RR_TYPE_AAAA"
  have t: "ldns_rr_get_type (hd (ldns_pkt_question request)) = LDNS_RR_TYPE_AAAA"
    using assms(2) a by simp
  have p: "list_all (\<lambda>r. address_rdf x LDNS_RR_TYPE_AAAA (the (ip r)) \<noteq> None)
      (filter (\<lambda>r. \<not> is_valid_ip4 x (the (ip r))) rules)"
    using assms(5) by (simp add: a family_ips_AAAA list_all_iff)
  have r: "create_aaaarecord_response x request settings
        (filter (\<lambda>r. \<not> is_valid_ip4 x (the (ip r))) rules)
      = Some (push_answer (create_response_by_request request)
             (ldns_rr_new
                \<lparr>ldns_rr_owner := ldns_rr_owner (hd (ldns_pkt_question request)),
                 ldns_rr_ttl := blocked_response_ttl_secs settings,
                 ldns_rr_get_type := LDNS_RR_TYPE_AAAA,
                 ldns_rr_get_class := LDNS_RR_CLASS_IN,
                 ldns_rr_rdfs := map (\<lambda>r. the (address_rdf x LDNS_RR_TYPE_AAAA (the (ip r))))
                   (filter (\<lambda>r. \<not> is_valid_ip4 x (the (ip r))) rules)\<rparr>))"
    unfolding create_aaaarecord_response_eq using p by (simp only: if_True)
  show ?thesis
    using assms(4) unfolding a create_response_with_ips_AAAA [OF t assms(3)] r
    by (simp add: address_record_fields) (simp add: family_ips_AAAA comp_def)
qed

lemma sample_family_ips:
  "family_ips sample_externals LDNS_RR_TYPE_A sample_ip_rules = [''10.0.0.1'', ''10.0.0.2'']"
  "family_ips sample_externals LDNS_RR_TYPE_AAAA sample_ip_rules = []"
  by (simp_all add: family_ips_def sample_externals_def sample_ip_rules_def)

lemma sample_address_rdf:
  "address_rdf sample_externals LDNS_RR_TYPE_A ''10.0.0.1''
     = Some (RDF_DATA LDNS_RDF_TYPE_A [CHR 0x0A, CHR 0x00, CHR 0x00, CHR 0x01])"
  "address_rdf sample_externals LDNS_RR_TYPE_A ''10.0.0.2''
     = Some (RDF_DATA LDNS_RDF_TYPE_A [CHR 0x0A, CHR 0x00, CHR 0x00, CHR 0x02])"
  "address_rdf sample_externals LDNS_RR_TYPE_AAAA ''[::2]'' = None"
  by (simp_all add: address_rdf_def ldns_rdf_new_frm_str_def sample_externals_def)

lemma sample_ip_rules_real:
  "sample_ip_rules \<noteq> []" "list_all (\<lambda>r. ip r \<noteq> None) sample_ip_rules"
  "\<not> rules_contain_blocking_ip sample_ip_rules"
  by (simp_all add: sample_ip_rules_def rules_contain_blocking_ip_def BLOCKING_IPS_def)

lemma sample_mbox:
  "get_mbox (sample_query i example_com t) = ''hostmaster.example.com.''"
  "get_mbox (sample_query i canary_name t) = ''hostmaster.use-application-dns.net.''"
  "get_mbox (sample_query i ads_example t) = ''hostmaster.ads.example.''"
  by (simp_all add: get_mbox_def sample_query_def question_rr_def ldns_rdf2str_def
        example_com_def canary_name_def ads_example_def Let_def)

lemma sample_mbox_parses:
  "mbox_parses (sample_query i example_com t)"
  "mbox_parses (sample_query i canary_name t)"
  "mbox_parses (sample_query i ads_example t)"
  by (simp_all add: mbox_parses_def sample_mbox ldns_dname_new_frm_str_def
        ldns_str2rdf_dname_def ldns_dname_str_absolute_def LDNS_MAX_LABELLEN_def
        LDNS_MAX_DOMAINLEN_def Let_def)
section \<open>Facts about the dispatch loops\<close>

lemma exchange_log_set_upstream [simp]:
  "exchange_log (set_upstream s g i u) = exchange_log s"
  by (cases g) (simp_all add: set_upstream_def)

lemma exchange_log_log_call [simp]:
  "exchange_log (log_call s g i u called r) = exchange_log s
     @ [\<lparr>call_group = g, call_index = i, call_rtt = rtt u, call_failed = (error r \<noteq> None),
         call_upstream = called, call_result = r\<rparr>]"
  by (simp add: log_call_def)

lemma loop_calls_ok_Nil: "loop_calls_ok g [] finished []"
  by (simp add: loop_calls_ok_def)

lemma rtts_replicate:
  assumes "\<forall>c \<in> set cs. call_rtt c = r"
  shows "map call_rtt cs = replicate (length cs) r"
  using assms by (induction cs) simp_all

lemma loop_calls_ok_stop:
  assumes "\<forall>c \<in> set cs. call_group c = g \<and> call_index c = i \<and> call_rtt c = rtt u"
  shows "loop_calls_ok g ((i, u) # l) False cs"
proof -
  have "map call_rtt cs = replicate (length cs) (rtt u)"
    using assms by (intro rtts_replicate) simp
  then have "sorted (map call_rtt cs)"
    by (simp add: sorted_replicate)
  then show ?thesis
    using assms by (auto simp: loop_calls_ok_def)
qed

lemma loop_calls_ok_Cons:
  assumes rest: "loop_calls_ok g l finished ns"
    and cs: "cs \<noteq> []"
      "\<forall>c \<in> set cs. call_group c = g \<and> call_index c = i \<and> call_rtt c = rtt u
          \<and> call_failed c"
  shows "loop_calls_ok g ((i, u) # l) finished (cs @ ns)"
proof -
  have rtts: "map call_rtt cs = replicate (length cs) (rtt u)"
    using cs(2) by (intro rtts_replicate) simp
  have s: "sorted (map call_rtt (cs @ ns))" if "sorted (map (\<lambda>iu. rtt (snd iu)) ((i, u) # l))"
  proof -
    from that have l: "sorted (map (\<lambda>iu. rtt (snd iu)) l)"
      and le: "\<forall>iu \<in> set l. rtt u \<le> rtt (snd iu)"
      by simp_all
    from l rest have "sorted (map call_rtt ns)" by (simp add: loop_calls_ok_def)
    moreover have "\<forall>c \<in> set ns. rtt u \<le> call_rtt c"
      using rest le by (fastforce simp: loop_calls_ok_def)
    ultimately show ?thesis
      using rtts by (auto simp: sorted_append sorted_replicate)
  qed
  have c: "\<exists>c \<in> set cs. call_index c = i"
    using cs by (cases cs) simp_all
  show ?thesis
    unfolding loop_calls_ok_def
  proof (intro conjI impI)
    show "\<forall>c\<in>set (cs @ ns). call_group c = g \<and>
       (call_index c, call_rtt c) \<in> (\<lambda>iu. (fst iu, rtt (snd iu))) ` set ((i, u) # l)"
      using rest cs(2) by (auto simp: loop_calls_ok_def)
    show "sorted (map call_rtt (cs @ ns))" if "sorted (map (\<lambda>iu. rtt (snd iu)) ((i, u) # l))"
      using that by (rule s)
    show "\<forall>c\<in>set (cs @ ns). call_failed c" if finished
      using that rest cs(2) by (auto simp: loop_calls_ok_def)
    show "\<forall>iu\<in>set ((i, u) # l). \<exists>c\<in>set (cs @ ns). call_index c = fst iu" if finished
      using that rest c by (auto simp: loop_calls_ok_def)
  qed
qed

lemma upstreams_loop_log:
  assumes "upstreams_loop x g l request self err cur = (res, self', err', cur')"
  shows "\<exists>ns. exchange_log self' = exchange_log self @ ns \<and> loop_calls_ok g l (res = None) ns"
  using assms
proof (induction l arbitrary: self err cur)
  case Nil
  then show ?case by (simp add: loop_calls_ok_Nil)
next
  case (Cons iu l)
  obtain i u where iu: "iu = (i, u)" by (cases iu)
  let ?n = "length (exchange_log self)"
  let ?result = "exchange x ?n u request"
  let ?self1 = "log_call self g i u u ?result"
  let ?cur = "adjust_rtt x u (exchange_elapsed x ?n)"
  let ?self2 = "set_upstream ?self1 g i ?cur"
  let ?retry = "exchange x (Suc ?n) ?cur request"
  let ?self3 = "log_call ?self2 g i u ?cur ?retry"
  let ?c = "\<lambda>f called r. \<lparr>call_group = g, call_index = i, call_rtt = rtt u, call_failed = f,
                call_upstream = called, call_result = r\<rparr>"
  consider (ok) "error ?result = None"
    | (timeout) "error ?result = Some (TIMEOUT_STR x)"
    | (retry_ok) "error ?result \<noteq> None" "error ?result \<noteq> Some (TIMEOUT_STR x)"
        "error ?retry = None"
    | (retry_failed) "error ?result \<noteq> None" "error ?result \<noteq> Some (TIMEOUT_STR x)"
        "error ?retry \<noteq> None"
    by blast
  then show ?case
  proof cases
    case ok
    with Cons.prems obtain r where "self' = ?self2" "res = Some r"
      by (auto simp: iu Let_def)
    moreover have "loop_calls_ok g ((i, u) # l) False [?c False u ?result]"
      by (rule loop_calls_ok_stop) auto
    ultimately show ?thesis
      using ok by (simp add: iu)
  next
    case timeout
    with Cons.prems have
      "upstreams_loop x g l request ?self2 err (Some (g, i)) = (res, self', err', cur')"
      by (simp add: iu Let_def)
    from Cons.IH [OF this] obtain ns where
      ns: "exchange_log self' = exchange_log ?self2 @ ns" "loop_calls_ok g l (res = None) ns"
      by blast
    have "loop_calls_ok g ((i, u) # l) (res = None) ([?c True u ?result] @ ns)"
      using ns(2) by (rule loop_calls_ok_Cons) simp_all
    then show ?thesis
      using ns(1) timeout by (auto simp: iu)
  next
    case retry_ok
    with Cons.prems obtain r where "self' = ?self3" "res = Some r"
      by (auto simp: iu Let_def)
    moreover have "loop_calls_ok g ((i, u) # l) False [?c True u ?result, ?c False ?cur ?retry]"
      by (rule loop_calls_ok_stop) auto
    ultimately show ?thesis
      using retry_ok by (simp add: iu)
  next
    case retry_failed
    with Cons.prems have
      "upstreams_loop x g l request ?self3
         (exchange_failed_twice ?cur (the (error ?result)) (the (error ?retry))) (Some (g, i))
       = (res, self', err', cur')"
      by (simp add: iu Let_def)
    from Cons.IH [OF this] obtain ns where
      ns: "exchange_log self' = exchange_log ?self3 @ ns" "loop_calls_ok g l (res = None) ns"
      by blast
    have "loop_calls_ok g ((i, u) # l) (res = None)
        ([?c True u ?result, ?c True ?cur ?retry] @ ns)"
      using ns(2) by (rule loop_calls_ok_Cons) simp_all
    then show ?thesis
      using ns(1) retry_failed by (auto simp: iu)
  qed
qed

lemma fallbacks_set_upstream_Primary [simp]:
  "fallbacks (set_upstream s Primary i u) = fallbacks s"
  "upstreams (set_upstream s Fallback i u) = upstreams s"
  "length (upstreams (set_upstream s g i u)) = length (upstreams s)"
  "length (fallbacks (set_upstream s g i u)) = length (fallbacks s)"
  by (cases g; simp add: set_upstream_def)+

lemma vectors_log_call [simp]:
  "fallbacks (log_call s g i u called r) = fallbacks s"
  "upstreams (log_call s g i u called r) = upstreams s"
  by (simp_all add: log_call_def)

lemma upstreams_loop_Primary_fallbacks:
  "upstreams_loop x Primary l request self err cur = (res, self', err', cur')
   \<Longrightarrow> fallbacks self' = fallbacks self"
proof (induction l arbitrary: self err cur)
  case Nil
  then show ?case by simp
next
  case (Cons iu l)
  obtain i u where iu: "iu = (i, u)" by (cases iu)
  show ?case
    using Cons.prems Cons.IH
    by (auto simp: iu Let_def split: if_splits)
qed

lemma sorted_upstreams_set:
  "set (sorted_upstreams us) = {(i, us ! i) | i. i < length us}"
  by (auto simp: sorted_upstreams_def in_set_enumerate_eq)

lemma sorted_upstreams_sorted:
  "sorted (map (\<lambda>iu. rtt (snd iu)) (sorted_upstreams us))"
  by (simp add: sorted_upstreams_def)

lemma loop_calls_ok_sorted_upstreams:
  assumes "loop_calls_ok g (sorted_upstreams us) finished ns"
  shows "\<forall>c \<in> set ns. call_group c = g \<and> call_index c < length us
            \<and> call_rtt c = rtt (us ! call_index c)"
    and "sorted (map call_rtt ns)"
    and "finished \<Longrightarrow> (\<forall>c \<in> set ns. call_failed c)
            \<and> (\<forall>i < length us. \<exists>c \<in> set ns. call_index c = i)"
proof -
  show "\<forall>c \<in> set ns. call_group c = g \<and> call_index c < length us
            \<and> call_rtt c = rtt (us ! call_index c)"
    using assms by (fastforce simp: loop_calls_ok_def sorted_upstreams_set)
  show "sorted (map call_rtt ns)"
    using assms sorted_upstreams_sorted by (simp add: loop_calls_ok_def)
  show "(\<forall>c \<in> set ns. call_failed c) \<and> (\<forall>i < length us. \<exists>c \<in> set ns. call_index c = i)"
    if finished
  proof (intro conjI allI impI)
    show "\<forall>c \<in> set ns. call_failed c"
      using assms that by (simp add: loop_calls_ok_def)
    fix i assume "i < length us"
    then have "(i, us ! i) \<in> set (sorted_upstreams us)"
      by (auto simp: sorted_upstreams_set)
    then show "\<exists>c \<in> set ns. call_index c = i"
      using assms that by (fastforce simp: loop_calls_ok_def)
  qed
qed

lemma tagged_simps [simp]:
  "tagged g [] = []"
  "tagged g ((i, u) # l) = ((g, i), u) # tagged g l"
  by (simp_all add: tagged_def)

lemma kept_error_skip:
  assumes "\<forall>c \<in> set (take 1 cs). call_target c \<noteq> call_target c1"
  shows "kept_error err (c1 # cs) = kept_error err cs"
  using assms by (cases cs) auto

lemma upstreams_loop_policy:
  assumes "upstreams_loop x g l request self err cur = (res, self', err', cur')"
    and "distinct (map fst l)"
  shows "\<exists>ns. exchange_log self' = exchange_log self @ ns
     \<and> (\<forall>c \<in> set ns. call_target c \<in> (\<lambda>iu. (g, fst iu)) ` set l)
     \<and> (case res of
          Some r \<Rightarrow>
            ns \<noteq> [] \<and> error (call_result (last ns)) = None
            \<and> r = \<lparr>ue_response = packet (call_result (last ns)), ue_error = None,
                   ue_upstream = Some (call_target (last ns))\<rparr>
            \<and> (\<forall>order. retry_policy x request (length (exchange_log self)) (tagged g l @ order) ns)
        | None \<Rightarrow>
            (\<forall>c \<in> set ns. error (call_result c) \<noteq> None)
            \<and> cur' = (if ns = [] then cur else Some (call_target (last ns)))
            \<and> (\<forall>order more.
                  retry_policy x request (length (exchange_log self)) (tagged g l @ order)
                    (ns @ more)
                  = retry_policy x request (length (exchange_log self')) order more)
            \<and> (\<forall>more. (\<forall>c \<in> set (take 1 more). call_target c \<notin> (\<lambda>iu. (g, fst iu)) ` set l)
                  \<longrightarrow> kept_error err (ns @ more) = kept_error err' more))"
  using assms
proof (induction l arbitrary: self err cur)
  case Nil
  then show ?case by simp
next
  case (Cons iu l)
  obtain i u where iu: "iu = (i, u)" by (cases iu)
  let ?n = "length (exchange_log self)"
  let ?first = "exchange x ?n u request"
  let ?self1 = "log_call self g i u u ?first"
  let ?cur = "adjust_rtt x u (exchange_elapsed x ?n)"
  let ?self2 = "set_upstream ?self1 g i ?cur"
  let ?retry = "exchange x (Suc ?n) ?cur request"
  let ?self3 = "log_call ?self2 g i u ?cur ?retry"
  let ?msg = "exchange_failed_twice ?cur (the (error ?first)) (the (error ?retry))"
  define c1 where "c1 = \<lparr>call_group = g, call_index = i, call_rtt = rtt u,
     call_failed = (error ?first \<noteq> None), call_upstream = u, call_result = ?first\<rparr>"
  define c2 where "c2 = \<lparr>call_group = g, call_index = i, call_rtt = rtt u,
     call_failed = (error ?retry \<noteq> None), call_upstream = ?cur, call_result = ?retry\<rparr>"
  have d: "distinct (map fst l)" and i: "i \<notin> fst ` set l"
    using Cons.prems(2) by (simp_all add: iu)
  have t: "call_target c1 = (g, i)" "call_target c2 = (g, i)"
    and res: "call_result c1 = ?first" "call_result c2 = ?retry"
    and ups: "call_upstream c2 = ?cur"
    and m1: "exchange_made x request ?n (g, i) u c1"
    and m2: "exchange_made x request (Suc ?n) (g, i) ?cur c2"
    by (simp_all add: c1_def c2_def exchange_made_def call_target_def)
  have log2: "exchange_log ?self2 = exchange_log self @ [c1]"
    and log3: "exchange_log ?self3 = exchange_log self @ [c1, c2]"
    by (simp_all add: c1_def c2_def)
  have away: "call_target c \<noteq> (g, i)" if "call_target c \<in> (\<lambda>iu. (g, fst iu)) ` set l" for c
    using that i by force
  consider (ok) "error ?first = None"
    | (timeout) "error ?first = Some (TIMEOUT_STR x)"
    | (retry_ok) "error ?first \<noteq> None" "error ?first \<noteq> Some (TIMEOUT_STR x)"
        "error ?retry = None"
    | (retry_failed) "error ?first \<noteq> None" "error ?first \<noteq> Some (TIMEOUT_STR x)"
        "error ?retry \<noteq> None"
    by blast
  then show ?case
  proof cases
    case ok
    with Cons.prems(1) have r: "self' = ?self2"
      "res = Some \<lparr>ue_response = packet ?first, ue_error = None, ue_upstream = Some (g, i)\<rparr>"
      by (auto simp: iu Let_def)
    show ?thesis
      unfolding r iu
      by (intro exI [of _ "[c1]"]) (simp add: log2 t res m1 ok del: exchange_log_log_call exchange_log_set_upstream)
  next
    case timeout
    with Cons.prems(1) have
      "upstreams_loop x g l request ?self2 err (Some (g, i)) = (res, self', err', cur')"
      by (simp add: iu Let_def)
    from Cons.IH [OF this d] obtain ns where
      ns: "exchange_log self' = exchange_log ?self2 @ ns"
        "\<forall>c \<in> set ns. call_target c \<in> (\<lambda>iu. (g, fst iu)) ` set l"
      and rest: "case res of
          Some r \<Rightarrow>
            ns \<noteq> [] \<and> error (call_result (last ns)) = None
            \<and> r = \<lparr>ue_response = packet (call_result (last ns)), ue_error = None,
                   ue_upstream = Some (call_target (last ns))\<rparr>
            \<and> (\<forall>order. retry_policy x request (length (exchange_log ?self2)) (tagged g l @ order) ns)
        | None \<Rightarrow>
            (\<forall>c \<in> set ns. error (call_result c) \<noteq> None)
            \<and> cur' = (if ns = [] then Some (g, i) else Some (call_target (last ns)))
            \<and> (\<forall>order more.
                  retry_policy x request (length (exchange_log ?self2)) (tagged g l @ order)
                    (ns @ more)
                  = retry_policy x request (length (exchange_log self')) order more)
            \<and> (\<forall>more. (\<forall>c \<in> set (take 1 more). call_target c \<notin> (\<lambda>iu. (g, fst iu)) ` set l)
                  \<longrightarrow> kept_error err (ns @ more) = kept_error err' more)"
      by blast
    have len: "length (exchange_log ?self2) = Suc ?n" unfolding log2 by simp
    have skip: "kept_error err (c1 # ns @ more) = kept_error err (ns @ more)"
      if "\<forall>c \<in> set (take 1 more). call_target c \<notin> (\<lambda>iu. (g, fst iu)) ` set ((i, u) # l)"
      for more
    proof (rule kept_error_skip)
      show "\<forall>c \<in> set (take 1 (ns @ more)). call_target c \<noteq> call_target c1"
        using that ns(2) away by (cases ns) (auto simp: t)
    qed
    show ?thesis
    proof (intro exI [of _ "c1 # ns"] conjI)
      show "exchange_log self' = exchange_log self @ c1 # ns"
        using ns(1) unfolding log2 by simp
      show "\<forall>c \<in> set (c1 # ns). call_target c \<in> (\<lambda>iu. (g, fst iu)) ` set (iu # l)"
        using ns(2) by (auto simp: iu t)
      show "case res of
          Some r \<Rightarrow>
            c1 # ns \<noteq> [] \<and> error (call_result (last (c1 # ns))) = None
            \<and> r = \<lparr>ue_response = packet (call_result (last (c1 # ns))), ue_error = None,
                   ue_upstream = Some (call_target (last (c1 # ns)))\<rparr>
            \<and> (\<forall>order. retry_policy x request (length (exchange_log self)) (tagged g (iu # l) @ order)
                  (c1 # ns))
        | None \<Rightarrow>
            (\<forall>c \<in> set (c1 # ns). error (call_result c) \<noteq> None)
            \<and> cur' = (if c1 # ns = [] then cur else Some (call_target (last (c1 # ns))))
            \<and> (\<forall>order more.
                  retry_policy x request (length (exchange_log self)) (tagged g (iu # l) @ order)
                    ((c1 # ns) @ more)
                  = retry_policy x request (length (exchange_log self')) order more)
            \<and> (\<forall>more. (\<forall>c \<in> set (take 1 more). call_target c \<notin> (\<lambda>iu. (g, fst iu)) ` set (iu # l))
                  \<longrightarrow> kept_error err ((c1 # ns) @ more) = kept_error err' more)"
      proof (cases res)
        case (Some r)
        with rest show ?thesis
          unfolding len iu by (simp add: m1 timeout t res)
      next
        case None
        with rest have
          f: "\<forall>c \<in> set ns. error (call_result c) \<noteq> None"
          and c: "cur' = (if ns = [] then Some (g, i) else Some (call_target (last ns)))"
          and p: "\<And>order more.
                  retry_policy x request (Suc ?n) (tagged g l @ order) (ns @ more)
                  = retry_policy x request (length (exchange_log self')) order more"
          and k: "\<And>more. (\<forall>c \<in> set (take 1 more). call_target c \<notin> (\<lambda>iu. (g, fst iu)) ` set l)
                  \<Longrightarrow> kept_error err (ns @ more) = kept_error err' more"
          unfolding len by simp_all
        have k': "kept_error err ((c1 # ns) @ more) = kept_error err' more"
          if "\<forall>c \<in> set (take 1 more). call_target c \<notin> (\<lambda>iu. (g, fst iu)) ` set ((i, u) # l)"
          for more
        proof -
          have "\<forall>c \<in> set (take 1 more). call_target c \<notin> (\<lambda>iu. (g, fst iu)) ` set l"
            using that by auto
          then show ?thesis
            using skip [OF that] k by simp
        qed
        show ?thesis
          unfolding None iu using f c k'
          by (simp add: m1 timeout t res p del: kept_error.simps)
      qed
    qed
  next
    case retry_ok
    with Cons.prems(1) have r: "self' = ?self3"
      "res = Some \<lparr>ue_response = packet ?retry, ue_error = None, ue_upstream = Some (g, i)\<rparr>"
      by (auto simp: iu Let_def)
    show ?thesis
      unfolding r iu
      by (intro exI [of _ "[c1, c2]"])
         (simp add: log3 t res m1 m2 retry_ok del: exchange_log_log_call exchange_log_set_upstream)
  next
    case retry_failed
    with Cons.prems(1) have
      "upstreams_loop x g l request ?self3 ?msg (Some (g, i)) = (res, self', err', cur')"
      by (simp add: iu Let_def)
    from Cons.IH [OF this d] obtain ns where
      ns: "exchange_log self' = exchange_log ?self3 @ ns"
        "\<forall>c \<in> set ns. call_target c \<in> (\<lambda>iu. (g, fst iu)) ` set l"
      and rest: "case res of
          Some r \<Rightarrow>
            ns \<noteq> [] \<and> error (call_result (last ns)) = None
            \<and> r = \<lparr>ue_response = packet (call_result (last ns)), ue_error = None,
                   ue_upstream = Some (call_target (last ns))\<rparr>
            \<and> (\<forall>order. retry_policy x request (length (exchange_log ?self3)) (tagged g l @ order) ns)
        | None \<Rightarrow>
            (\<forall>c \<in> set ns. error (call_result c) \<noteq> None)
            \<and> cur' = (if ns = [] then Some (g, i) else Some (call_target (last ns)))
            \<and> (\<forall>order more.
                  retry_policy x request (length (exchange_log ?self3)) (tagged g l @ order)
                    (ns @ more)
                  = retry_policy x request (length (exchange_log self')) order more)
            \<and> (\<forall>more. (\<forall>c \<in> set (take 1 more). call_target c \<notin> (\<lambda>iu. (g, fst iu)) ` set l)
                  \<longrightarrow> kept_error ?msg (ns @ more) = kept_error err' more)"
      by blast
    have len: "length (exchange_log ?self3) = Suc (Suc ?n)" unfolding log3 by simp
    have pair: "kept_error err (c1 # c2 # cs) = kept_error ?msg cs" for cs
      by (simp add: t res ups exchange_failed_twice_def)
    show ?thesis
    proof (intro exI [of _ "c1 # c2 # ns"] conjI)
      show "exchange_log self' = exchange_log self @ c1 # c2 # ns"
        using ns(1) unfolding log3 by simp
      show "\<forall>c \<in> set (c1 # c2 # ns). call_target c \<in> (\<lambda>iu. (g, fst iu)) ` set (iu # l)"
        using ns(2) by (auto simp: iu t)
      show "case res of
          Some r \<Rightarrow>
            c1 # c2 # ns \<noteq> [] \<and> error (call_result (last (c1 # c2 # ns))) = None
            \<and> r = \<lparr>ue_response = packet (call_result (last (c1 # c2 # ns))), ue_error = None,
                   ue_upstream = Some (call_target (last (c1 # c2 # ns)))\<rparr>
            \<and> (\<forall>order. retry_policy x request (length (exchange_log self)) (tagged g (iu # l) @ order)
                  (c1 # c2 # ns))
        | None \<Rightarrow>
            (\<forall>c \<in> set (c1 # c2 # ns). error (call_result c) \<noteq> None)
            \<and> cur' = (if c1 # c2 # ns = [] then cur
                      else Some (call_target (last (c1 # c2 # ns))))
            \<and> (\<forall>order more.
                  retry_policy x request (length (exchange_log self)) (tagged g (iu # l) @ order)
                    ((c1 # c2 # ns) @ more)
                  = retry_policy x request (length (exchange_log self')) order more)
            \<and> (\<forall>more. (\<forall>c \<in> set (take 1 more). call_target c \<notin> (\<lambda>iu. (g, fst iu)) ` set (iu # l))
                  \<longrightarrow> kept_error err ((c1 # c2 # ns) @ more) = kept_error err' more)"
      proof (cases res)
        case (Some r)
        with rest show ?thesis
          unfolding len iu by (simp add: m1 m2 retry_failed t res)
      next
        case None
        with rest have
          f: "\<forall>c \<in> set ns. error (call_result c) \<noteq> None"
          and c: "cur' = (if ns = [] then Some (g, i) else Some (call_target (last ns)))"
          and p: "\<And>order more.
                  retry_policy x request (Suc (Suc ?n)) (tagged g l @ order) (ns @ more)
                  = retry_policy x request (length (exchange_log self')) order more"
          and k: "\<And>more. (\<forall>c \<in> set (take 1 more). call_target c \<notin> (\<lambda>iu. (g, fst iu)) ` set l)
                  \<Longrightarrow> kept_error ?msg (ns @ more) = kept_error err' more"
          unfolding len by simp_all
        have k': "kept_error err ((c1 # c2 # ns) @ more) = kept_error err' more"
          if "\<forall>c \<in> set (take 1 more). call_target c \<notin> (\<lambda>iu. (g, fst iu)) ` set ((i, u) # l)"
          for more
        proof -
          have "\<forall>c \<in> set (take 1 more). call_target c \<notin> (\<lambda>iu. (g, fst iu)) ` set l"
            using that by auto
          then show ?thesis
            using pair [of "ns @ more"] k by simp
        qed
        obtain e1 e2 where e: "error ?first = Some e1" "error ?retry = Some e2"
          using retry_failed(1,3) by auto
        have ne: "e1 \<noteq> TIMEOUT_STR x"
          using retry_failed(2) e(1) by simp
        show ?thesis
          unfolding None iu using f c k'
          by (simp add: m1 m2 e ne t res p del: kept_error.simps)
      qed
    qed
  qed
qed

lemma distinct_sorted_upstreams: "distinct (map fst (sorted_upstreams us))"
proof -
  have "distinct (map fst (enumerate 0 us))"
    by (simp add: map_fst_enumerate)
  then have "distinct (enumerate 0 us) \<and> inj_on fst (set (enumerate 0 us))"
    unfolding distinct_map .
  then show ?thesis
    by (simp add: sorted_upstreams_def distinct_map)
qed

section \<open>Facts about the DNS64 synthesis\<close>

lemma dns64_rr_loop_eq:
  "dns64_rr_loop x prefixes answer rr_list n =
     (rr_list @ dns64_record_list x prefixes answer,
      n + length (dns64_synthesized x prefixes answer))"
  by (induction answer arbitrary: rr_list n)
     (simp_all add: dns64_record_list_def dns64_synthesized_def Let_def)


section \<open>Facts about the pipeline\<close>

lemma decimal_types:
  "decimal LDNS_RR_TYPE_A = ''1''" "decimal LDNS_RR_TYPE_AAAA = ''28''"
  "decimal LDNS_RR_TYPE_TXT = ''16''" "decimal LDNS_RR_CLASS_IN = ''1''"
  by (simp_all add: decimal.simps rr_type_defs)

lemma sample_do_upstream_exchange:
  "do_upstream_exchange sample_externals (sample_forwarder\<lparr>response_cache := c\<rparr>) request =
     (\<lparr>ue_response = Some (upstream_answer request), ue_error = None,
        ue_upstream = Some (Fallback, 0)\<rparr>,
      (sample_dispatched request)\<lparr>response_cache := c\<rparr>)"
  by (simp add: dispatch_eval sorted_upstreams_def sample_externals_def sample_forwarder_def
        sample_dispatched_def sample_calls_def)

lemma cache_miss_state:
  assumes "cr_response (fst (create_response_from_cache buf settings self key request now)) = None"
  shows "snd (create_response_from_cache buf settings self key request now) = self"
  using assms
  by (auto simp: create_response_from_cache_def Let_def lru_get_def split: option.splits if_splits)

lemma handle_message_miss:
  assumes "ldns_pkt_question request \<noteq> []"
    and "cache_miss x settings self request now_lookup"
  shows "handle_message x settings self (Some request) now_lookup now_insert
     = process_request x settings self request (get_cache_key request) now_insert"
proof -
  obtain cached self1 where c: "create_response_from_cache (UDP_RECV_BUF_SIZE x) settings self
      (get_cache_key request) request now_lookup = (cached, self1)"
    by (cases "create_response_from_cache (UDP_RECV_BUF_SIZE x) settings self
      (get_cache_key request) request now_lookup")
  with assms(2) have "cr_response cached = None" by (simp add: cache_miss_def)
  moreover have "self1 = self"
    using cache_miss_state [of "UDP_RECV_BUF_SIZE x" settings self "get_cache_key request" request now_lookup]
      assms(2) c by (simp add: cache_miss_def)
  ultimately show ?thesis
    using assms(1) c by (cases "ldns_pkt_question request") (simp_all add: handle_message_def Let_def)
qed


lemma canary_on_miss:
  assumes "ldns_pkt_question request = question # qs"
    and "ldns_rr_get_type question = LDNS_RR_TYPE_A \<or> ldns_rr_get_type question = LDNS_RR_TYPE_AAAA"
    and "ldns_rdf2str (ldns_rr_owner question) = MOZILLA_DOH_HOST"
    and "cache_miss x settings self request now_lookup"
  shows "handle_message x settings self (Some request) now_lookup now_insert
           = (case create_nxdomain_response x request settings of
                None \<Rightarrow> None
              | Some nxdomain_response \<Rightarrow> Some (Some nxdomain_response, self))"
proof -
  have q: "ldns_pkt_question request \<noteq> []" using assms(1) by simp
  show ?thesis
    unfolding handle_message_miss [OF q assms(4)]
    using assms(1,2,3) by (auto simp: process_request_def Let_def)
qed


lemma sample_cache_miss:
  "cache_miss x sample_settings sample_forwarder request now"
  by (simp add: cache_miss_def lookup_eval sample_forwarder_def Let_def)

lemma sample_names:
  "ldns_rdf2str canary_upper = ''USE-APPLICATION-DNS.NET.''"
  "ldns_rdf2str canary_name = ''use-application-dns.net.''"
  "ldns_rdf2str example_com = ''example.com.''"
  "ldns_rdf2str ads_example = ''ads.example.''"
  by (simp_all add: ldns_rdf2str_def canary_upper_def canary_name_def example_com_def
        ads_example_def)

lemma sample_keys:
  "get_cache_key (sample_query i canary_upper LDNS_RR_TYPE_A) = ''1|1|00|use-application-dns.net.''"
  "get_cache_key (sample_query i canary_name LDNS_RR_TYPE_A) = ''1|1|00|use-application-dns.net.''"
  by (simp_all add: get_cache_key_def sample_query_def question_rr_def canary_upper_def
        canary_name_def tolower_def ldns_pkt_new_def ldns_pkt_edns_do_def decimal_types)

lemma sample_do_upstream_exchange':
  "do_upstream_exchange sample_externals sample_forwarder request =
     (\<lparr>ue_response = Some (upstream_answer request), ue_error = None,
        ue_upstream = Some (Fallback, 0)\<rparr>, sample_dispatched request)"
  using sample_do_upstream_exchange [of "response_cache sample_forwarder" request]
  by (simp add: sample_dispatched_def)

lemma process_upper:
  "process_request sample_externals sample_settings sample_forwarder
     (sample_query 0x1111 canary_upper LDNS_RR_TYPE_A) ''1|1|00|use-application-dns.net.'' 0
   = forward_request sample_externals sample_settings sample_forwarder
       (sample_query 0x1111 canary_upper LDNS_RR_TYPE_A) ''1|1|00|use-application-dns.net.'' [] 0"
  by (simp add: process_request_def Let_def sample_query_def question_rr_def sample_names
        MOZILLA_DOH_HOST_def ldns_dname_str_absolute_def apply_filter_def
        sample_externals_def sample_settings_def)


lemma upstream_answer_fields:
  "ldns_pkt_get_rcode (upstream_answer request) = LDNS_RCODE_NOERROR"
  "ldns_pkt_answer (upstream_answer request)
     = [address_rr (ldns_rr_owner (hd (ldns_pkt_question request))) LDNS_RR_TYPE_A 300
          [CHR 0xC0, CHR 0x00, CHR 0x00, CHR 0xAA]]"
  "ldns_pkt_authority (upstream_answer request) = []"
  "ldns_pkt_additional (upstream_answer request) = []"
  "ldns_pkt_question (upstream_answer request) = ldns_pkt_question request"
  "ldns_pkt_id (upstream_answer request) = ldns_pkt_id request"
  "ldns_pkt_tc (upstream_answer request) = False"
  "\<not> has_unsupported_extensions (upstream_answer request)"
  by (simp_all add: upstream_answer_def ldns_pkt_new_def has_unsupported_extensions_def
        ldns_pkt_edns_unassigned_def)

lemma sample_filter_answers:
  "filter_answers sample_externals sample_settings request
     [address_rr name LDNS_RR_TYPE_A 300 [CHR 0xC0, CHR 0x00, CHR 0x00, CHR 0xAA]] []
   = Some (None, [])"
  by (simp add: address_rr_def apply_ip_filter_def ldns_rdf_size_def ipv4_address_size_def
        apply_filter_def Let_def sample_externals_def decimal.simps rr_type_defs)

lemma forward_upper:
  "forward_request sample_externals sample_settings sample_forwarder
       (sample_query 0x1111 canary_upper LDNS_RR_TYPE_A) ''1|1|00|use-application-dns.net.'' [] 0
   = Some (Some (upstream_answer (sample_query 0x1111 canary_upper LDNS_RR_TYPE_A)),
           (sample_dispatched (sample_query 0x1111 canary_upper LDNS_RR_TYPE_A))\<lparr>response_cache :=
             \<lparr>max_size = 2,
              key_values = [(''1|1|00|use-application-dns.net.'',
                \<lparr>response = (upstream_answer (sample_query 0x1111 canary_upper LDNS_RR_TYPE_A))
                              \<lparr>ldns_pkt_question := [], ldns_pkt_aa := False\<rparr>,
                 expires_at = seconds 300, upstream_id = Some 3\<rparr>)]\<rparr>\<rparr>)"
proof -
  let ?q = "sample_query 0x1111 canary_upper LDNS_RR_TYPE_A"
  have c: "spec_cacheable sample_settings (upstream_answer ?q)"
    "spec_min_ttl (upstream_answer ?q) = 300"
    by (simp_all add: spec_cacheable_def spec_min_ttl_def all_rrs_def upstream_answer_fields
          ldns_pkt_qdcount_def sample_settings_def sample_query_def question_rr_def
          address_rr_def Let_def)
       (simp_all add: upstream_answer_def ldns_pkt_new_def ldns_pkt_edns_unassigned_def)
  have put: "put_response_into_cache sample_settings (sample_dispatched ?q)
       ''1|1|00|use-application-dns.net.'' (upstream_answer ?q) (Some 3) 0
     = (sample_dispatched ?q)\<lparr>response_cache :=
             \<lparr>max_size = 2,
              key_values = [(''1|1|00|use-application-dns.net.'',
                \<lparr>response = (upstream_answer ?q)\<lparr>ldns_pkt_question := [], ldns_pkt_aa := False\<rparr>,
                 expires_at = seconds 300, upstream_id = Some 3\<rparr>)]\<rparr>\<rparr>"
    by (simp add: put_response_into_cache_eq c UINT32_MAX_def)
       (simp add: lru_insert_def lru_find_def sample_dispatched_def sample_forwarder_def Let_def)
  have u: "id_opt (upstream_at (sample_dispatched ?q) (Fallback, 0)) = 3"
    by (simp add: upstream_at_def group_vector_def sample_dispatched_def)
  show ?thesis
    by (simp add: forward_request_def sample_do_upstream_exchange' upstream_answer_fields
          sample_filter_answers Let_def u put del: filter_answers.simps)
       (simp add: sample_settings_def)
qed


lemma after_upper_case_canary_eq:
  "after_upper_case_canary sample_externals =
     (sample_dispatched (sample_query 0x1111 canary_upper LDNS_RR_TYPE_A))\<lparr>response_cache :=
       \<lparr>max_size = 2,
        key_values = [(''1|1|00|use-application-dns.net.'',
          \<lparr>response = (upstream_answer (sample_query 0x1111 canary_upper LDNS_RR_TYPE_A))
                        \<lparr>ldns_pkt_question := [], ldns_pkt_aa := False\<rparr>,
           expires_at = seconds 300, upstream_id = Some 3\<rparr>)]\<rparr>\<rparr>"
proof -
  have q: "ldns_pkt_question (sample_query 0x1111 canary_upper LDNS_RR_TYPE_A) \<noteq> []"
    by (simp add: sample_query_def)
  show ?thesis
    unfolding after_upper_case_canary_def
      handle_message_miss [OF q sample_cache_miss] sample_keys process_upper forward_upper
    by simp
qed

lemma dead_do_upstream_exchange:
  "ue_response (fst (do_upstream_exchange dead_externals sample_forwarder request)) = None"
  "ue_upstream (fst (do_upstream_exchange dead_externals sample_forwarder request))
     = Some (Fallback, 0)"
  "response_cache (snd (do_upstream_exchange dead_externals sample_forwarder request))
     = response_cache sample_forwarder"
  "async_reqs (snd (do_upstream_exchange dead_externals sample_forwarder request)) = []"
  by (simp_all add: dispatch_eval sorted_upstreams_def dead_externals_def sample_externals_def
        sample_forwarder_def)

lemma after_upper_case_canary_dead:
  "response_cache (after_upper_case_canary dead_externals) = \<lparr>max_size = 2, key_values = []\<rparr>"
proof -
  have q: "ldns_pkt_question (sample_query 0x1111 canary_upper LDNS_RR_TYPE_A) \<noteq> []"
    by (simp add: sample_query_def)
  have p: "process_request dead_externals sample_settings sample_forwarder
     (sample_query 0x1111 canary_upper LDNS_RR_TYPE_A) ''1|1|00|use-application-dns.net.'' 0
   = forward_request dead_externals sample_settings sample_forwarder
       (sample_query 0x1111 canary_upper LDNS_RR_TYPE_A) ''1|1|00|use-application-dns.net.'' [] 0"
    by (simp add: process_request_def Let_def sample_query_def question_rr_def sample_names
        MOZILLA_DOH_HOST_def ldns_dname_str_absolute_def apply_filter_def
        sample_externals_def dead_externals_def sample_settings_def)
  obtain r self1 where d: "do_upstream_exchange dead_externals sample_forwarder
      (sample_query 0x1111 canary_upper LDNS_RR_TYPE_A) = (r, self1)"
    by (cases "do_upstream_exchange dead_externals sample_forwarder
      (sample_query 0x1111 canary_upper LDNS_RR_TYPE_A)")
  have r: "ue_response r = None" "ue_upstream r = Some (Fallback, 0)"
    "response_cache self1 = response_cache sample_forwarder"
    using dead_do_upstream_exchange [of "sample_query 0x1111 canary_upper LDNS_RR_TYPE_A"]
    by (simp_all add: d)
  show ?thesis
    unfolding after_upper_case_canary_def
      handle_message_miss [OF q sample_cache_miss] sample_keys p
    by (simp add: forward_request_def d r) (simp add: sample_forwarder_def)
qed


lemma sample_query_supported: "\<not> has_unsupported_extensions (sample_query i n t)"
  by (simp add: has_unsupported_extensions_def ldns_pkt_edns_unassigned_def sample_defs)

lemma sample_cached_eq:
  "sample_cached = sample_forwarder\<lparr>response_cache :=
     \<lparr>max_size = 2,
      key_values = [(''1|1|00|example.com.'',
        \<lparr>response = (sample_response 0x77 example_com 300)\<lparr>ldns_pkt_question := []\<rparr>,
         expires_at = seconds 300, upstream_id = Some 1\<rparr>)]\<rparr>\<rparr>"
  by (simp add: sample_cached_def put_eval sample_defs rr_type_defs)


lemma sample_response_cacheable:
  "spec_cacheable sample_settings (sample_response i example_com ttl) = (ttl \<noteq> 0)"
  "spec_min_ttl (sample_response i example_com ttl) = ttl"
  by (auto simp: spec_cacheable_def spec_min_ttl_def all_rrs_def ldns_pkt_qdcount_def
        ldns_pkt_edns_unassigned_def sample_defs rr_type_defs word_le_nat_alt unat_gt_0 Suc_le_eq)

section \<open>The claims about the cache\<close>

text \<open>
  C1 (as amended). Let the cache hold, under \<open>key\<close>, an entry stored at time \<open>t0\<close> with
  minimum record TTL \<open>tau\<close>, so that it expires at \<open>t0 + tau\<close>. A lookup at a time \<open>t\<close>
  with \<open>t0 \<le> t < t0 + tau\<close>, by a request that carries no unsupported EDNS extension,
  while caching is enabled, returns a response that is not reported expired, whose id is
  the request's id, and in which every record of the Answer, Authority and Additional
  sections has the TTL \<open>ceil (t0 + tau - t)\<close>, clamped to at least 1. Times are in
  nanoseconds, \<open>tau\<close> in seconds.
\<close>

theorem cache_hit_patches_ttl_and_id:
  fixes tau :: "32 word"
  assumes "dns_cache_size settings \<noteq> 0"
    and "\<not> has_unsupported_extensions request"
    and "lru_find (response_cache self) key = Some e"
    and "expires_at e = t0 + seconds (unat tau)"
    and "t0 \<le> t" and "t < t0 + seconds (unat tau)"
  shows "\<exists>p. cr_response (fst (create_response_from_cache buf settings self key request t)) = Some p
      \<and> \<not> expired (fst (create_response_from_cache buf settings self key request t))
      \<and> ldns_pkt_id p = ldns_pkt_id request
      \<and> (\<forall>rr \<in> set (all_rrs p).
            uint (ldns_rr_ttl rr)
              = max 1 \<lceil>real_of_int (t0 + seconds (unat tau) - t) / 1000000000\<rceil>)"
  using assms by (rule cache_hit_window)

text \<open>
  The response cached at time 0 with TTL 300 is looked up at the tenth second by a query
  with id 0x1234: the answer's TTL is 290 and the id is 0x1234.
\<close>

theorem cache_hit_patches_ttl_and_id_witness:
  "\<exists>p. cr_response (fst (create_response_from_cache 4096 sample_settings sample_cached
           ''1|1|00|example.com.'' (sample_query 0x1234 example_com LDNS_RR_TYPE_A)
           (seconds 10))) = Some p
      \<and> ldns_pkt_id p = 0x1234
      \<and> list_all (\<lambda>rr. uint (ldns_rr_ttl rr) = 290) (all_rrs p)"
proof -
  have a: "dns_cache_size sample_settings \<noteq> 0"
    by (simp add: sample_settings_def)
  have b: "\<not> has_unsupported_extensions (sample_query 0x1234 example_com LDNS_RR_TYPE_A)"
    by (rule sample_query_supported)
  have c: "lru_find (response_cache sample_cached) ''1|1|00|example.com.''
      = Some \<lparr>response = (sample_response 0x77 example_com 300)\<lparr>ldns_pkt_question := []\<rparr>,
              expires_at = seconds 300, upstream_id = Some 1\<rparr>"
    by (simp add: sample_cached_eq lru_find_def)
  have d: "expires_at
        \<lparr>response = (sample_response 0x77 example_com 300)\<lparr>ldns_pkt_question := []\<rparr>,
         expires_at = seconds 300, upstream_id = Some 1\<rparr>
      = 0 + seconds (unat (300 :: 32 word))"
    by simp
  have e: "(0::int) \<le> seconds 10" "seconds 10 < 0 + seconds (unat (300 :: 32 word))"
    by (simp_all add: seconds_def)
  have f: "max 1 \<lceil>real_of_int (0 + seconds (unat (300 :: 32 word)) - seconds 10) / 1000000000\<rceil>
      = 290"
    by (simp add: seconds_def)
  show ?thesis
    using cache_hit_patches_ttl_and_id [OF a b c d e, of 4096]
    unfolding f by (auto simp: sample_query_def list_all_iff)
qed

text \<open>
  C1 as stated fails: the same entry, the same time, but the request carries EDNS data.
  The entry is in the cache and the lookup returns no response.
\<close>

theorem cache_hit_unsupported_extensions_counterexample:
  "lru_find (response_cache sample_cached) ''1|1|00|example.com.'' \<noteq> None
   \<and> cr_response (fst (create_response_from_cache 4096 sample_settings sample_cached
         ''1|1|00|example.com.''
         ((sample_query 0x1234 example_com LDNS_RR_TYPE_A)\<lparr>ldns_pkt_edns_data := Some ''x''\<rparr>)
         (seconds 10))) = None"
  by (simp add: sample_cached_eq lru_find_def create_response_from_cache_unsupported
        has_unsupported_extensions_def)

text \<open>
  C2 (as amended). \<open>put_response_into_cache\<close> inserts the response, stripped of its
  question and with AA cleared, expiring at \<open>now\<close> plus the minimum TTL, exactly when the
  specification's cacheability rules hold and the minimum TTL is not \<open>UINT32_MAX\<close>;
  otherwise the forwarder, and so the cache, is unchanged.
\<close>

theorem put_response_into_cache_iff:
  "put_response_into_cache settings self key resp uid now =
     (if spec_cacheable settings resp \<and> spec_min_ttl resp \<noteq> UINT32_MAX
      then self\<lparr>response_cache :=
             lru_insert (response_cache self) key
               \<lparr>response = resp\<lparr>ldns_pkt_question := [], ldns_pkt_aa := False\<rparr>,
                expires_at = now + seconds (unat (spec_min_ttl resp)),
                upstream_id = uid\<rparr>\<rparr>
      else self)"
  by (rule put_response_into_cache_eq)

text \<open>
  A response with TTL 300 is found in the cache afterwards; one with TTL 0 leaves the
  forwarder as it was.
\<close>

theorem put_response_into_cache_iff_witness:
  "lru_find (response_cache (put_response_into_cache sample_settings sample_forwarder
       ''1|1|00|example.com.'' (sample_response 0x77 example_com 300) (Some 1) 0))
     ''1|1|00|example.com.''
     = Some \<lparr>response = (sample_response 0x77 example_com 300)
                \<lparr>ldns_pkt_question := [], ldns_pkt_aa := False\<rparr>,
             expires_at = seconds 300, upstream_id = Some 1\<rparr>
   \<and> put_response_into_cache sample_settings sample_forwarder
       ''1|1|00|example.com.'' (sample_response 0x77 example_com 0) (Some 1) 0 = sample_forwarder"
  using put_response_into_cache_iff [of sample_settings sample_forwarder "''1|1|00|example.com.''"
      "sample_response 0x77 example_com 300" "Some 1" 0]
    put_response_into_cache_iff [of sample_settings sample_forwarder "''1|1|00|example.com.''"
      "sample_response 0x77 example_com 0" "Some 1" 0]
  by (simp add: sample_response_cacheable UINT32_MAX_def lru_find_insert sample_forwarder_def)

text \<open>
  C2 as stated fails: a response whose only record has the TTL \<open>0xFFFFFFFF\<close> meets every
  rule the claim lists (its minimum TTL is at least 1), and is not inserted.
\<close>

theorem put_response_max_ttl_counterexample:
  "spec_cacheable sample_settings (sample_response 0x77 example_com 0xFFFFFFFF)
   \<and> put_response_into_cache sample_settings sample_forwarder ''1|1|00|example.com.''
        (sample_response 0x77 example_com 0xFFFFFFFF) (Some 1) 0 = sample_forwarder"
proof -
  have "put_response_into_cache sample_settings sample_forwarder ''1|1|00|example.com.''
        (sample_response 0x77 example_com 0xFFFFFFFF) (Some 1) 0 = sample_forwarder"
    by (simp add: put_eval sample_defs rr_type_defs)
  then show ?thesis
    by (simp add: sample_response_cacheable)
qed


section \<open>The claim about hosts-style rules\<close>

text \<open>
  C4 (as amended). Let every rule carry an IP and none a blocking IP (the decisive rule
  is hosts-style with real IPs). For a query of type A or AAAA, in every blocking mode:
  when no rule IP belongs to the family of the query type and ldns makes the mailbox
  name of the SOA record, the response is the NOERROR SOA response with RETRY 900; when
  some rule IPs belong to the family and ldns parses each of them as an address of the
  family, the response has rcode NOERROR, its answer section carries the addresses of
  these IPs, all of them and in rule order, and every answer record has the query type
  and the TTL \<open>blocked_response_ttl_secs\<close>. For a query of any other type the response
  is a REFUSED response in the mode REFUSED and, when ldns makes the mailbox name, an
  NXDOMAIN response in the mode NXDOMAIN and that NOERROR SOA response in the modes
  DEFAULT, UNSPECIFIED_ADDRESS and CUSTOM_ADDRESS.
\<close>

theorem hosts_style_blocking_response:
  assumes "rules \<noteq> []"
    and "list_all (\<lambda>r. ip r \<noteq> None) rules"
    and "\<not> rules_contain_blocking_ip rules"
  shows
    "let qtype = ldns_rr_get_type (hd (ldns_pkt_question request));
         made = create_blocking_response x request settings rules
     in if qtype = LDNS_RR_TYPE_A \<or> qtype = LDNS_RR_TYPE_AAAA then
          (if family_ips x qtype rules = []
           then mbox_parses request \<longrightarrow> (\<exists>p. made = Some p \<and> noerror_soa_response p 900)
           else list_all (\<lambda>s. address_rdf x qtype s \<noteq> None) (family_ips x qtype rules) \<longrightarrow>
             (\<exists>p. made = Some p
                \<and> ldns_pkt_get_rcode p = LDNS_RCODE_NOERROR
                \<and> answer_addresses p
                    = map (\<lambda>s. the (address_rdf x qtype s)) (family_ips x qtype rules)
                \<and> list_all (\<lambda>rr. ldns_rr_get_type rr = qtype
                                \<and> ldns_rr_ttl rr = blocked_response_ttl_secs settings)
                     (ldns_pkt_answer p)))
        else
          (case blocking_mode settings of
             REFUSED \<Rightarrow> (\<exists>p. made = Some p \<and> ldns_pkt_get_rcode p = LDNS_RCODE_REFUSED)
           | NXDOMAIN \<Rightarrow>
               mbox_parses request \<longrightarrow>
                 (\<exists>p. made = Some p \<and> ldns_pkt_get_rcode p = LDNS_RCODE_NXDOMAIN)
           | _ \<Rightarrow> mbox_parses request \<longrightarrow> (\<exists>p. made = Some p \<and> noerror_soa_response p 900))"
proof -
  obtain y where hd_ip: "ip (hd rules) = Some y"
    using assms(1,2) by (cases rules) auto
  let ?qtype = "ldns_rr_get_type (hd (ldns_pkt_question request))"
  consider (address) "?qtype = LDNS_RR_TYPE_A \<or> ?qtype = LDNS_RR_TYPE_AAAA"
    | (other) "?qtype \<noteq> LDNS_RR_TYPE_A" "?qtype \<noteq> LDNS_RR_TYPE_AAAA"
    by blast
  then show ?thesis
  proof cases
    case address
    have made: "create_blocking_response x request settings rules
        = create_response_with_ips x request settings rules"
      using address hd_ip assms(3) by (auto simp: create_blocking_response_def Let_def)
    show ?thesis
    proof (cases "family_ips x ?qtype rules = []")
      case True
      have "create_response_with_ips x request settings rules
          = create_soa_response x request settings 900"
        using address True
        by (auto simp: create_response_with_ips_A [OF _ assms(2)]
              create_response_with_ips_AAAA [OF _ assms(2)])
      then show ?thesis
        using address True create_soa_response_Some [of request x settings 900]
        by (auto simp: made Let_def)
    next
      case False
      have "\<exists>p. create_response_with_ips x request settings rules = Some p
          \<and> ldns_pkt_get_rcode p = LDNS_RCODE_NOERROR
          \<and> answer_addresses p
              = map (\<lambda>s. the (address_rdf x ?qtype s)) (family_ips x ?qtype rules)
          \<and> list_all (\<lambda>rr. ldns_rr_get_type rr = ?qtype
                          \<and> ldns_rr_ttl rr = blocked_response_ttl_secs settings)
               (ldns_pkt_answer p)"
        if "list_all (\<lambda>s. address_rdf x ?qtype s \<noteq> None) (family_ips x ?qtype rules)"
        using address refl assms(2) False that by (rule hosts_style_address_answer)
      then show ?thesis
        using address False unfolding Let_def made by (simp only: if_True if_False) blast
    qed
  next
    case other
    show ?thesis
    proof (cases "mbox_parses request")
      case True
      from create_soa_response_Some [OF True, of x settings 900]
        create_nxdomain_response_Some [OF True, of x settings]
      show ?thesis
        using other hd_ip
        by (cases "blocking_mode settings")
           (auto simp: create_blocking_response_def Let_def SOA_RETRY_DEFAULT_def
              create_refused_response_fields)
    next
      case False
      then show ?thesis
        using other hd_ip
        by (cases "blocking_mode settings")
           (simp_all add: create_blocking_response_def Let_def create_refused_response_fields)
    qed
  qed
qed

text \<open>
  The specification's third scenario: two rules with the IPs 10.0.0.1 and 10.0.0.2. The
  answer to a query of type A carries both addresses in rule order, with the configured
  TTL (3600 in the sample settings); a query of type AAAA, to whose family neither IP
  belongs, and a query of type TXT are answered with the SOA response.
\<close>

theorem hosts_style_blocking_response_witness:
  "(\<exists>p. create_blocking_response sample_externals (sample_query 0x1234 example_com LDNS_RR_TYPE_A)
          sample_settings sample_ip_rules = Some p
       \<and> ldns_pkt_get_rcode p = LDNS_RCODE_NOERROR
       \<and> answer_addresses p
           = [RDF_DATA LDNS_RDF_TYPE_A [CHR 0x0A, CHR 0x00, CHR 0x00, CHR 0x01],
              RDF_DATA LDNS_RDF_TYPE_A [CHR 0x0A, CHR 0x00, CHR 0x00, CHR 0x02]]
       \<and> list_all (\<lambda>rr. ldns_rr_get_type rr = LDNS_RR_TYPE_A \<and> ldns_rr_ttl rr = 3600)
            (ldns_pkt_answer p))
   \<and> (\<exists>p. create_blocking_response sample_externals
          (sample_query 0x1234 example_com LDNS_RR_TYPE_AAAA) sample_settings sample_ip_rules
        = Some p \<and> noerror_soa_response p 900)
   \<and> (\<exists>p. create_blocking_response sample_externals
          (sample_query 0x1234 example_com LDNS_RR_TYPE_TXT) sample_settings sample_ip_rules
        = Some p \<and> noerror_soa_response p 900)"
proof (intro conjI)
  have t: "ldns_rr_get_type (hd (ldns_pkt_question (sample_query i n t))) = t" for i n t
    by (simp add: sample_query_def question_rr_def)
  have ttl: "blocked_response_ttl_secs sample_settings = 3600"
    and mode: "blocking_mode sample_settings = DEFAULT"
    by (simp_all add: sample_settings_def)
  have other: "LDNS_RR_TYPE_TXT \<noteq> LDNS_RR_TYPE_A" "LDNS_RR_TYPE_TXT \<noteq> LDNS_RR_TYPE_AAAA"
    by (simp_all add: rr_type_defs)
  note c4 = hosts_style_blocking_response [OF sample_ip_rules_real, of _ sample_externals
      sample_settings]
  show "\<exists>p. create_blocking_response sample_externals
          (sample_query 0x1234 example_com LDNS_RR_TYPE_A) sample_settings sample_ip_rules = Some p
       \<and> ldns_pkt_get_rcode p = LDNS_RCODE_NOERROR
       \<and> answer_addresses p
           = [RDF_DATA LDNS_RDF_TYPE_A [CHR 0x0A, CHR 0x00, CHR 0x00, CHR 0x01],
              RDF_DATA LDNS_RDF_TYPE_A [CHR 0x0A, CHR 0x00, CHR 0x00, CHR 0x02]]
       \<and> list_all (\<lambda>rr. ldns_rr_get_type rr = LDNS_RR_TYPE_A \<and> ldns_rr_ttl rr = 3600)
            (ldns_pkt_answer p)"
    using c4 [of "sample_query 0x1234 example_com LDNS_RR_TYPE_A"]
    by (simp add: Let_def t sample_family_ips sample_address_rdf ttl)
  show "\<exists>p. create_blocking_response sample_externals
          (sample_query 0x1234 example_com LDNS_RR_TYPE_AAAA) sample_settings sample_ip_rules
        = Some p \<and> noerror_soa_response p 900"
    using c4 [of "sample_query 0x1234 example_com LDNS_RR_TYPE_AAAA"]
    by (simp add: Let_def t sample_family_ips sample_mbox_parses)
  show "\<exists>p. create_blocking_response sample_externals
          (sample_query 0x1234 example_com LDNS_RR_TYPE_TXT) sample_settings sample_ip_rules
        = Some p \<and> noerror_soa_response p 900"
    using c4 [of "sample_query 0x1234 example_com LDNS_RR_TYPE_TXT"]
    by (simp add: Let_def t other mode sample_mbox_parses)
qed

text \<open>
  C4 as stated fails: in the blocking mode REFUSED a TXT query that matches the two
  rules is answered with rcode REFUSED and an empty authority section, not with the
  NOERROR SOA response.
\<close>

theorem hosts_style_blocking_response_counterexample:
  "map_option (\<lambda>p. (ldns_pkt_get_rcode p, ldns_pkt_authority p))
     (create_blocking_response sample_externals (sample_query 0x1234 example_com LDNS_RR_TYPE_TXT)
        (sample_settings\<lparr>blocking_mode := REFUSED\<rparr>) sample_ip_rules)
     = Some (LDNS_RCODE_REFUSED, [])"
  by (simp add: create_blocking_response_def Let_def sample_query_def question_rr_def
        sample_settings_def create_refused_response_fields rr_type_defs)

section \<open>Defects of the synthesized responses\<close>

text \<open>
  Three inputs on which the code does not do what its authors meant; the amended C4 and
  C5 say nothing about them.

  The A query of the third scenario is answered with one answer record that holds both
  addresses as data fields, where an A record has one address: \<open>create_arecord_response\<close>
  pushes every address onto the same record.
\<close>

lemma two_rule_ips_one_answer_record:
  "map_option (\<lambda>p. map ldns_rr_rdfs (ldns_pkt_answer p))
     (create_blocking_response sample_externals (sample_query 0x1234 example_com LDNS_RR_TYPE_A)
        sample_settings sample_ip_rules)
   = Some [[RDF_DATA LDNS_RDF_TYPE_A [CHR 0x0A, CHR 0x00, CHR 0x00, CHR 0x01],
            RDF_DATA LDNS_RDF_TYPE_A [CHR 0x0A, CHR 0x00, CHR 0x00, CHR 0x02]]]"
proof -
  have a: "ldns_rr_get_type (hd (ldns_pkt_question (sample_query 0x1234 example_com LDNS_RR_TYPE_A)))
      = LDNS_RR_TYPE_A"
    by (simp add: sample_query_def question_rr_def)
  have "create_blocking_response sample_externals (sample_query 0x1234 example_com LDNS_RR_TYPE_A)
          sample_settings sample_ip_rules
      = create_arecord_response sample_externals (sample_query 0x1234 example_com LDNS_RR_TYPE_A)
          sample_settings sample_ip_rules"
    using sample_ip_rules_real(3)
    by (simp add: create_blocking_response_def Let_def a
          create_response_with_ips_A [OF a sample_ip_rules_real(2)] sample_family_ips)
       (simp add: sample_ip_rules_def sample_externals_def)
  then show ?thesis
    by (simp add: create_arecord_response_eq push_answer_def create_response_by_request_fields
          ldns_rr_new_def)
       (simp add: sample_ip_rules_def sample_address_rdf)
qed

text \<open>
  A rule whose IP is written \<open>[::2]\<close> counts as a rule of the IPv6 family, because it is
  no IPv4 address, but ldns does not parse it: the assertion in
  \<open>create_aaaarecord_response\<close> fails and no response is made.
\<close>

lemma unparsed_rule_ip_no_response:
  "create_blocking_response sample_externals (sample_query 0x1234 example_com LDNS_RR_TYPE_AAAA)
     sample_settings
     [\<lparr>rule_text = ''[::2] cdn.example'', filter_id = 1, ip = Some ''[::2]'', props = []\<rparr>]
   = None"
  by (simp add: create_blocking_response_def create_response_with_ips_def Let_def
        sample_query_def question_rr_def rules_contain_blocking_ip_def BLOCKING_IPS_def
        create_aaaarecord_response_eq sample_address_rdf)
     (simp add: sample_externals_def)

text \<open>
  For a queried name of 245 octets the mailbox name \<open>hostmaster.\<close> before it has 256
  octets, ldns returns a null pointer for it, and \<open>create_soa\<close> pushes that pointer: no
  SOA response is made for such a name.
\<close>

lemma long_name_no_soa_response:
  "length long_name = 245"
  "create_soa_response x (sample_query 0x1234 long_name LDNS_RR_TYPE_AAAA) settings retry = None"
proof -
  show "length long_name = 245"
    by (simp add: long_name_def length_concat sum_list_replicate)
  have l: "dname_labels long_name = replicate 4 (replicate 60 (CHR ''a''))"
    by (simp add: long_name_def numeral_eq_Suc)
  have m: "get_mbox (sample_query 0x1234 long_name LDNS_RR_TYPE_AAAA)
      = ''hostmaster.'' @ concat (replicate 4 (replicate 60 (CHR ''a'') @ ''.''))"
    by (simp add: get_mbox_def sample_query_def question_rr_def ldns_rdf2str_def l Let_def)
       (simp add: numeral_eq_Suc)
  have "ldns_str2rdf_dname (''hostmaster.'' @ concat (replicate 4 (replicate 60 (CHR ''a'') @ ''.'')))
      = None"
    by (simp add: ldns_str2rdf_dname_def ldns_dname_str_absolute_def LDNS_MAX_LABELLEN_def
          LDNS_MAX_DOMAINLEN_def Let_def numeral_eq_Suc)
  then have "\<not> mbox_parses (sample_query 0x1234 long_name LDNS_RR_TYPE_AAAA)"
    by (simp add: mbox_parses_def m ldns_dname_new_frm_str_def)
  then show "create_soa_response x (sample_query 0x1234 long_name LDNS_RR_TYPE_AAAA) settings retry
      = None"
    by (rule create_soa_response_None)
qed

section \<open>The claims about upstream dispatch\<close>

lemma sample_sorted:
  "sorted_upstreams (upstreams sample_forwarder) =
     [(1, \<lparr>address = ''1.1.1.1'', id_opt = 2, rtt = 10\<rparr>),
      (0, \<lparr>address = ''8.8.8.8'', id_opt = 1, rtt = 30\<rparr>)]"
  "sorted_upstreams (fallbacks sample_forwarder) =
     [(0, \<lparr>address = ''9.9.9.9'', id_opt = 3, rtt = 20\<rparr>)]"
  by (simp_all add: sorted_upstreams_def sample_forwarder_def)

lemma sample_dispatch_log:
  "exchange_log (snd (do_upstream_exchange sample_externals sample_forwarder
      (sample_query 0x1234 example_com LDNS_RR_TYPE_A))) =
   sample_calls (sample_query 0x1234 example_com LDNS_RR_TYPE_A)"
  by (simp add: dispatch_eval sample_sorted sorted_upstreams_def sample_externals_def
        sample_forwarder_def sample_calls_def)

text \<open>
  C7. The exchanges of one \<open>do_upstream_exchange\<close> are calls of primaries followed by calls
  of fallbacks. Each call is on an upstream of its group, and the round-trip time logged
  with it is the one that upstream had when the call began, which is when the primaries
  were sorted and, for a fallback, also when the fallbacks were sorted (no fallback is
  touched before). Within each group the calls are in non-decreasing order of these
  round-trip times. If any fallback was called, then every primary was called and every
  call of a primary failed.
\<close>

theorem primaries_before_fallbacks_in_rtt_order:
  "\<exists>ps fs. new_calls self (snd (do_upstream_exchange x self request)) = ps @ fs
     \<and> (\<forall>c \<in> set ps. call_group c = Primary \<and> call_index c < length (upstreams self)
            \<and> call_rtt c = rtt (upstreams self ! call_index c))
     \<and> (\<forall>c \<in> set fs. call_group c = Fallback \<and> call_index c < length (fallbacks self)
            \<and> call_rtt c = rtt (fallbacks self ! call_index c))
     \<and> sorted (map call_rtt ps) \<and> sorted (map call_rtt fs)
     \<and> (fs \<noteq> [] \<longrightarrow> (\<forall>c \<in> set ps. call_failed c)
            \<and> (\<forall>i < length (upstreams self). \<exists>c \<in> set ps. call_index c = i))"
proof -
  obtain res1 self1 err1 cur1 where
    l1: "upstreams_loop x Primary (sorted_upstreams (upstreams self)) request self [] None
          = (res1, self1, err1, cur1)"
    by (metis prod_cases4)
  from upstreams_loop_log [OF l1] obtain ps where
    ps: "exchange_log self1 = exchange_log self @ ps"
      "loop_calls_ok Primary (sorted_upstreams (upstreams self)) (res1 = None) ps"
    by blast
  note p = loop_calls_ok_sorted_upstreams [OF ps(2)]
  show ?thesis
  proof (cases res1)
    case (Some r)
    then have "snd (do_upstream_exchange x self request) = self1"
      using l1 by (simp add: do_upstream_exchange_def group_vector_def)
    then have "new_calls self (snd (do_upstream_exchange x self request)) = ps @ []"
      using ps(1) by (simp add: new_calls_def)
    then show ?thesis
      using p(1,2) by (intro exI [of _ ps] exI [of _ "[]"]) simp
  next
    case None
    obtain res2 self2 err2 cur2 where
      l2: "upstreams_loop x Fallback (sorted_upstreams (fallbacks self1)) request self1 err1 cur1
            = (res2, self2, err2, cur2)"
      by (metis prod_cases4)
    from upstreams_loop_log [OF l2] obtain fs where
      fs: "exchange_log self2 = exchange_log self1 @ fs"
        "loop_calls_ok Fallback (sorted_upstreams (fallbacks self1)) (res2 = None) fs"
      by blast
    have same: "fallbacks self1 = fallbacks self"
      using l1 by (rule upstreams_loop_Primary_fallbacks)
    note f = loop_calls_ok_sorted_upstreams [OF fs(2), unfolded same]
    have "snd (do_upstream_exchange x self request) = self2"
      using l1 l2 None
      by (cases res2) (simp_all add: do_upstream_exchange_def group_vector_def)
    then have "new_calls self (snd (do_upstream_exchange x self request)) = ps @ fs"
      using ps(1) fs(1) by (simp add: new_calls_def)
    then show ?thesis
      using p(1,2) p(3) [OF None] f(1,2)
      by (intro exI [of _ ps] exI [of _ fs]) simp
  qed
qed


text \<open>
  With the sample upstreams (primaries 8.8.8.8 with RTT 30 and 1.1.1.1 with RTT 10,
  fallback 9.9.9.9): 1.1.1.1 is tried first and times out, 8.8.8.8 is tried twice and
  fails, then the fallback answers.
\<close>

theorem primaries_before_fallbacks_in_rtt_order_witness:
  "\<exists>ps fs. sample_calls (sample_query 0x1234 example_com LDNS_RR_TYPE_A) = ps @ fs
      \<and> map (\<lambda>c. (call_group c, call_index c, call_rtt c, call_failed c)) ps
          = [(Primary, 1, 10, True), (Primary, 0, 30, True), (Primary, 0, 30, True)]
      \<and> map (\<lambda>c. (call_group c, call_index c, call_rtt c, call_failed c)) fs
          = [(Fallback, 0, 20, False)]
      \<and> sorted (map call_rtt ps) \<and> sorted (map call_rtt fs)"
proof -
  let ?q = "sample_query 0x1234 example_com LDNS_RR_TYPE_A"
  have n: "new_calls sample_forwarder (snd (do_upstream_exchange sample_externals sample_forwarder
          ?q)) = sample_calls ?q"
    by (simp add: new_calls_def sample_dispatch_log) (simp add: sample_forwarder_def)
  from primaries_before_fallbacks_in_rtt_order [of sample_forwarder sample_externals ?q]
  obtain ps fs where
    pf: "sample_calls ?q = ps @ fs"
      "\<forall>c \<in> set ps. call_group c = Primary" "\<forall>c \<in> set fs. call_group c = Fallback"
      "sorted (map call_rtt ps)" "sorted (map call_rtt fs)"
    unfolding n by auto
  have g: "map call_group (sample_calls ?q) = [Primary, Primary, Primary, Fallback]"
    by (simp add: sample_calls_def)
  have "map call_group ps @ map call_group fs = [Primary, Primary, Primary] @ [Fallback]"
    using g by (simp add: pf(1))
  moreover have "map call_group ps = replicate (length ps) Primary"
    using pf(2) by (intro replicate_eqI) auto
  moreover have "map call_group fs = replicate (length fs) Fallback"
    using pf(3) by (intro replicate_eqI) auto
  ultimately have "length ps = 3"
    by (cases ps; cases "tl ps"; cases "tl (tl ps)"; cases "tl (tl (tl ps))"; cases fs)
       (auto split: if_splits)
  then have "ps = take 3 (sample_calls ?q)" "fs = drop 3 (sample_calls ?q)"
    by (simp_all add: pf(1))
  then have
    "map (\<lambda>c. (call_group c, call_index c, call_rtt c, call_failed c)) ps
          = [(Primary, 1, 10, True), (Primary, 0, 30, True), (Primary, 0, 30, True)]"
    "map (\<lambda>c. (call_group c, call_index c, call_rtt c, call_failed c)) fs
          = [(Fallback, 0, 20, False)]"
    by (simp_all add: sample_calls_def)
  then show ?thesis
    using pf(1,4,5) by (intro exI [of _ ps] exI [of _ fs]) simp
qed

text \<open>
  C8. The calls of one \<open>do_upstream_exchange\<close> follow the retry policy along the order of
  dispatch: the upstreams are called in that order; an upstream whose call succeeds is
  the last one called; an upstream whose call fails with the timeout error is not called
  again, and the next upstream is called; an upstream whose call fails with another error
  is called a second time and no more, and the next upstream is called only if that second
  call fails too. Each logged call holds what \<open>exchange\<close> returned for it. If the last call
  succeeded (a first call or a retry), its packet is returned, without an error, with the
  upstream called. Otherwise no packet is returned, and the error returned is the message
  of the last upstream that failed twice, which names it and both reasons (the empty
  message if no upstream was called twice).
\<close>

theorem upstream_retry_policy:
  "let r = fst (do_upstream_exchange x self request);
       calls = new_calls self (snd (do_upstream_exchange x self request))
   in retry_policy x request (length (exchange_log self)) (dispatch_order self) calls
      \<and> (if calls \<noteq> [] \<and> error (call_result (last calls)) = None
         then r = \<lparr>ue_response = packet (call_result (last calls)), ue_error = None,
                    ue_upstream = Some (call_target (last calls))\<rparr>
         else r = \<lparr>ue_response = None, ue_error = Some (kept_error [] calls),
                    ue_upstream = (if calls = [] then None
                                   else Some (call_target (last calls)))\<rparr>)"
proof -
  define r where "r = fst (do_upstream_exchange x self request)"
  define calls where "calls = new_calls self (snd (do_upstream_exchange x self request))"
  let ?n = "length (exchange_log self)"
  let ?l1 = "sorted_upstreams (upstreams self)"
  let ?l2 = "sorted_upstreams (fallbacks self)"
  obtain res1 self1 err1 cur1 where
    l1: "upstreams_loop x Primary ?l1 request self [] None = (res1, self1, err1, cur1)"
    by (metis prod_cases4)
  from upstreams_loop_policy [OF l1 distinct_sorted_upstreams] obtain ns1 where
    log1: "exchange_log self1 = exchange_log self @ ns1"
    and t1: "\<forall>c \<in> set ns1. call_target c \<in> (\<lambda>iu. (Primary, fst iu)) ` set ?l1"
    and rest1: "case res1 of
          Some r \<Rightarrow>
            ns1 \<noteq> [] \<and> error (call_result (last ns1)) = None
            \<and> r = \<lparr>ue_response = packet (call_result (last ns1)), ue_error = None,
                   ue_upstream = Some (call_target (last ns1))\<rparr>
            \<and> (\<forall>order. retry_policy x request ?n (tagged Primary ?l1 @ order) ns1)
        | None \<Rightarrow>
            (\<forall>c \<in> set ns1. error (call_result c) \<noteq> None)
            \<and> cur1 = (if ns1 = [] then None else Some (call_target (last ns1)))
            \<and> (\<forall>order more.
                  retry_policy x request ?n (tagged Primary ?l1 @ order) (ns1 @ more)
                  = retry_policy x request (length (exchange_log self1)) order more)
            \<and> (\<forall>more. (\<forall>c \<in> set (take 1 more).
                          call_target c \<notin> (\<lambda>iu. (Primary, fst iu)) ` set ?l1)
                  \<longrightarrow> kept_error [] (ns1 @ more) = kept_error err1 more)"
    by blast
  have "retry_policy x request ?n (dispatch_order self) calls
      \<and> (if calls \<noteq> [] \<and> error (call_result (last calls)) = None
         then r = \<lparr>ue_response = packet (call_result (last calls)), ue_error = None,
                    ue_upstream = Some (call_target (last calls))\<rparr>
         else r = \<lparr>ue_response = None, ue_error = Some (kept_error [] calls),
                    ue_upstream = (if calls = [] then None
                                   else Some (call_target (last calls)))\<rparr>)"
  proof (cases res1)
    case (Some r1)
    then have d: "do_upstream_exchange x self request = (r1, self1)"
      using l1 by (simp add: do_upstream_exchange_def group_vector_def)
    have c: "calls = ns1"
      by (simp add: calls_def d new_calls_def log1)
    show ?thesis
      using rest1 unfolding Some c r_def d dispatch_order_def by simp
  next
    case None
    have same: "fallbacks self1 = fallbacks self"
      using l1 by (rule upstreams_loop_Primary_fallbacks)
    obtain res2 self2 err2 cur2 where
      l2: "upstreams_loop x Fallback ?l2 request self1 err1 cur1 = (res2, self2, err2, cur2)"
      by (metis prod_cases4)
    from upstreams_loop_policy [OF l2 distinct_sorted_upstreams] obtain ns2 where
      log2: "exchange_log self2 = exchange_log self1 @ ns2"
      and t2: "\<forall>c \<in> set ns2. call_target c \<in> (\<lambda>iu. (Fallback, fst iu)) ` set ?l2"
      and rest2: "case res2 of
          Some r \<Rightarrow>
            ns2 \<noteq> [] \<and> error (call_result (last ns2)) = None
            \<and> r = \<lparr>ue_response = packet (call_result (last ns2)), ue_error = None,
                   ue_upstream = Some (call_target (last ns2))\<rparr>
            \<and> (\<forall>order. retry_policy x request (length (exchange_log self1))
                          (tagged Fallback ?l2 @ order) ns2)
        | None \<Rightarrow>
            (\<forall>c \<in> set ns2. error (call_result c) \<noteq> None)
            \<and> cur2 = (if ns2 = [] then cur1 else Some (call_target (last ns2)))
            \<and> (\<forall>order more.
                  retry_policy x request (length (exchange_log self1))
                    (tagged Fallback ?l2 @ order) (ns2 @ more)
                  = retry_policy x request (length (exchange_log self2)) order more)
            \<and> (\<forall>more. (\<forall>c \<in> set (take 1 more).
                          call_target c \<notin> (\<lambda>iu. (Fallback, fst iu)) ` set ?l2)
                  \<longrightarrow> kept_error err1 (ns2 @ more) = kept_error err2 more)"
      by blast
    from rest1 None have
      f1: "\<forall>c \<in> set ns1. error (call_result c) \<noteq> None"
      and c1: "cur1 = (if ns1 = [] then None else Some (call_target (last ns1)))"
      and p1: "\<And>order more.
                  retry_policy x request ?n (tagged Primary ?l1 @ order) (ns1 @ more)
                  = retry_policy x request (length (exchange_log self1)) order more"
      and k1: "\<And>more. (\<forall>c \<in> set (take 1 more).
                          call_target c \<notin> (\<lambda>iu. (Primary, fst iu)) ` set ?l1)
                  \<Longrightarrow> kept_error [] (ns1 @ more) = kept_error err1 more"
      by simp_all
    have c: "calls = ns1 @ ns2"
      if "snd (do_upstream_exchange x self request) = self2"
      using that by (simp add: calls_def new_calls_def log1 log2)
    show ?thesis
    proof (cases res2)
      case (Some r2)
      then have d: "do_upstream_exchange x self request = (r2, self2)"
        using l1 l2 None by (simp add: do_upstream_exchange_def group_vector_def same)
      from rest2 Some have
        s2: "ns2 \<noteq> []" "error (call_result (last ns2)) = None"
          "r2 = \<lparr>ue_response = packet (call_result (last ns2)), ue_error = None,
                   ue_upstream = Some (call_target (last ns2))\<rparr>"
        and a2: "\<forall>order. retry_policy x request (length (exchange_log self1))
                          (tagged Fallback ?l2 @ order) ns2"
        by simp_all
      from a2 have p2: "retry_policy x request (length (exchange_log self1))
          (tagged Fallback ?l2 @ []) ns2"
        by (rule spec)
      have "retry_policy x request ?n (dispatch_order self) (ns1 @ ns2)"
        unfolding dispatch_order_def p1 using p2 by simp
      then show ?thesis
        unfolding c [OF d [THEN arg_cong [of _ _ snd], simplified]] r_def d
        using s2 by simp
    next
      case None2: None
      then have d: "do_upstream_exchange x self request
          = (\<lparr>ue_response = None, ue_error = Some err2, ue_upstream = cur2\<rparr>, self2)"
        using l1 l2 None by (simp add: do_upstream_exchange_def group_vector_def same)
      from rest2 None2 have
        f2: "\<forall>c \<in> set ns2. error (call_result c) \<noteq> None"
        and c2: "cur2 = (if ns2 = [] then cur1 else Some (call_target (last ns2)))"
        and p2: "\<And>order more.
                  retry_policy x request (length (exchange_log self1))
                    (tagged Fallback ?l2 @ order) (ns2 @ more)
                  = retry_policy x request (length (exchange_log self2)) order more"
        and k2: "\<And>more. (\<forall>c \<in> set (take 1 more).
                          call_target c \<notin> (\<lambda>iu. (Fallback, fst iu)) ` set ?l2)
                  \<Longrightarrow> kept_error err1 (ns2 @ more) = kept_error err2 more"
        by simp_all
      have "retry_policy x request (length (exchange_log self1)) (tagged Fallback ?l2 @ [])
          (ns2 @ []) = retry_policy x request (length (exchange_log self2)) [] []"
        by (rule p2)
      then have "retry_policy x request ?n (dispatch_order self) (ns1 @ ns2)"
        unfolding dispatch_order_def p1 by simp
      moreover have "kept_error [] (ns1 @ ns2) = err2"
      proof -
        have "\<forall>c \<in> set (take 1 ns2). call_target c \<notin> (\<lambda>iu. (Primary, fst iu)) ` set ?l1"
          using t2 by (cases ns2) auto
        then have "kept_error [] (ns1 @ ns2) = kept_error err1 ns2"
          by (rule k1)
        also have "\<dots> = kept_error err1 (ns2 @ [])" by simp
        also have "\<dots> = kept_error err2 []" by (rule k2) simp
        finally show ?thesis by simp
      qed
      moreover have "\<not> (ns1 @ ns2 \<noteq> [] \<and> error (call_result (last (ns1 @ ns2))) = None)"
        using f1 f2 by (metis Un_iff last_in_set set_append)
      moreover have "cur2 = (if ns1 @ ns2 = [] then None else Some (call_target (last (ns1 @ ns2))))"
        using c1 c2 by simp
      ultimately show ?thesis
        unfolding c [OF d [THEN arg_cong [of _ _ snd], simplified]] r_def d
        by simp
    qed
  qed
  then show ?thesis
    unfolding r_def calls_def Let_def .
qed

lemma flaky_dispatch_log:
  "new_calls sample_forwarder (snd (do_upstream_exchange flaky_externals sample_forwarder request))
   = [\<lparr>call_group = Primary, call_index = 1, call_rtt = 10, call_failed = True,
       call_upstream = \<lparr>address = ''1.1.1.1'', id_opt = 2, rtt = 10\<rparr>,
       call_result = \<lparr>packet = None, error = Some ''Connection reset''\<rparr>\<rparr>,
      \<lparr>call_group = Primary, call_index = 1, call_rtt = 10, call_failed = False,
       call_upstream = \<lparr>address = ''1.1.1.1'', id_opt = 2, rtt = 30\<rparr>,
       call_result = \<lparr>packet = Some (upstream_answer request), error = None\<rparr>\<rparr>]"
  by (simp add: new_calls_def dispatch_eval sample_sorted flaky_externals_def
        sample_externals_def)
     (simp add: sample_forwarder_def)

lemma refusing_dispatch_log:
  "new_calls sample_forwarder
     (snd (do_upstream_exchange refusing_externals sample_forwarder request))
   = [\<lparr>call_group = Primary, call_index = 1, call_rtt = 10, call_failed = True,
       call_upstream = \<lparr>address = ''1.1.1.1'', id_opt = 2, rtt = 10\<rparr>,
       call_result = \<lparr>packet = None, error = Some ''Connection refused''\<rparr>\<rparr>,
      \<lparr>call_group = Primary, call_index = 1, call_rtt = 10, call_failed = True,
       call_upstream = \<lparr>address = ''1.1.1.1'', id_opt = 2, rtt = 30\<rparr>,
       call_result = \<lparr>packet = None, error = Some ''Connection refused''\<rparr>\<rparr>,
      \<lparr>call_group = Primary, call_index = 0, call_rtt = 30, call_failed = True,
       call_upstream = \<lparr>address = ''8.8.8.8'', id_opt = 1, rtt = 30\<rparr>,
       call_result = \<lparr>packet = None, error = Some ''Connection refused''\<rparr>\<rparr>,
      \<lparr>call_group = Primary, call_index = 0, call_rtt = 30, call_failed = True,
       call_upstream = \<lparr>address = ''8.8.8.8'', id_opt = 1, rtt = 40\<rparr>,
       call_result = \<lparr>packet = None, error = Some ''Connection refused''\<rparr>\<rparr>,
      \<lparr>call_group = Fallback, call_index = 0, call_rtt = 20, call_failed = True,
       call_upstream = \<lparr>address = ''9.9.9.9'', id_opt = 3, rtt = 20\<rparr>,
       call_result = \<lparr>packet = None, error = Some ''Connection refused''\<rparr>\<rparr>,
      \<lparr>call_group = Fallback, call_index = 0, call_rtt = 20, call_failed = True,
       call_upstream = \<lparr>address = ''9.9.9.9'', id_opt = 3, rtt = 35\<rparr>,
       call_result = \<lparr>packet = None, error = Some ''Connection refused''\<rparr>\<rparr>]"
  by (simp add: new_calls_def dispatch_eval sample_sorted refusing_externals_def
        sample_externals_def)

text \<open>
  Three dispatches of the sample forwarder. With the sample upstreams 1.1.1.1 times out
  and is called once, 8.8.8.8 refuses twice, and the fallback's answer is returned. With
  upstreams that reset every first connection, 1.1.1.1 is called twice and its second
  answer is returned. With upstreams that refuse every connection each upstream is called
  twice and the message returned names the last one.
\<close>

theorem upstream_retry_policy_witness:
  "retry_policy sample_externals (sample_query 0x1234 example_com LDNS_RR_TYPE_A) 0
     (dispatch_order sample_forwarder)
     (sample_calls (sample_query 0x1234 example_com LDNS_RR_TYPE_A))
   \<and> fst (do_upstream_exchange sample_externals sample_forwarder
            (sample_query 0x1234 example_com LDNS_RR_TYPE_A))
       = \<lparr>ue_response = Some (upstream_answer (sample_query 0x1234 example_com LDNS_RR_TYPE_A)),
          ue_error = None, ue_upstream = Some (Fallback, 0)\<rparr>
   \<and> fst (do_upstream_exchange flaky_externals sample_forwarder
            (sample_query 0x1234 example_com LDNS_RR_TYPE_A))
       = \<lparr>ue_response = Some (upstream_answer (sample_query 0x1234 example_com LDNS_RR_TYPE_A)),
          ue_error = None, ue_upstream = Some (Primary, 1)\<rparr>
   \<and> fst (do_upstream_exchange refusing_externals sample_forwarder
            (sample_query 0x1234 example_com LDNS_RR_TYPE_A))
       = \<lparr>ue_response = None,
          ue_error = Some ''Upstream (9.9.9.9) exchange failed: first reason is Connection refused, second is: Connection refused'',
          ue_upstream = Some (Fallback, 0)\<rparr>"
proof -
  let ?q = "sample_query 0x1234 example_com LDNS_RR_TYPE_A"
  have n: "length (exchange_log sample_forwarder) = 0"
    by (simp add: sample_forwarder_def)
  have a: "new_calls sample_forwarder (snd (do_upstream_exchange sample_externals sample_forwarder
          ?q)) = sample_calls ?q"
    by (simp add: new_calls_def sample_dispatch_log n)
  have la: "last (sample_calls ?q) =
      \<lparr>call_group = Fallback, call_index = 0, call_rtt = 20, call_failed = False,
       call_upstream = \<lparr>address = ''9.9.9.9'', id_opt = 3, rtt = 20\<rparr>,
       call_result = \<lparr>packet = Some (upstream_answer ?q), error = None\<rparr>\<rparr>"
    "sample_calls ?q \<noteq> []"
    by (simp_all add: sample_calls_def)
  from upstream_retry_policy [of sample_externals sample_forwarder ?q]
  have 1: "retry_policy sample_externals ?q 0 (dispatch_order sample_forwarder) (sample_calls ?q)"
    and 2: "fst (do_upstream_exchange sample_externals sample_forwarder ?q)
       = \<lparr>ue_response = Some (upstream_answer ?q), ue_error = None,
          ue_upstream = Some (Fallback, 0)\<rparr>"
    unfolding Let_def a n by (simp_all add: la call_target_def)
  from upstream_retry_policy [of flaky_externals sample_forwarder ?q]
  have 3: "fst (do_upstream_exchange flaky_externals sample_forwarder ?q)
       = \<lparr>ue_response = Some (upstream_answer ?q), ue_error = None,
          ue_upstream = Some (Primary, 1)\<rparr>"
    unfolding Let_def flaky_dispatch_log by (simp add: call_target_def)
  from upstream_retry_policy [of refusing_externals sample_forwarder ?q]
  have 4: "fst (do_upstream_exchange refusing_externals sample_forwarder ?q)
       = \<lparr>ue_response = None,
          ue_error = Some ''Upstream (9.9.9.9) exchange failed: first reason is Connection refused, second is: Connection refused'',
          ue_upstream = Some (Fallback, 0)\<rparr>"
    unfolding Let_def refusing_dispatch_log by (simp add: call_target_def)
  show ?thesis
    using 1 2 3 4 by (intro conjI)
qed

section \<open>The claim about DNS64 synthesis\<close>

text \<open>
  C9. Let prefixes be known and the request have a question. If the auxiliary A exchange
  reports an error, nothing is returned. If it hands over a response, then: when no AAAA
  record was synthesized from its answer, nothing is returned; otherwise the returned
  response has the id and RD of the request, RA and CD of the A response, QR set, the
  question section of the request, and as answer the synthesized record list.
\<close>

theorem dns64_synthesis_result:
  assumes "dns64_prefixes self \<noteq> []" and "ldns_pkt_question request = question # qs"
  shows
    "let result = exchange x (length (exchange_log self)) (upstream_at self up)
                    (dns64_request_a x (length (exchange_log self)) request question)
     in (error result \<noteq> None \<longrightarrow> fst (try_dns64_aaaa_synthesis x self up request) = None)
      \<and> (\<forall>response_a. error result = None \<and> packet result = Some response_a \<longrightarrow>
           (if dns64_synthesized x (dns64_prefixes self) (ldns_pkt_answer response_a) = []
            then fst (try_dns64_aaaa_synthesis x self up request) = None
            else \<exists>p. fst (try_dns64_aaaa_synthesis x self up request) = Some p
                   \<and> ldns_pkt_id p = ldns_pkt_id request
                   \<and> ldns_pkt_rd p = ldns_pkt_rd request
                   \<and> ldns_pkt_ra p = ldns_pkt_ra response_a
                   \<and> ldns_pkt_cd p = ldns_pkt_cd response_a
                   \<and> ldns_pkt_qr p
                   \<and> ldns_pkt_question p = ldns_pkt_question request
                   \<and> ldns_pkt_answer p
                       = dns64_record_list x (dns64_prefixes self) (ldns_pkt_answer response_a)))"
proof -
  have empty: "dns64_synthesized x ps [] = []" for ps
    by (simp add: dns64_synthesized_def)
  show ?thesis
    using assms
    by (auto simp: try_dns64_aaaa_synthesis_def Let_def dns64_rr_loop_eq ldns_pkt_ancount_def
          empty)
qed


text \<open>
  The specification's fifth scenario with one address: the prefix 64:ff9b::/96 is known,
  the upstream answers the A query with 192.0.0.170, and the AAAA record carries
  64:ff9b::c000:aa.
\<close>

theorem dns64_synthesis_result_witness:
  "\<exists>p. fst (try_dns64_aaaa_synthesis sample_externals dns64_forwarder (Fallback, 0)
              (sample_query 0x1234 example_com LDNS_RR_TYPE_AAAA)) = Some p
       \<and> ldns_pkt_id p = 0x1234 \<and> ldns_pkt_rd p \<and> ldns_pkt_ra p \<and> \<not> ldns_pkt_cd p \<and> ldns_pkt_qr p
       \<and> ldns_pkt_question p = [question_rr example_com LDNS_RR_TYPE_AAAA]
       \<and> map (\<lambda>rr. (ldns_rr_get_type rr, ldns_rr_rdfs rr)) (ldns_pkt_answer p)
           = [(LDNS_RR_TYPE_AAAA,
               [RDF_DATA LDNS_RDF_TYPE_AAAA
                  (well_known_prefix @ [CHR 0xC0, CHR 0x00, CHR 0x00, CHR 0xAA])])]"
proof -
  let ?request = "sample_query 0x1234 example_com LDNS_RR_TYPE_AAAA"
  let ?request_a = "dns64_request_a sample_externals (length (exchange_log dns64_forwarder))
                      ?request (question_rr example_com LDNS_RR_TYPE_AAAA)"
  have a: "dns64_prefixes dns64_forwarder \<noteq> []"
    by (simp add: dns64_forwarder_def)
  have b: "ldns_pkt_question ?request = question_rr example_com LDNS_RR_TYPE_AAAA # []"
    by (simp add: sample_query_def)
  have r: "exchange sample_externals (length (exchange_log dns64_forwarder))
             (upstream_at dns64_forwarder (Fallback, 0)) ?request_a
           = \<lparr>packet = Some (upstream_answer ?request_a), error = None\<rparr>"
    by (simp add: sample_externals_def upstream_at_def group_vector_def dns64_forwarder_def
          sample_forwarder_def)
  have l: "dns64_record_list sample_externals (dns64_prefixes dns64_forwarder)
             (ldns_pkt_answer (upstream_answer ?request_a))
           = [(address_rr example_com LDNS_RR_TYPE_A 300 [CHR 0xC0, CHR 0x00, CHR 0x00, CHR 0xAA])
                \<lparr>ldns_rr_get_type := LDNS_RR_TYPE_AAAA,
                 ldns_rr_rdfs := [RDF_DATA LDNS_RDF_TYPE_AAAA
                    (well_known_prefix @ [CHR 0xC0, CHR 0x00, CHR 0x00, CHR 0xAA])]\<rparr>]"
    by (simp add: dns64_record_list_def dns64_synthesize_rr_def upstream_answer_def
          dns64_request_a_def ldns_pkt_query_new_def ldns_pkt_new_def ldns_rr_new_def
          ldns_pkt_set_flags_def address_rr_def question_rr_def dns64_forwarder_def
          sample_externals_def well_known_prefix_def ldns_rdf_new_frm_data_def Let_def)
  have s: "dns64_synthesized sample_externals (dns64_prefixes dns64_forwarder)
             (ldns_pkt_answer (upstream_answer ?request_a)) \<noteq> []"
    by (simp add: dns64_synthesized_def dns64_synthesize_rr_def upstream_answer_def
          dns64_request_a_def ldns_pkt_query_new_def ldns_pkt_new_def ldns_rr_new_def
          ldns_pkt_set_flags_def address_rr_def question_rr_def dns64_forwarder_def
          sample_externals_def well_known_prefix_def ldns_rdf_new_frm_data_def Let_def)
  have f: "ldns_pkt_ra (upstream_answer ?request_a)" "\<not> ldns_pkt_cd (upstream_answer ?request_a)"
    by (simp_all add: upstream_answer_def ldns_pkt_new_def)
  from dns64_synthesis_result [OF a b, of sample_externals "(Fallback, 0)"]
  obtain p where
    "fst (try_dns64_aaaa_synthesis sample_externals dns64_forwarder (Fallback, 0) ?request) = Some p"
    "ldns_pkt_id p = ldns_pkt_id ?request" "ldns_pkt_rd p = ldns_pkt_rd ?request"
    "ldns_pkt_ra p" "\<not> ldns_pkt_cd p" "ldns_pkt_qr p"
    "ldns_pkt_question p = ldns_pkt_question ?request"
    "ldns_pkt_answer p = dns64_record_list sample_externals (dns64_prefixes dns64_forwarder)
                           (ldns_pkt_answer (upstream_answer ?request_a))"
    unfolding Let_def r using s f by auto
  then show ?thesis
    unfolding l
    by (intro exI [of _ p]) (simp add: sample_query_def ldns_pkt_new_def address_rr_def)
qed

section \<open>The claims about the pipeline\<close>

text \<open>
  C6, evaluated at the input on which the code fails. The forwarder first handles an A
  query for USE-APPLICATION-DNS.NET., which the case-sensitive comparison does not take
  for the canary; the upstream's answer is cached under the lower-case key. The A query
  for use-application-dns.net. ten seconds later is answered from the cache, with rcode
  NOERROR and the upstream's address. Had the upstreams timed out on the first query,
  the second would have been answered with NXDOMAIN and an SOA: the answer to the canary
  query depends on what the upstreams did.
\<close>

theorem canary_answer_depends_on_upstream:
  "(\<exists>p self'. handle_message sample_externals sample_settings
                 (after_upper_case_canary sample_externals)
                 (Some (sample_query 0x2222 canary_name LDNS_RR_TYPE_A)) (seconds 10) (seconds 10)
               = Some (Some p, self')
        \<and> ldns_pkt_get_rcode p = LDNS_RCODE_NOERROR \<and> ldns_pkt_authority p = []
        \<and> map ldns_rr_rdfs (ldns_pkt_answer p)
            = [[RDF_DATA LDNS_RDF_TYPE_A [CHR 0xC0, CHR 0x00, CHR 0x00, CHR 0xAA]]])
   \<and> (\<exists>p self'. handle_message dead_externals sample_settings
                 (after_upper_case_canary dead_externals)
                 (Some (sample_query 0x2222 canary_name LDNS_RR_TYPE_A)) (seconds 10) (seconds 10)
               = Some (Some p, self')
        \<and> ldns_pkt_get_rcode p = LDNS_RCODE_NXDOMAIN
        \<and> map ldns_rr_get_type (ldns_pkt_authority p) = [LDNS_RR_TYPE_SOA])"
proof (intro conjI)
  let ?q = "sample_query 0x2222 canary_name LDNS_RR_TYPE_A"
  have q: "ldns_pkt_question ?q = question_rr canary_name LDNS_RR_TYPE_A # []"
    by (simp add: sample_query_def)
  have hit: "create_response_from_cache 4096 sample_settings (after_upper_case_canary sample_externals)
        ''1|1|00|use-application-dns.net.'' ?q (seconds 10)
      = (\<lparr>cr_response = Some (patch_cached_response 4096 ?q
             ((upstream_answer (sample_query 0x1111 canary_upper LDNS_RR_TYPE_A))
                \<lparr>ldns_pkt_question := [], ldns_pkt_aa := False\<rparr>) 290),
          cr_upstream_id = Some 3, expired = False\<rparr>,
         after_upper_case_canary sample_externals)"
    unfolding after_upper_case_canary_eq
    by (simp add: lookup_eval sample_query_supported sample_settings_def sample_dispatched_def
          sample_forwarder_def)
  have buf: "UDP_RECV_BUF_SIZE sample_externals = 4096"
    by (simp add: sample_externals_def)
  have "handle_message sample_externals sample_settings (after_upper_case_canary sample_externals)
          (Some ?q) (seconds 10) (seconds 10)
      = Some (Some (patch_cached_response 4096 ?q
             ((upstream_answer (sample_query 0x1111 canary_upper LDNS_RR_TYPE_A))
                \<lparr>ldns_pkt_question := [], ldns_pkt_aa := False\<rparr>) 290),
           after_upper_case_canary sample_externals)"
    by (simp add: handle_message_def q sample_keys buf hit)
  then show "\<exists>p self'. handle_message sample_externals sample_settings
                 (after_upper_case_canary sample_externals) (Some ?q) (seconds 10) (seconds 10)
               = Some (Some p, self')
        \<and> ldns_pkt_get_rcode p = LDNS_RCODE_NOERROR \<and> ldns_pkt_authority p = []
        \<and> map ldns_rr_rdfs (ldns_pkt_answer p)
            = [[RDF_DATA LDNS_RDF_TYPE_A [CHR 0xC0, CHR 0x00, CHR 0x00, CHR 0xAA]]]"
    by (simp add: patch_cached_response_def Let_def upstream_answer_fields set_ttls_def
          address_rr_def)
  have miss: "cache_miss dead_externals sample_settings (after_upper_case_canary dead_externals)
      ?q (seconds 10)"
    by (simp add: cache_miss_def lookup_eval after_upper_case_canary_dead Let_def)
  have t: "ldns_rr_get_type (question_rr canary_name LDNS_RR_TYPE_A) = LDNS_RR_TYPE_A
      \<or> ldns_rr_get_type (question_rr canary_name LDNS_RR_TYPE_A) = LDNS_RR_TYPE_AAAA"
    by (simp add: question_rr_def)
  have n: "ldns_rdf2str (ldns_rr_owner (question_rr canary_name LDNS_RR_TYPE_A)) = MOZILLA_DOH_HOST"
    by (simp add: question_rr_def sample_names MOZILLA_DOH_HOST_def)
  show "\<exists>p self'. handle_message dead_externals sample_settings
                 (after_upper_case_canary dead_externals) (Some ?q) (seconds 10) (seconds 10)
               = Some (Some p, self')
        \<and> ldns_pkt_get_rcode p = LDNS_RCODE_NXDOMAIN
        \<and> map ldns_rr_get_type (ldns_pkt_authority p) = [LDNS_RR_TYPE_SOA]"
  proof -
    from create_nxdomain_response_Some [OF sample_mbox_parses(2)]
    obtain p soa where
      "create_nxdomain_response dead_externals ?q sample_settings = Some p"
      "ldns_pkt_get_rcode p = LDNS_RCODE_NXDOMAIN" "ldns_pkt_authority p = [soa]"
      "is_soa_with_retry soa 900"
      by blast
    then show ?thesis
      unfolding canary_on_miss [OF q t n miss]
      by (simp add: is_soa_with_retry_def)
  qed
qed


text \<open>
  C10. For a request that carries an unsupported EDNS extension the lookup returns the
  empty result and the forwarder as it was, whatever the cache holds; and
  \<open>handle_message\<close> on such a request (with a question) is the pipeline from the canary
  check on, run on the unchanged forwarder.
\<close>

theorem unsupported_extensions_bypass_cache:
  assumes "has_unsupported_extensions request"
  shows "create_response_from_cache buf settings self key request now
           = (\<lparr>cr_response = None, cr_upstream_id = None, expired = False\<rparr>, self)
       \<and> (ldns_pkt_question request \<noteq> [] \<longrightarrow>
            handle_message x settings self (Some request) now_lookup now_insert
              = process_request x settings self request (get_cache_key request) now_insert)"
proof -
  have "cache_miss x settings self request now_lookup"
    using assms by (simp add: cache_miss_def create_response_from_cache_unsupported)
  then show ?thesis
    using assms by (simp add: create_response_from_cache_unsupported handle_message_miss)
qed


text \<open>
  The cache holds an entry for example.com; a query for it that carries EDNS data misses,
  the forwarder stays as it is, and the query goes through the pipeline.
\<close>

theorem unsupported_extensions_bypass_cache_witness:
  "lru_find (response_cache sample_cached) ''1|1|00|example.com.'' \<noteq> None
   \<and> create_response_from_cache 4096 sample_settings sample_cached ''1|1|00|example.com.''
        ((sample_query 0x1234 example_com LDNS_RR_TYPE_A)\<lparr>ldns_pkt_edns_data := Some ''x''\<rparr>)
        (seconds 10)
      = (\<lparr>cr_response = None, cr_upstream_id = None, expired = False\<rparr>, sample_cached)
   \<and> handle_message sample_externals sample_settings sample_cached
        (Some ((sample_query 0x1234 example_com LDNS_RR_TYPE_A)\<lparr>ldns_pkt_edns_data := Some ''x''\<rparr>))
        (seconds 10) (seconds 10)
      = process_request sample_externals sample_settings sample_cached
          ((sample_query 0x1234 example_com LDNS_RR_TYPE_A)\<lparr>ldns_pkt_edns_data := Some ''x''\<rparr>)
          (get_cache_key
             ((sample_query 0x1234 example_com LDNS_RR_TYPE_A)\<lparr>ldns_pkt_edns_data := Some ''x''\<rparr>))
          (seconds 10)"
proof -
  let ?q = "(sample_query 0x1234 example_com LDNS_RR_TYPE_A)\<lparr>ldns_pkt_edns_data := Some ''x''\<rparr>"
  have a: "has_unsupported_extensions ?q"
    by (simp add: has_unsupported_extensions_def)
  have b: "ldns_pkt_question ?q \<noteq> []"
    by (simp add: sample_query_def)
  have c: "lru_find (response_cache sample_cached) ''1|1|00|example.com.'' \<noteq> None"
    by (simp add: sample_cached_eq lru_find_def)
  show ?thesis
    using unsupported_extensions_bypass_cache [OF a, of 4096 sample_settings sample_cached
        "''1|1|00|example.com.''" "seconds 10" sample_externals "seconds 10" "seconds 10"] b c
    by simp
qed

end
